theory Spec2Isabelle
  imports Complex_Main
begin

section \<open>Numbers\<close>

text \<open>
  The services compute with two kinds of numbers. A JavaScript \<open>number\<close> is an IEEE 754
  binary64 value; \<open>+\<close>, \<open>-\<close> and the conversion \<open>Number(x)\<close> round their exact result to
  the nearest binary64 value, ties to even. A Prisma \<open>Decimal\<close> (decimal.js) is a decimal
  number: \<open>new Decimal(x)\<close> of a number reads the decimal notation that JavaScript prints
  for it, and \<open>plus\<close> and \<open>minus\<close> round their exact result to the 20 significant digits
  of the library's default precision. The columns \<open>currentBalance\<close>, \<open>amount\<close>,
  \<open>actualBalance\<close>, ... have the type \<open>Decimal(15, 2)\<close>: PostgreSQL rounds a value
  written to them to two decimal places and refuses one that rounds to \<open>10 ^ 13\<close> or
  more. All numbers are modelled by their exact rational value. The model covers
  finite numbers: \<open>NaN\<close> and the infinities are outside it, and an input of type
  \<open>number\<close> is taken to be a binary64 value.
\<close>

type_synonym Decimal = rat
type_synonym number = rat

text \<open>\<open>bits n\<close> is the length of the binary representation of a positive \<open>n\<close>.\<close>

function bits :: "int \<Rightarrow> int" where
  "bits n = (if n \<le> 0 then 0 else 1 + bits (n div 2))"
  by pat_completeness auto
termination
  by (relation "measure nat") auto

declare bits.simps [simp del]

definition pow2 :: "int \<Rightarrow> rat" where
  "pow2 k = (if 0 \<le> k then 2 ^ nat k else 1 / 2 ^ nat (- k))"

text \<open>The binary exponent of \<open>a > 0\<close>: the \<open>e\<close> with \<open>2 ^ e \<le> a < 2 ^ (e + 1)\<close>.\<close>

definition ilog2 :: "rat \<Rightarrow> int" where
  "ilog2 a = (if 1 \<le> a then bits \<lfloor>a\<rfloor> - 1 else - bits (\<lceil>1 / a\<rceil> - 1))"

definition roundTiesToEven :: "rat \<Rightarrow> int" where
  "roundTiesToEven r =
     (let f = \<lfloor>r\<rfloor>; d = r - of_int f
      in if d < 1 / 2 then f else if 1 / 2 < d then f + 1 else if even f then f else f + 1)"

text \<open>
  \<open>fl x\<close> is the binary64 value nearest to \<open>x\<close>: 53 significant bits, the exponent
  bounded below by \<open>- 1022\<close> (subnormal numbers share the smallest exponent).
\<close>

definition fl :: "rat \<Rightarrow> number" where
  "fl x =
     (if x = 0 then 0
      else let a = \<bar>x\<bar>; e = max (ilog2 a) (- 1022); q = pow2 (e - 52)
           in sgn x * of_int (roundTiesToEven (a / q)) * q)"

text \<open>\<open>Number(d)\<close> of a Decimal, and \<open>a + b\<close>, \<open>a - b\<close> on numbers.\<close>

definition Number :: "Decimal \<Rightarrow> number" where
  "Number d = fl d"

definition plus_number :: "number \<Rightarrow> number \<Rightarrow> number" where
  "plus_number a b = fl (a + b)"

definition minus_number :: "number \<Rightarrow> number \<Rightarrow> number" where
  "minus_number a b = fl (a - b)"

text \<open>
  \<open>digits n\<close> is the length of the decimal representation of a positive \<open>n\<close>, and
  \<open>ilog10 a\<close> the decimal exponent of \<open>a > 0\<close>: the \<open>e\<close> with
  \<open>10 ^ e \<le> a < 10 ^ (e + 1)\<close>.
\<close>

function digits :: "int \<Rightarrow> int" where
  "digits n = (if n \<le> 0 then 0 else 1 + digits (n div 10))"
  by pat_completeness auto
termination
  by (relation "measure nat") auto

declare digits.simps [simp del]

definition pow10 :: "int \<Rightarrow> rat" where
  "pow10 k = (if 0 \<le> k then 10 ^ nat k else 1 / 10 ^ nat (- k))"

definition ilog10 :: "rat \<Rightarrow> int" where
  "ilog10 a = (if 1 \<le> a then digits \<lfloor>a\<rfloor> - 1 else - digits (\<lceil>1 / a\<rceil> - 1))"

text \<open>
  The decimal notation of a number \<open>a > 0\<close> (\<open>Number::toString\<close>): the decimal with the
  fewest significant digits \<open>k\<close> that reads back as \<open>a\<close>, the one nearest to \<open>a\<close> when
  there are several, the even one when two are equally near. The nearest decimals of
  \<open>k\<close> digits below and above \<open>a\<close> are \<open>lo\<close> and \<open>hi\<close>; 17 digits always suffice
  for a binary64 value.
\<close>

fun shortest :: "nat \<Rightarrow> int \<Rightarrow> number \<Rightarrow> Decimal" where
  "shortest 0 k a = a"
| "shortest (Suc n) k a =
     (let q = pow10 (ilog10 a - k + 1);
          lo = of_int \<lfloor>a / q\<rfloor> * q;
          hi = of_int \<lceil>a / q\<rceil> * q
      in if fl lo = a \<and> (fl hi \<noteq> a \<or> a - lo < hi - a \<or> a - lo = hi - a \<and> even \<lfloor>a / q\<rfloor>)
         then lo
         else if fl hi = a then hi
         else shortest n (k + 1) a)"

text \<open>\<open>new Decimal(x)\<close> of a number, also when Prisma writes a number to a Decimal column.\<close>

definition toDecimal :: "number \<Rightarrow> Decimal" where
  "toDecimal x = (if x = 0 then 0 else sgn x * shortest 17 1 \<bar>x\<bar>)"

text \<open>
  The rounding of a result of decimal.js to 20 significant digits, half away from zero
  (\<open>precision: 20, rounding: ROUND_HALF_UP\<close>), and the methods \<open>plus\<close> and \<open>minus\<close>.
\<close>

definition finalise :: "Decimal \<Rightarrow> Decimal" where
  "finalise d =
     (if d = 0 then 0
      else let a = \<bar>d\<bar>; q = pow10 (ilog10 a - 19)
           in sgn d * of_int \<lfloor>a / q + 1 / 2\<rfloor> * q)"

definition Decimal_plus :: "Decimal \<Rightarrow> Decimal \<Rightarrow> Decimal" where
  "Decimal_plus a b = finalise (a + b)"

definition Decimal_minus :: "Decimal \<Rightarrow> Decimal \<Rightarrow> Decimal" where
  "Decimal_minus a b = finalise (a - b)"

text \<open>
  A \<open>Decimal(15, 2)\<close> column: the value it holds for a value written to it, rounded to
  two places half away from zero, and whether the value is in its range.
\<close>

definition decimal_15_2 :: "Decimal \<Rightarrow> Decimal" where
  "decimal_15_2 d = sgn d * of_int \<lfloor>\<bar>d\<bar> * 100 + 1 / 2\<rfloor> / 100"

definition in_range :: "Decimal \<Rightarrow> bool" where
  "in_range d \<longleftrightarrow> \<bar>decimal_15_2 d\<bar> < 10 ^ 13"

section \<open>Data model (prisma/schema.prisma)\<close>

text \<open>
  Dates are day numbers (\<open>@db.Date\<close>), so the day before \<open>d\<close> is \<open>d - 1\<close>: the server
  is taken to run in UTC, where the local midnight that \<open>setHours(0, 0, 0, 0)\<close> sets is
  the date itself. Bank accounts and users are named by strings, transactions by natural
  numbers. The timestamps \<open>createdAt\<close> and \<open>updatedAt\<close>, the surrogate \<open>id\<close> of a daily
  balance and the clock-derived \<open>referenceNumber\<close> are not modelled, and neither are the
  tables of users and categories: an id of a user or a category is taken to name a row.
\<close>

datatype TransactionType = DEPOSIT | WITHDRAWAL | EXPENSE | TRANSFER

record BankAccount =
  accountNumber :: string
  currentBalance :: Decimal

record Transaction =
  txId :: nat
  transactionDate :: int
  transactionTime :: string
  txType :: TransactionType
  amount :: Decimal
  balanceAfter :: Decimal
  txNote :: "string option"
  bankAccountId :: string
  categoryId :: "string option"
  createdBy :: string
  relatedTransactionId :: "nat option"

record DailyBalance =
  balanceDate :: int
  bankAccountId_db :: string
  openingBalance :: Decimal
  closingBalance :: Decimal
  actualBalance :: Decimal
  totalDeposits :: Decimal
  totalWithdrawals :: Decimal
  totalExpenses :: Decimal
  totalTransfers :: Decimal
  unknownDeposits :: Decimal
  profit :: Decimal
  isClosed :: bool
  closedBy :: "string option"

text \<open>
  The database: accounts by id, the transaction rows in the order in which a scan of
  the table returns them (\<open>findMany\<close> has no \<open>orderBy\<close>), and the daily balances under
  their unique key \<open>(balanceDate, bankAccountId)\<close>.
\<close>

record database =
  bankAccount :: "string \<rightharpoonup> BankAccount"
  transaction :: "Transaction list"
  dailyBalance :: "int \<times> string \<rightharpoonup> DailyBalance"

text \<open>
  The errors of the services, and those of the storage layer: no row for an \<open>update\<close> or
  a \<open>delete\<close> (P2025), a value out of the range of its column (P2020), and a reference
  to a row that does not exist (P2003).
\<close>

datatype error =
    ACCOUNT_NOT_FOUND
  | TARGET_ACCOUNT_NOT_FOUND
  | ALREADY_CLOSED
  | DAILY_BALANCE_NOT_CLOSED
  | INSUFFICIENT_BALANCE
  | TRANSACTION_NOT_FOUND
  | RECORD_NOT_FOUND
  | VALUE_OUT_OF_RANGE
  | FOREIGN_KEY_VIOLATION

text \<open>
  A call returns its result or the error it threw, and the database it leaves.
  \<open>prisma.$transaction\<close> runs a body on the database and commits what the body wrote
  when it returns; when the body throws, the database is the one before the call.
\<close>

definition prisma_transaction ::
  "(database \<Rightarrow> (error + 'a) \<times> database) \<Rightarrow> database \<Rightarrow> (error + 'a) \<times> database" where
  "prisma_transaction body db =
     (case body db of
        (Inl e, _) \<Rightarrow> (Inl e, db)
      | (Inr r, tx) \<Rightarrow> (Inr r, tx))"

text \<open>
  Every write below is given the decimals that it writes to \<open>Decimal(15, 2)\<close> columns:
  it throws when one of them is out of range, and the row holds them rounded.

  \<open>bankAccount.update\<close> with \<open>data: {currentBalance: balance}\<close>: Prisma throws when no
  row has the id.
\<close>

definition update_bankAccount :: "database \<Rightarrow> string \<Rightarrow> Decimal \<Rightarrow> error + database" where
  "update_bankAccount tx i balance =
     (case bankAccount tx i of
        None \<Rightarrow> Inl RECORD_NOT_FOUND
      | Some a \<Rightarrow>
          if in_range balance
          then Inr (tx\<lparr>bankAccount :=
                 (bankAccount tx)(i \<mapsto> a\<lparr>currentBalance := decimal_15_2 balance\<rparr>)\<rparr>)
          else Inl VALUE_OUT_OF_RANGE)"

text \<open>
  \<open>dailyBalance.update\<close> with \<open>data: {isClosed: false, closedBy: null}\<close>, as every
  reopening in the two services writes it, on a row that was just found.
\<close>

definition set_open :: "database \<Rightarrow> int \<times> string \<Rightarrow> DailyBalance \<Rightarrow> database" where
  "set_open tx k b =
     tx\<lparr>dailyBalance := (dailyBalance tx)(k \<mapsto> b\<lparr>isClosed := False, closedBy := None\<rparr>)\<rparr>"

text \<open>
  \<open>dailyBalance.upsert\<close>: the row under the key is updated, or the new row is created,
  which needs the account that it refers to. Each of \<open>update\<close> and \<open>create\<close> comes
  with the decimals that it writes.
\<close>

definition upsert_dailyBalance ::
  "database \<Rightarrow> int \<times> string \<Rightarrow> Decimal list \<times> (DailyBalance \<Rightarrow> DailyBalance)
     \<Rightarrow> Decimal list \<times> DailyBalance \<Rightarrow> error + DailyBalance \<times> database" where
  "upsert_dailyBalance tx k update create =
     (case dailyBalance tx k of
        Some old \<Rightarrow>
          if list_all in_range (fst update)
          then Inr (snd update old, tx\<lparr>dailyBalance := (dailyBalance tx)(k \<mapsto> snd update old)\<rparr>)
          else Inl VALUE_OUT_OF_RANGE
      | None \<Rightarrow>
          if \<not> list_all in_range (fst create) then Inl VALUE_OUT_OF_RANGE
          else if bankAccount tx (snd k) = None then Inl FOREIGN_KEY_VIOLATION
          else Inr (snd create, tx\<lparr>dailyBalance := (dailyBalance tx)(k \<mapsto> snd create)\<rparr>))"

section \<open>DailyBalanceService\<close>

record Totals =
  totalDeposits_calc :: number
  totalWithdrawals_calc :: number
  totalExpenses_calc :: number
  totalTransfers_calc :: number

record Calculation = Totals +
  openingBalance_calc :: number
  closingBalance_calc :: number
  transactionCount :: nat

text \<open>The callback of \<open>transactions.reduce\<close>.\<close>

definition addTransaction :: "Totals \<Rightarrow> Transaction \<Rightarrow> Totals" where
  "addTransaction acc t =
     (let amount' = Number (amount t)
      in case txType t of
           DEPOSIT \<Rightarrow> acc\<lparr>totalDeposits_calc := plus_number (totalDeposits_calc acc) amount'\<rparr>
         | WITHDRAWAL \<Rightarrow> acc\<lparr>totalWithdrawals_calc := plus_number (totalWithdrawals_calc acc) amount'\<rparr>
         | EXPENSE \<Rightarrow> acc\<lparr>totalExpenses_calc := plus_number (totalExpenses_calc acc) amount'\<rparr>
         | TRANSFER \<Rightarrow> acc\<lparr>totalTransfers_calc := plus_number (totalTransfers_calc acc) amount'\<rparr>)"

definition transactions_of :: "database \<Rightarrow> string \<Rightarrow> int \<Rightarrow> Transaction list" where
  "transactions_of db accId date =
     filter (\<lambda>t. bankAccountId t = accId \<and> transactionDate t = date) (transaction db)"

text \<open>\<open>calculateDailyBalance\<close> (lines 4 to 72, the same in both copies of the service).\<close>

definition calculateDailyBalance :: "database \<Rightarrow> string \<Rightarrow> int \<Rightarrow> Calculation" where
  "calculateDailyBalance db accId date =
     (let previousDay = date - 1;
          previousBalance = dailyBalance db (previousDay, accId);
          openingBalance' = (case previousBalance of Some p \<Rightarrow> Number (actualBalance p) | None \<Rightarrow> 0);
          transactions = transactions_of db accId date;
          totals = foldl addTransaction
            \<lparr>totalDeposits_calc = 0, totalWithdrawals_calc = 0,
             totalExpenses_calc = 0, totalTransfers_calc = 0\<rparr> transactions;
          closingBalance' =
            minus_number
              (minus_number
                (minus_number (plus_number openingBalance' (totalDeposits_calc totals))
                   (totalWithdrawals_calc totals))
                (totalExpenses_calc totals))
              (totalTransfers_calc totals)
      in \<lparr>totalDeposits_calc = totalDeposits_calc totals,
          totalWithdrawals_calc = totalWithdrawals_calc totals,
          totalExpenses_calc = totalExpenses_calc totals,
          totalTransfers_calc = totalTransfers_calc totals,
          openingBalance_calc = openingBalance',
          closingBalance_calc = closingBalance',
          transactionCount = length transactions\<rparr>)"

text \<open>
  The figures that \<open>closeDailyBalance\<close> and \<open>autoCloseDailyBalance\<close> both compute from
  the calculation and the actual balance, by the same lines.
\<close>

record Reconciliation =
  totalOutflow :: number
  totalKnownDeposits :: number
  balanceChange :: number
  totalAllDeposits :: number
  unknownDeposits_rec :: number
  profit_rec :: number

definition reconcile :: "Calculation \<Rightarrow> number \<Rightarrow> Reconciliation" where
  "reconcile calculation actual =
     (let totalOutflow' =
            plus_number
              (plus_number (totalWithdrawals_calc calculation) (totalExpenses_calc calculation))
              (totalTransfers_calc calculation);
          totalKnownDeposits' = totalDeposits_calc calculation;
          balanceChange' = minus_number actual (openingBalance_calc calculation);
          totalAllDeposits' = plus_number totalOutflow' balanceChange';
          unknownDeposits' = minus_number totalAllDeposits' totalKnownDeposits';
          profit' =
            minus_number unknownDeposits'
              (plus_number (totalWithdrawals_calc calculation) (totalExpenses_calc calculation))
      in \<lparr>totalOutflow = totalOutflow', totalKnownDeposits = totalKnownDeposits',
          balanceChange = balanceChange', totalAllDeposits = totalAllDeposits',
          unknownDeposits_rec = unknownDeposits', profit_rec = profit'\<rparr>)"

text \<open>
  The \<open>update\<close> and \<open>create\<close> arguments of the upsert. Every figure is a \<open>number\<close>:
  the column holds its decimal notation, rounded to two places.
\<close>

definition written :: "number \<Rightarrow> Decimal" where
  "written x = decimal_15_2 (toDecimal x)"

definition closed_update_data :: "Calculation \<Rightarrow> Reconciliation \<Rightarrow> number \<Rightarrow> Decimal list" where
  "closed_update_data calculation figures actual =
     map toDecimal
       [actual, totalDeposits_calc calculation, totalWithdrawals_calc calculation,
        totalExpenses_calc calculation, totalTransfers_calc calculation,
        unknownDeposits_rec figures, profit_rec figures]"

definition closed_update ::
  "Calculation \<Rightarrow> Reconciliation \<Rightarrow> number \<Rightarrow> string \<Rightarrow> DailyBalance \<Rightarrow> DailyBalance" where
  "closed_update calculation figures actual userId old =
     old\<lparr>actualBalance := written actual,
         totalDeposits := written (totalDeposits_calc calculation),
         totalWithdrawals := written (totalWithdrawals_calc calculation),
         totalExpenses := written (totalExpenses_calc calculation),
         totalTransfers := written (totalTransfers_calc calculation),
         unknownDeposits := written (unknownDeposits_rec figures),
         profit := written (profit_rec figures),
         isClosed := True,
         closedBy := Some userId\<rparr>"

definition closed_create_data :: "Calculation \<Rightarrow> Reconciliation \<Rightarrow> number \<Rightarrow> Decimal list" where
  "closed_create_data calculation figures actual =
     map toDecimal [openingBalance_calc calculation, closingBalance_calc calculation]
       @ closed_update_data calculation figures actual"

definition closed_create ::
  "Calculation \<Rightarrow> Reconciliation \<Rightarrow> string \<Rightarrow> int \<Rightarrow> number \<Rightarrow> string \<Rightarrow> DailyBalance" where
  "closed_create calculation figures accId date actual userId =
     \<lparr>balanceDate = date,
      bankAccountId_db = accId,
      openingBalance = written (openingBalance_calc calculation),
      closingBalance = written (closingBalance_calc calculation),
      actualBalance = written actual,
      totalDeposits = written (totalDeposits_calc calculation),
      totalWithdrawals = written (totalWithdrawals_calc calculation),
      totalExpenses = written (totalExpenses_calc calculation),
      totalTransfers = written (totalTransfers_calc calculation),
      unknownDeposits = written (unknownDeposits_rec figures),
      profit = written (profit_rec figures),
      isClosed = True,
      closedBy = Some userId\<rparr>"

text \<open>
  \<open>closeDailyBalance\<close> (unnamed/part_002, lines 74 to 163). The calculation reads
  through the global client \<open>prisma\<close>, the other steps through the transaction \<open>tx\<close>.
\<close>

definition closeDailyBalance_tx ::
  "database \<Rightarrow> string \<Rightarrow> int \<Rightarrow> number \<Rightarrow> string \<Rightarrow> database
     \<Rightarrow> (error + DailyBalance) \<times> database" where
  "closeDailyBalance_tx prisma accId date actual userId tx =
     (let existingBalance = dailyBalance tx (date, accId)
      in if (case existingBalance of Some b \<Rightarrow> isClosed b | None \<Rightarrow> False)
         then (Inl ALREADY_CLOSED, tx)
         else
           let calculation = calculateDailyBalance prisma accId date;
               figures = reconcile calculation actual
           in case upsert_dailyBalance tx (date, accId)
                     (closed_update_data calculation figures actual,
                      closed_update calculation figures actual userId)
                     (closed_create_data calculation figures actual,
                      closed_create calculation figures accId date actual userId) of
                Inl e \<Rightarrow> (Inl e, tx)
              | Inr (row, tx1) \<Rightarrow>
                  (case update_bankAccount tx1 accId (toDecimal actual) of
                     Inl e \<Rightarrow> (Inl e, tx1)
                   | Inr tx2 \<Rightarrow> (Inr row, tx2)))"

definition closeDailyBalance ::
  "string \<Rightarrow> int \<Rightarrow> number \<Rightarrow> string \<Rightarrow> database \<Rightarrow> (error + DailyBalance) \<times> database" where
  "closeDailyBalance accId date actual userId db =
     prisma_transaction (closeDailyBalance_tx db accId date actual userId) db"

text \<open>
  The earlier \<open>closeDailyBalance\<close> of src/src/services/dailyBalance.service.ts (lines 74 to
  155): the same guard, calculation and upsert through the global client, outside any
  transaction, and no write of the account.
\<close>

definition closeDailyBalance_earlier ::
  "string \<Rightarrow> int \<Rightarrow> number \<Rightarrow> string \<Rightarrow> database \<Rightarrow> (error + DailyBalance) \<times> database" where
  "closeDailyBalance_earlier accId date actual userId prisma =
     (let existingBalance = dailyBalance prisma (date, accId)
      in if (case existingBalance of Some b \<Rightarrow> isClosed b | None \<Rightarrow> False)
         then (Inl ALREADY_CLOSED, prisma)
         else
           let calculation = calculateDailyBalance prisma accId date;
               figures = reconcile calculation actual
           in case upsert_dailyBalance prisma (date, accId)
                     (closed_update_data calculation figures actual,
                      closed_update calculation figures actual userId)
                     (closed_create_data calculation figures actual,
                      closed_create calculation figures accId date actual userId) of
                Inl e \<Rightarrow> (Inl e, prisma)
              | Inr (row, prisma1) \<Rightarrow> (Inr row, prisma1))"

text \<open>\<open>reopenDailyBalance\<close> (lines 165 to 202).\<close>

definition reopenDailyBalance_tx ::
  "string \<Rightarrow> int \<Rightarrow> string \<Rightarrow> database \<Rightarrow> (error + bool) \<times> database" where
  "reopenDailyBalance_tx accId date userId tx =
     (case dailyBalance tx (date, accId) of
        None \<Rightarrow> (Inl DAILY_BALANCE_NOT_CLOSED, tx)
      | Some b \<Rightarrow>
          if \<not> isClosed b then (Inl DAILY_BALANCE_NOT_CLOSED, tx)
          else (Inr True, set_open tx (date, accId) b))"

definition reopenDailyBalance ::
  "string \<Rightarrow> int \<Rightarrow> string \<Rightarrow> database \<Rightarrow> (error + bool) \<times> database" where
  "reopenDailyBalance accId date userId db =
     prisma_transaction (reopenDailyBalance_tx accId date userId) db"

text \<open>\<open>autoCloseDailyBalance\<close> (lines 281 to 347).\<close>

definition autoCloseDailyBalance_tx ::
  "database \<Rightarrow> string \<Rightarrow> int \<Rightarrow> number \<Rightarrow> string \<Rightarrow> database
     \<Rightarrow> (error + DailyBalance) \<times> database" where
  "autoCloseDailyBalance_tx prisma accId date actual userId tx =
     (let calculation = calculateDailyBalance prisma accId date;
          figures = reconcile calculation actual
      in case upsert_dailyBalance tx (date, accId)
                (closed_update_data calculation figures actual,
                 closed_update calculation figures actual userId)
                (closed_create_data calculation figures actual,
                 closed_create calculation figures accId date actual userId) of
           Inl e \<Rightarrow> (Inl e, tx)
         | Inr (row, tx1) \<Rightarrow>
             (case update_bankAccount tx1 accId (toDecimal actual) of
                Inl e \<Rightarrow> (Inl e, tx1)
              | Inr tx2 \<Rightarrow> (Inr row, tx2)))"

definition autoCloseDailyBalance ::
  "string \<Rightarrow> int \<Rightarrow> number \<Rightarrow> string \<Rightarrow> database \<Rightarrow> (error + DailyBalance) \<times> database" where
  "autoCloseDailyBalance accId date actual userId db =
     prisma_transaction (autoCloseDailyBalance_tx db accId date actual userId) db"

section \<open>TransactionService\<close>

text \<open>
  The current processing date \<open>today\<close> (\<open>new Date()\<close> at local midnight) is a parameter
  of every operation. An absent optional field of an input is \<open>None\<close>.
\<close>

record CreateTransactionInput =
  transactionDate_in :: int
  transactionTime_in :: string
  type_in :: TransactionType
  amount_in :: number
  bankAccountId_in :: string
  categoryId_in :: "string option"
  note_in :: "string option"
  transferToBankAccountId_in :: "string option"
  createdBy_in :: string

record UpdateTransactionInput =
  amount_up :: "number option"
  note_up :: "string option"
  categoryId_up :: "string option"

record CreateResult =
  transaction_res :: Transaction
  relatedTransaction_res :: "Transaction option"
  reopenedDailyBalance :: bool

record UpdateResult =
  transaction_upd :: Transaction
  isHistoricalUpdate :: bool
  reopenedDailyBalance_upd :: bool

record DeleteResult =
  success :: bool
  isHistoricalDeletion :: bool
  reopenedDailyBalance_del :: bool

record BulkResult =
  updatedTransactions :: nat
  affectedDates :: "int list"
  affectedBankAccounts :: "string list"

text \<open>The default \<open>cuid()\<close> of a new row: an id that no row of the table has.\<close>

definition new_id :: "Transaction list \<Rightarrow> nat" where
  "new_id rows = Suc (foldr (\<lambda>t. max (txId t)) rows 0)"

definition findUnique_transaction :: "database \<Rightarrow> nat \<Rightarrow> Transaction option" where
  "findUnique_transaction tx i = find (\<lambda>t. txId t = i) (transaction tx)"

text \<open>
  \<open>transaction.create\<close>: the new row is the last of the table. \<open>transaction.update\<close>:
  Prisma throws when no row has the id; PostgreSQL writes the new version of the row after
  the other rows, so that a scan returns it last.
\<close>

definition create_transaction ::
  "database \<Rightarrow> Decimal list \<Rightarrow> (nat \<Rightarrow> Transaction) \<Rightarrow> error + Transaction \<times> database" where
  "create_transaction tx decimals data =
     (if list_all in_range decimals
      then let row = data (new_id (transaction tx))
           in Inr (row, tx\<lparr>transaction := transaction tx @ [row]\<rparr>)
      else Inl VALUE_OUT_OF_RANGE)"

definition update_transaction ::
  "database \<Rightarrow> nat \<Rightarrow> Decimal list \<Rightarrow> (Transaction \<Rightarrow> Transaction)
     \<Rightarrow> error + Transaction \<times> database" where
  "update_transaction tx i decimals f =
     (case findUnique_transaction tx i of
        None \<Rightarrow> Inl RECORD_NOT_FOUND
      | Some t \<Rightarrow>
          if list_all in_range decimals
          then Inr (f t, tx\<lparr>transaction := filter (\<lambda>r. txId r \<noteq> i) (transaction tx) @ [f t]\<rparr>)
          else Inl VALUE_OUT_OF_RANGE)"

text \<open>
  \<open>transaction.delete\<close>: Prisma throws when no row has the id. The optional relation
  \<open>relatedTransaction\<close> has the default referential action \<open>SetNull\<close>: a row that
  refers to the deleted one loses the reference, which is an update of that row.
\<close>

definition delete_transaction :: "database \<Rightarrow> nat \<Rightarrow> error + database" where
  "delete_transaction tx i =
     (case findUnique_transaction tx i of
        None \<Rightarrow> Inl RECORD_NOT_FOUND
      | Some _ \<Rightarrow>
          let rest = filter (\<lambda>r. txId r \<noteq> i) (transaction tx)
          in Inr (tx\<lparr>transaction :=
               filter (\<lambda>r. relatedTransactionId r \<noteq> Some i) rest
                 @ map (\<lambda>r. r\<lparr>relatedTransactionId := None\<rparr>)
                     (filter (\<lambda>r. relatedTransactionId r = Some i) rest)\<rparr>))"

text \<open>
  The reopening that create, update, delete and the bulk update share:
  \<open>if (dailyBalance && dailyBalance.isClosed)\<close> then the row is set open.
\<close>

definition reopen_if_closed :: "database \<Rightarrow> int \<times> string \<Rightarrow> database" where
  "reopen_if_closed tx k =
     (case dailyBalance tx k of
        None \<Rightarrow> tx
      | Some b \<Rightarrow> if isClosed b then set_open tx k b else tx)"

text \<open>A string is truthy when it is present and not empty.\<close>

definition truthy :: "string option \<Rightarrow> bool" where
  "truthy x = (case x of None \<Rightarrow> False | Some v \<Rightarrow> v \<noteq> [])"

text \<open>
  \<open>createTransaction\<close> (src/src/services/transaction.service.ts, lines 23 to 163). The
  new balance is a \<open>Decimal\<close>, computed by \<open>plus\<close> and \<open>minus\<close> from the current balance
  and the amount; the amount itself is written as a \<open>number\<close>.
\<close>

definition createTransaction_tx ::
  "int \<Rightarrow> CreateTransactionInput \<Rightarrow> database \<Rightarrow> (error + CreateResult) \<times> database" where
  "createTransaction_tx today input tx =
     (case bankAccount tx (bankAccountId_in input) of
        None \<Rightarrow> (Inl ACCOUNT_NOT_FOUND, tx)
      | Some bankAccount' \<Rightarrow>
          let transactionDate' = transactionDate_in input;
              existingDailyBalance = dailyBalance tx (transactionDate', bankAccountId_in input);
              tx1 = reopen_if_closed tx (transactionDate', bankAccountId_in input);
              newBalance =
                (if type_in input = DEPOSIT
                 then Decimal_plus (currentBalance bankAccount') (toDecimal (amount_in input))
                 else Decimal_minus (currentBalance bankAccount') (toDecimal (amount_in input)));
              reopened = (case existingDailyBalance of Some b \<Rightarrow> isClosed b | None \<Rightarrow> False)
          in case create_transaction tx1 [toDecimal (amount_in input), newBalance] (\<lambda>i.
                    \<lparr>txId = i,
                     transactionDate = transactionDate_in input,
                     transactionTime = transactionTime_in input,
                     txType = type_in input,
                     amount = written (amount_in input),
                     balanceAfter = decimal_15_2 newBalance,
                     txNote = note_in input,
                     bankAccountId = bankAccountId_in input,
                     categoryId = categoryId_in input,
                     createdBy = createdBy_in input,
                     relatedTransactionId = None\<rparr>) of
               Inl e \<Rightarrow> (Inl e, tx1)
             | Inr (transaction', tx2) \<Rightarrow>
          (case (if transactionDate' = today
                 then update_bankAccount tx2 (bankAccountId_in input) newBalance
                 else Inr tx2) of
             Inl e \<Rightarrow> (Inl e, tx2)
           | Inr tx3 \<Rightarrow>
               if type_in input = TRANSFER \<and> truthy (transferToBankAccountId_in input)
               then
                 let target = the (transferToBankAccountId_in input)
                 in case bankAccount tx3 target of
                      None \<Rightarrow> (Inl TARGET_ACCOUNT_NOT_FOUND, tx3)
                    | Some targetAccount \<Rightarrow>
                        let targetNewBalance =
                              Decimal_plus (currentBalance targetAccount)
                                (toDecimal (amount_in input))
                        in case create_transaction tx3
                                  [toDecimal (amount_in input), targetNewBalance] (\<lambda>i.
                                  \<lparr>txId = i,
                                   transactionDate = transactionDate_in input,
                                   transactionTime = transactionTime_in input,
                                   txType = DEPOSIT,
                                   amount = written (amount_in input),
                                   balanceAfter = decimal_15_2 targetNewBalance,
                                   txNote = Some (''Transfer from '' @ accountNumber bankAccount'),
                                   bankAccountId = target,
                                   categoryId = None,
                                   createdBy = createdBy_in input,
                                   relatedTransactionId = Some (txId transaction')\<rparr>) of
                             Inl e \<Rightarrow> (Inl e, tx3)
                           | Inr (relatedTransaction, tx4) \<Rightarrow>
                        (case update_transaction tx4 (txId transaction') []
                                (\<lambda>r. r\<lparr>relatedTransactionId := Some (txId relatedTransaction)\<rparr>) of
                           Inl e \<Rightarrow> (Inl e, tx4)
                         | Inr (_, tx5) \<Rightarrow>
                             (case (if transactionDate' = today
                                    then update_bankAccount tx5 target targetNewBalance
                                    else Inr tx5) of
                                Inl e \<Rightarrow> (Inl e, tx5)
                              | Inr tx6 \<Rightarrow>
                                  (Inr \<lparr>transaction_res = transaction',
                                        relatedTransaction_res = Some relatedTransaction,
                                        reopenedDailyBalance = reopened\<rparr>, tx6)))
               else
                 (Inr \<lparr>transaction_res = transaction',
                       relatedTransaction_res = None,
                       reopenedDailyBalance = reopened\<rparr>, tx3)))"

definition createTransaction ::
  "int \<Rightarrow> CreateTransactionInput \<Rightarrow> database \<Rightarrow> (error + CreateResult) \<times> database" where
  "createTransaction today input db = prisma_transaction (createTransaction_tx today input) db"

text \<open>
  The \<open>data\<close> of \<open>transaction.update\<close>: a field that the input leaves undefined keeps
  its value, and the amount is the one decimal that is written.
\<close>

definition apply_updates :: "UpdateTransactionInput \<Rightarrow> Transaction \<Rightarrow> Transaction" where
  "apply_updates u t =
     t\<lparr>amount := (case amount_up u of Some a \<Rightarrow> written a | None \<Rightarrow> amount t),
       txNote := (case note_up u of Some n \<Rightarrow> Some n | None \<Rightarrow> txNote t),
       categoryId := (case categoryId_up u of Some c \<Rightarrow> Some c | None \<Rightarrow> categoryId t)\<rparr>"

definition updates_data :: "UpdateTransactionInput \<Rightarrow> Decimal list" where
  "updates_data u = (case amount_up u of Some a \<Rightarrow> [toDecimal a] | None \<Rightarrow> [])"

text \<open>
  \<open>updateTransaction\<close> (lines 165 to 260). The row is read with its account
  (\<open>include: {bankAccount: true}\<close>), which the foreign key guarantees; the model throws
  when the account is missing.
\<close>

definition updateTransaction_tx ::
  "int \<Rightarrow> nat \<Rightarrow> UpdateTransactionInput \<Rightarrow> string \<Rightarrow> database
     \<Rightarrow> (error + UpdateResult) \<times> database" where
  "updateTransaction_tx today transactionId updates userId tx =
     (case findUnique_transaction tx transactionId of
        None \<Rightarrow> (Inl TRANSACTION_NOT_FOUND, tx)
      | Some existingTransaction \<Rightarrow>
          (case bankAccount tx (bankAccountId existingTransaction) of
             None \<Rightarrow> (Inl RECORD_NOT_FOUND, tx)
           | Some bankAccount' \<Rightarrow>
               let transactionDate' = transactionDate existingTransaction;
                   isHistoricalTransaction = (transactionDate' < today);
                   isTodayTransaction = (transactionDate' = today);
                   tx1 = (if isHistoricalTransaction
                          then reopen_if_closed tx
                                 (transactionDate', bankAccountId existingTransaction)
                          else tx)
               in case (case amount_up updates of
                          None \<Rightarrow> Inr tx1
                        | Some newAmount \<Rightarrow>
                            let amountDifference =
                                  minus_number newAmount (Number (amount existingTransaction))
                            in if isTodayTransaction
                               then
                                 let newBalance =
                                       (if txType existingTransaction = DEPOSIT
                                        then Decimal_plus (currentBalance bankAccount')
                                               (toDecimal amountDifference)
                                        else Decimal_minus (currentBalance bankAccount')
                                               (toDecimal amountDifference))
                                 in if Number newBalance < 0
                                    then Inl INSUFFICIENT_BALANCE
                                    else update_bankAccount tx1
                                           (bankAccountId existingTransaction) newBalance
                               else Inr tx1) of
                    Inl e \<Rightarrow> (Inl e, tx1)
                  | Inr tx2 \<Rightarrow>
                      (case update_transaction tx2 transactionId (updates_data updates)
                              (apply_updates updates) of
                         Inl e \<Rightarrow> (Inl e, tx2)
                       | Inr (updatedTransaction, tx3) \<Rightarrow>
                           (Inr \<lparr>transaction_upd = updatedTransaction,
                                 isHistoricalUpdate = isHistoricalTransaction,
                                 reopenedDailyBalance_upd = isHistoricalTransaction\<rparr>, tx3))))"

definition updateTransaction ::
  "int \<Rightarrow> nat \<Rightarrow> UpdateTransactionInput \<Rightarrow> string \<Rightarrow> database
     \<Rightarrow> (error + UpdateResult) \<times> database" where
  "updateTransaction today transactionId updates userId db =
     prisma_transaction (updateTransaction_tx today transactionId updates userId) db"

text \<open>
  \<open>deleteTransaction\<close> (lines 263 to 350). The row is read with its account and with
  the row that \<open>relatedTransactionId\<close> names.
\<close>

definition deleteTransaction_tx ::
  "int \<Rightarrow> nat \<Rightarrow> string \<Rightarrow> database \<Rightarrow> (error + DeleteResult) \<times> database" where
  "deleteTransaction_tx today transactionId userId tx =
     (case findUnique_transaction tx transactionId of
        None \<Rightarrow> (Inl TRANSACTION_NOT_FOUND, tx)
      | Some transaction' \<Rightarrow>
          (case bankAccount tx (bankAccountId transaction') of
             None \<Rightarrow> (Inl RECORD_NOT_FOUND, tx)
           | Some bankAccount' \<Rightarrow>
               let relatedTransaction =
                     (case relatedTransactionId transaction' of
                        None \<Rightarrow> None
                      | Some j \<Rightarrow> findUnique_transaction tx j);
                   transactionDate' = transactionDate transaction';
                   isHistoricalTransaction = (transactionDate' < today);
                   isTodayTransaction = (transactionDate' = today);
                   tx1 = (if isHistoricalTransaction
                          then reopen_if_closed tx (transactionDate', bankAccountId transaction')
                          else tx)
               in case (if isTodayTransaction
                        then
                          let newBalance =
                                (if txType transaction' = DEPOSIT
                                 then Decimal_minus (currentBalance bankAccount') (amount transaction')
                                 else Decimal_plus (currentBalance bankAccount') (amount transaction'))
                          in if Number newBalance < 0
                             then Inl INSUFFICIENT_BALANCE
                             else update_bankAccount tx1 (bankAccountId transaction') newBalance
                        else Inr tx1) of
                    Inl e \<Rightarrow> (Inl e, tx1)
                  | Inr tx2 \<Rightarrow>
                      (case (case relatedTransaction of
                               None \<Rightarrow> Inr tx2
                             | Some related \<Rightarrow> delete_transaction tx2 (txId related)) of
                         Inl e \<Rightarrow> (Inl e, tx2)
                       | Inr tx3 \<Rightarrow>
                           (case delete_transaction tx3 transactionId of
                              Inl e \<Rightarrow> (Inl e, tx3)
                            | Inr tx4 \<Rightarrow>
                                (Inr \<lparr>success = True,
                                      isHistoricalDeletion = isHistoricalTransaction,
                                      reopenedDailyBalance_del = isHistoricalTransaction\<rparr>,
                                 tx4)))))"

definition deleteTransaction ::
  "int \<Rightarrow> nat \<Rightarrow> string \<Rightarrow> database \<Rightarrow> (error + DeleteResult) \<times> database" where
  "deleteTransaction today transactionId userId db =
     prisma_transaction (deleteTransaction_tx today transactionId userId) db"

text \<open>
  \<open>bulkUpdateHistoricalTransactions\<close> (lines 352 to 420). The two \<open>Set\<close>s keep their
  elements in the order of first insertion.
\<close>

definition set_add :: "'a \<Rightarrow> 'a list \<Rightarrow> 'a list" where
  "set_add x xs = (if x \<in> set xs then xs else xs @ [x])"

text \<open>
  The first loop: one step for one element of \<open>updates\<close>, on the two sets and the
  database; after a throw no further step is taken.
\<close>

definition bulk_step ::
  "error + int list \<times> string list \<times> database \<Rightarrow> nat \<times> UpdateTransactionInput
     \<Rightarrow> error + int list \<times> string list \<times> database" where
  "bulk_step st u =
     (case st of
        Inl e \<Rightarrow> Inl e
      | Inr (affectedDates', affectedBankAccounts', tx) \<Rightarrow>
          (case u of (transactionId, transactionUpdates) \<Rightarrow>
             (case findUnique_transaction tx transactionId of
                None \<Rightarrow> st
              | Some transaction' \<Rightarrow>
                  (case update_transaction tx transactionId (updates_data transactionUpdates)
                          (apply_updates transactionUpdates) of
                     Inl e \<Rightarrow> Inl e
                   | Inr (_, tx1) \<Rightarrow>
                       Inr (set_add (transactionDate transaction') affectedDates',
                            set_add (bankAccountId transaction') affectedBankAccounts',
                            tx1)))))"

text \<open>The second loop: for every affected account, for every affected date.\<close>

definition bulk_reopen :: "string list \<Rightarrow> int list \<Rightarrow> database \<Rightarrow> database" where
  "bulk_reopen accounts dates tx =
     foldl (\<lambda>tx1 bankAccountId'.
        foldl (\<lambda>tx2 date. reopen_if_closed tx2 (date, bankAccountId')) tx1 dates) tx accounts"

definition bulkUpdateHistoricalTransactions_tx ::
  "(nat \<times> UpdateTransactionInput) list \<Rightarrow> string \<Rightarrow> database \<Rightarrow> (error + BulkResult) \<times> database" where
  "bulkUpdateHistoricalTransactions_tx updates userId tx =
     (case foldl bulk_step (Inr ([], [], tx)) updates of
        Inl e \<Rightarrow> (Inl e, tx)
      | Inr (affectedDates', affectedBankAccounts', tx1) \<Rightarrow>
          (Inr \<lparr>updatedTransactions = length updates,
                affectedDates = affectedDates',
                affectedBankAccounts = affectedBankAccounts'\<rparr>,
           bulk_reopen affectedBankAccounts' affectedDates' tx1))"

definition bulkUpdateHistoricalTransactions ::
  "(nat \<times> UpdateTransactionInput) list \<Rightarrow> string \<Rightarrow> database \<Rightarrow> (error + BulkResult) \<times> database" where
  "bulkUpdateHistoricalTransactions updates userId db =
     prisma_transaction (bulkUpdateHistoricalTransactions_tx updates userId) db"

text \<open>
  The row that the upsert of \<open>closeDailyBalance\<close> and \<open>autoCloseDailyBalance\<close> leaves
  under the key, the old row updated or the created row, and the decimals that it writes.
\<close>

definition closing_row :: "database \<Rightarrow> string \<Rightarrow> int \<Rightarrow> number \<Rightarrow> string \<Rightarrow> DailyBalance" where
  "closing_row db accId date actual userId =
     (let calculation = calculateDailyBalance db accId date;
          figures = reconcile calculation actual
      in case dailyBalance db (date, accId) of
           Some old \<Rightarrow> closed_update calculation figures actual userId old
         | None \<Rightarrow> closed_create calculation figures accId date actual userId)"

definition closing_data :: "database \<Rightarrow> string \<Rightarrow> int \<Rightarrow> number \<Rightarrow> Decimal list" where
  "closing_data db accId date actual =
     (let calculation = calculateDailyBalance db accId date;
          figures = reconcile calculation actual
      in case dailyBalance db (date, accId) of
           Some old \<Rightarrow> closed_update_data calculation figures actual
         | None \<Rightarrow> closed_create_data calculation figures actual)"

section \<open>Example databases\<close>

definition row_of :: "nat \<Rightarrow> int \<Rightarrow> TransactionType \<Rightarrow> Decimal \<Rightarrow> string \<Rightarrow> Transaction" where
  "row_of i date ty amt accId =
     \<lparr>txId = i, transactionDate = date, transactionTime = ''09:00'', txType = ty,
      amount = amt, balanceAfter = 0, txNote = None, bankAccountId = accId,
      categoryId = None, createdBy = ''user-1'', relatedTransactionId = None\<rparr>"

definition closed_day :: "int \<Rightarrow> string \<Rightarrow> Decimal \<Rightarrow> bool \<Rightarrow> DailyBalance" where
  "closed_day date accId actual c =
     \<lparr>balanceDate = date, bankAccountId_db = accId, openingBalance = 0,
      closingBalance = actual, actualBalance = actual, totalDeposits = actual,
      totalWithdrawals = 0, totalExpenses = 0, totalTransfers = 0,
      unknownDeposits = 0, profit = 0, isClosed = c,
      closedBy = (if c then Some ''user-1'' else None)\<rparr>"

definition scenarioB :: database where
  "scenarioB =
     \<lparr>bankAccount = [''acc-1'' \<mapsto> \<lparr>accountNumber = ''001'', currentBalance = 1150\<rparr>],
      transaction =
        [row_of 1 10 DEPOSIT 300 ''acc-1'', row_of 2 10 WITHDRAWAL 100 ''acc-1'',
         row_of 3 10 EXPENSE 50 ''acc-1''],
      dailyBalance = [(9, ''acc-1'') \<mapsto> closed_day 9 ''acc-1'' 1000 True]\<rparr>"

definition scenarioB_closed :: DailyBalance where
  "scenarioB_closed =
     \<lparr>balanceDate = 10, bankAccountId_db = ''acc-1'', openingBalance = 1000,
      closingBalance = 1150, actualBalance = 2000, totalDeposits = 300,
      totalWithdrawals = 100, totalExpenses = 50, totalTransfers = 0,
      unknownDeposits = 850, profit = 700, isClosed = True, closedBy = Some ''user-2''\<rparr>"

text \<open>
  A day whose record was reopened, and a day with deposits of 0.10 and 0.20 after a day
  that closed with the actual balance 0.10.
\<close>

definition reopenedDay :: database where
  "reopenedDay =
     \<lparr>bankAccount = [''acc-1'' \<mapsto> \<lparr>accountNumber = ''001'', currentBalance = 500\<rparr>],
      transaction = [],
      dailyBalance = [(9, ''acc-1'') \<mapsto> closed_day 9 ''acc-1'' 500 False]\<rparr>"

definition driftDay :: database where
  "driftDay =
     \<lparr>bankAccount = [''acc-1'' \<mapsto> \<lparr>accountNumber = ''001'', currentBalance = 0\<rparr>],
      transaction =
        [row_of 1 10 DEPOSIT (1 / 10) ''acc-1'', row_of 2 10 DEPOSIT (2 / 10) ''acc-1''],
      dailyBalance = [(9, ''acc-1'') \<mapsto> closed_day 9 ''acc-1'' (1 / 10) True]\<rparr>"

text \<open>
  A day without transactions after a day that closed with the actual balance 0.13, to
  be closed with the actual balance 0.125.
\<close>

definition boundaryDay :: database where
  "boundaryDay =
     \<lparr>bankAccount = [''acc-1'' \<mapsto> \<lparr>accountNumber = ''001'', currentBalance = 13 / 100\<rparr>],
      transaction = [],
      dailyBalance = [(9, ''acc-1'') \<mapsto> closed_day 9 ''acc-1'' (13 / 100) True]\<rparr>"

definition boundaryDay_closed :: DailyBalance where
  "boundaryDay_closed =
     \<lparr>balanceDate = 10, bankAccountId_db = ''acc-1'', openingBalance = 13 / 100,
      closingBalance = 13 / 100, actualBalance = 13 / 100, totalDeposits = 0,
      totalWithdrawals = 0, totalExpenses = 0, totalTransfers = 0,
      unknownDeposits = - 1 / 100, profit = - 1 / 100, isClosed = True,
      closedBy = Some ''user-2''\<rparr>"

text \<open>Inputs and databases for the transaction service.\<close>

definition scenarioA :: database where
  "scenarioA =
     \<lparr>bankAccount = [''acc-1'' \<mapsto> \<lparr>accountNumber = ''001'', currentBalance = 1000\<rparr>],
      transaction = [],
      dailyBalance = Map.empty\<rparr>"

definition new_transaction ::
  "int \<Rightarrow> TransactionType \<Rightarrow> number \<Rightarrow> string \<Rightarrow> string option \<Rightarrow> CreateTransactionInput" where
  "new_transaction date ty amt accId target =
     \<lparr>transactionDate_in = date, transactionTime_in = ''09:00'', type_in = ty,
      amount_in = amt, bankAccountId_in = accId, categoryId_in = None, note_in = None,
      transferToBankAccountId_in = target, createdBy_in = ''user-1''\<rparr>"

definition deposit_today :: CreateTransactionInput where
  "deposit_today = new_transaction 10 DEPOSIT 500 ''acc-1'' None"

definition withdrawal_in_the_past :: CreateTransactionInput where
  "withdrawal_in_the_past = new_transaction 9 WITHDRAWAL 200 ''acc-1'' None"

definition new_amount :: "number \<Rightarrow> UpdateTransactionInput" where
  "new_amount a = \<lparr>amount_up = Some a, note_up = None, categoryId_up = None\<rparr>"

definition twoAccounts :: database where
  "twoAccounts =
     \<lparr>bankAccount =
        [''acc-1'' \<mapsto> \<lparr>accountNumber = ''001'', currentBalance = 1000\<rparr>,
         ''acc-2'' \<mapsto> \<lparr>accountNumber = ''002'', currentBalance = 200\<rparr>],
      transaction = [],
      dailyBalance = Map.empty\<rparr>"

definition transfer_today :: CreateTransactionInput where
  "transfer_today = new_transaction 10 TRANSFER 300 ''acc-1'' (Some ''acc-2'')"

definition transfer_without_destination :: CreateTransactionInput where
  "transfer_without_destination = new_transaction 10 TRANSFER 300 ''acc-1'' None"

definition summary :: "Transaction \<Rightarrow> nat \<times> TransactionType \<times> string \<times> Decimal \<times> nat option" where
  "summary t = (txId t, txType t, bankAccountId t, amount t, relatedTransactionId t)"

text \<open>The database after \<open>transfer_today\<close> on \<open>twoAccounts\<close>.\<close>

definition afterTransfer :: database where
  "afterTransfer =
     \<lparr>bankAccount =
        [''acc-1'' \<mapsto> \<lparr>accountNumber = ''001'', currentBalance = 700\<rparr>,
         ''acc-2'' \<mapsto> \<lparr>accountNumber = ''002'', currentBalance = 500\<rparr>],
      transaction =
        [\<lparr>txId = 2, transactionDate = 10, transactionTime = ''09:00'', txType = DEPOSIT,
          amount = 300, balanceAfter = 500, txNote = Some ''Transfer from 001'',
          bankAccountId = ''acc-2'', categoryId = None, createdBy = ''user-1'',
          relatedTransactionId = Some 1\<rparr>,
         \<lparr>txId = 1, transactionDate = 10, transactionTime = ''09:00'', txType = TRANSFER,
          amount = 300, balanceAfter = 700, txNote = None, bankAccountId = ''acc-1'',
          categoryId = None, createdBy = ''user-1'', relatedTransactionId = Some 2\<rparr>],
      dailyBalance = Map.empty\<rparr>"



definition bulkDays :: database where
  "bulkDays =
     \<lparr>bankAccount =
        [''acc-1'' \<mapsto> \<lparr>accountNumber = ''001'', currentBalance = 1000\<rparr>,
         ''acc-2'' \<mapsto> \<lparr>accountNumber = ''002'', currentBalance = 200\<rparr>],
      transaction = [row_of 1 5 DEPOSIT 100 ''acc-1'', row_of 2 6 DEPOSIT 100 ''acc-2''],
      dailyBalance =
        [(5, ''acc-1'') \<mapsto> closed_day 5 ''acc-1'' 100 True,
         (6, ''acc-2'') \<mapsto> closed_day 6 ''acc-2'' 100 True,
         (5, ''acc-2'') \<mapsto> closed_day 5 ''acc-2'' 0 True,
         (6, ''acc-1'') \<mapsto> closed_day 6 ''acc-1'' 100 True]\<rparr>"

definition new_note :: "string \<Rightarrow> UpdateTransactionInput" where
  "new_note n = \<lparr>amount_up = None, note_up = Some n, categoryId_up = None\<rparr>"

section \<open>Evaluating numbers\<close>

lemma bits_0 [simp]: "bits 0 = 0"
  by (simp add: bits.simps)

lemma bits_1 [simp]: "bits 1 = 1"
  by (simp add: bits.simps [of 1])

lemma bits_numeral [simp]: "bits (numeral k) = 1 + bits (numeral k div 2)"
  by (simp add: bits.simps [of "numeral k"])

lemma floor_rat_numeral [simp]: "\<lfloor>numeral a / numeral b :: rat\<rfloor> = numeral a div numeral b"
  by (metis floor_divide_of_int_eq of_int_numeral)

lemma ceiling_rat_numeral [simp]: "\<lceil>numeral a / numeral b :: rat\<rceil> = - (- numeral a div numeral b)"
  using ceiling_divide_eq_div [of "numeral a" "numeral b", where ?'a = rat] by simp

lemma bits_pos: "0 < n \<Longrightarrow> 1 \<le> bits n"
  by (induction n rule: bits.induct) (simp add: bits.simps)

lemma bits_bounds: "0 < n \<Longrightarrow> 2 ^ nat (bits n - 1) \<le> n \<and> n < 2 ^ nat (bits n)"
proof (induction n rule: bits.induct)
  case (1 n)
  show ?case
  proof (cases "n = 1")
    case True
    then show ?thesis by simp
  next
    case False
    with "1.prems" have half: "0 < n div 2" by simp
    from "1.IH" half "1.prems" have ih: "2 ^ nat (bits (n div 2) - 1) \<le> n div 2" "n div 2 < 2 ^ nat (bits (n div 2))"
      by auto
    have b: "bits n = 1 + bits (n div 2)" using "1.prems" by (simp add: bits.simps [of n])
    have p: "1 \<le> bits (n div 2)" using half by (rule bits_pos)
    have e1: "nat (bits n - 1) = Suc (nat (bits (n div 2) - 1))" using b p by simp
    have e2: "nat (bits n) = Suc (nat (bits (n div 2)))" using b p by simp
    show ?thesis using ih unfolding e1 e2 by (simp; linarith)
  qed
qed

lemma roundTiesToEven_of_int [simp]: "roundTiesToEven (of_int m) = m"
  by (simp add: roundTiesToEven_def)

lemma fl_minus: "fl (- x) = - fl x"
  by (simp add: fl_def Let_def sgn_minus)

lemma fl_of_pos_int:
  assumes "0 < n" "n < 2 ^ 53"
  shows "fl (of_int n) = of_int n"
proof -
  define e where "e = bits n - 1"
  from bits_bounds [OF assms(1)] have lo: "2 ^ nat e \<le> n" and hi: "n < 2 ^ nat (bits n)"
    by (simp_all add: e_def)
  have e0: "0 \<le> e" using bits_pos [OF assms(1)] by (simp add: e_def)
  have p: "(2::int) ^ nat e < 2 ^ 53" using lo assms(2) by linarith
  have "nat e < 53" by (rule power_less_imp_less_exp [OF _ p]) simp
  then have e52: "e \<le> 52" using e0 by linarith
  have il: "ilog2 (of_int n) = e"
    using assms(1) by (simp add: ilog2_def e_def)
  have q: "pow2 (e - 52) = 1 / 2 ^ nat (52 - e)"
  proof (cases "e = 52")
    case True then show ?thesis by (simp add: pow2_def)
  next
    case False
    with e52 have "\<not> 0 \<le> e - 52" by simp
    then show ?thesis by (simp add: pow2_def)
  qed
  have m: "\<bar>rat_of_int n\<bar> / pow2 (e - 52) = of_int (n * 2 ^ nat (52 - e))"
    using assms(1) by (simp add: q)
  have r: "roundTiesToEven (\<bar>rat_of_int n\<bar> / pow2 (e - 52)) = n * 2 ^ nat (52 - e)"
    by (simp only: m roundTiesToEven_of_int)
  have sg: "sgn (rat_of_int n) = 1" using assms(1) by simp
  have "fl (of_int n) = sgn (rat_of_int n) * of_int (roundTiesToEven (\<bar>of_int n\<bar> / pow2 (e - 52))) * pow2 (e - 52)"
    using assms(1) e0 by (simp add: fl_def Let_def il max_def)
  also have "\<dots> = of_int (n * 2 ^ nat (52 - e)) * (1 / 2 ^ nat (52 - e))"
    by (simp only: r sg mult_1) (simp only: q)
  also have "\<dots> = of_int n" by simp
  finally show ?thesis .
qed

lemma fl_of_int: "\<bar>n\<bar> < 2 ^ 53 \<Longrightarrow> fl (of_int n) = of_int n"
proof -
  assume a: "\<bar>n\<bar> < 2 ^ 53"
  consider "n = 0" | "0 < n" | "n < 0" by linarith
  then show ?thesis
  proof cases
    case 1 then show ?thesis by (simp add: fl_def)
  next
    case 2 with a show ?thesis by (simp add: fl_of_pos_int)
  next
    case 3
    with a have "fl (of_int (- n)) = of_int (- n)" by (intro fl_of_pos_int) auto
    then show ?thesis using fl_minus [of "of_int n"] by simp
  qed
qed

lemma fl_numeral [simp]: "numeral k < (2::int) ^ 53 \<Longrightarrow> fl (numeral k) = numeral k"
  using fl_of_int [of "numeral k"] by simp

lemma fl_neg_numeral [simp]: "numeral k < (2::int) ^ 53 \<Longrightarrow> fl (- numeral k) = - numeral k"
  using fl_of_int [of "- numeral k"] by simp

lemma fl_0 [simp]: "fl 0 = 0" by (simp add: fl_def)
lemma fl_1 [simp]: "fl 1 = 1" using fl_of_int [of 1] by simp

text \<open>
  The rounding is sound: \<open>ilog2\<close> is the binary exponent, and \<open>fl x\<close> is within half a
  unit in the last place of \<open>x\<close>.
\<close>

lemma pow2_pos: "0 < pow2 k"
  by (simp add: pow2_def)

lemma ilog2_bounds:
  assumes "0 < a"
  shows "pow2 (ilog2 a) \<le> a \<and> a < pow2 (ilog2 a + 1)"
proof (cases "1 \<le> a")
  case True
  let ?n = "\<lfloor>a\<rfloor>"
  from True have n: "0 < ?n" by simp
  from bits_bounds [OF n] have lo: "2 ^ nat (bits ?n - 1) \<le> ?n" and hi: "?n < 2 ^ nat (bits ?n)"
    by simp_all
  from bits_pos [OF n] have e: "0 \<le> bits ?n - 1" "nat (bits ?n) = Suc (nat (bits ?n - 1))"
    by simp_all
  have "rat_of_int (2 ^ nat (bits ?n - 1)) \<le> of_int ?n" using lo by (simp only: of_int_le_iff)
  also have "\<dots> \<le> a" by simp
  finally have low: "pow2 (bits ?n - 1) \<le> a" using e(1) by (simp add: pow2_def)
  from hi have "?n + 1 \<le> 2 ^ nat (bits ?n)" by simp
  then have "rat_of_int (?n + 1) \<le> of_int (2 ^ nat (bits ?n))" by (simp only: of_int_le_iff)
  moreover have "a < of_int (?n + 1)" by linarith
  ultimately have "a < of_int (2 ^ nat (bits ?n))" by linarith
  then have high: "a < pow2 (bits ?n - 1 + 1)"
    using bits_pos [OF n] by (simp add: pow2_def)
  from True low high show ?thesis by (simp add: ilog2_def)
next
  case False
  let ?c = "\<lceil>1 / a\<rceil>"
  let ?m = "?c - 1"
  from False assms have inv: "1 < 1 / a" by simp
  then have m: "0 < ?m" by linarith
  let ?k = "bits ?m"
  from bits_bounds [OF m] have lo: "2 ^ nat (?k - 1) \<le> ?m" and hi: "?m < 2 ^ nat ?k"
    by simp_all
  from bits_pos [OF m] have k: "1 \<le> ?k" .
  have c_le: "1 / a \<le> of_int ?c" by simp
  have m_lt: "of_int ?m < 1 / a" by linarith
  from hi have "?c \<le> 2 ^ nat ?k" by simp
  then have "rat_of_int ?c \<le> of_int (2 ^ nat ?k)" by (simp only: of_int_le_iff)
  with c_le have "1 / a \<le> rat_of_int (2 ^ nat ?k)" by linarith
  then have "1 / a \<le> 2 ^ nat ?k" by simp
  with assms have "1 \<le> a * 2 ^ nat ?k" by (simp add: field_simps)
  then have low: "pow2 (- ?k) \<le> a"
    using k by (simp add: pow2_def field_simps)
  from lo have "rat_of_int (2 ^ nat (?k - 1)) \<le> of_int ?m" by (simp only: of_int_le_iff)
  with m_lt have "rat_of_int (2 ^ nat (?k - 1)) < 1 / a" by linarith
  then have "2 ^ nat (?k - 1) < 1 / a" by simp
  with assms have "a * 2 ^ nat (?k - 1) < 1" by (simp add: field_simps)
  then have "a < 1 / 2 ^ nat (?k - 1)" by (simp add: pos_less_divide_eq)
  moreover have "pow2 (- ?k + 1) = 1 / 2 ^ nat (?k - 1)"
  proof (cases "?k = 1")
    case True then show ?thesis by (simp add: pow2_def)
  next
    case False
    with k have "\<not> 0 \<le> - ?k + 1" by simp
    then show ?thesis by (simp add: pow2_def)
  qed
  ultimately have high: "a < pow2 (- ?k + 1)" by (simp only:)
  from False low high show ?thesis by (simp add: ilog2_def)
qed

lemma roundTiesToEven_error: "\<bar>of_int (roundTiesToEven r) - r\<bar> \<le> 1 / 2"
proof -
  have "of_int \<lfloor>r\<rfloor> \<le> r" and "r < of_int \<lfloor>r\<rfloor> + 1"
    by linarith+
  then show ?thesis
    unfolding roundTiesToEven_def Let_def by (simp add: abs_le_iff)
qed

lemma fl_error:
  assumes "x \<noteq> 0"
  shows "\<bar>fl x - x\<bar> \<le> pow2 (max (ilog2 \<bar>x\<bar>) (- 1022) - 52) / 2"
proof -
  let ?q = "pow2 (max (ilog2 \<bar>x\<bar>) (- 1022) - 52)"
  have q: "0 < ?q" by (rule pow2_pos)
  have "fl x - x = sgn x * (of_int (roundTiesToEven (\<bar>x\<bar> / ?q)) - \<bar>x\<bar> / ?q) * ?q"
    using assms q by (simp add: fl_def Let_def algebra_simps sgn_mult_abs [of x, simplified mult.commute [of "sgn x"]] mult.commute)
  then have "\<bar>fl x - x\<bar> = \<bar>of_int (roundTiesToEven (\<bar>x\<bar> / ?q)) - \<bar>x\<bar> / ?q\<bar> * ?q"
    using assms q by (simp add: abs_mult abs_sgn_eq)
  also have "\<dots> \<le> 1 / 2 * ?q"
    using roundTiesToEven_error [of "\<bar>x\<bar> / ?q"] q by (intro mult_right_mono) simp_all
  finally show ?thesis by simp
qed

text \<open>
  The decimal notation of a number reads back as the number, so it is within a unit in
  the last place of it; on the integers up to \<open>10 ^ 15\<close> it is the number itself.
\<close>

lemma digits_0 [simp]: "digits 0 = 0"
  by (simp add: digits.simps)

lemma digits_numeral [simp]: "digits (numeral k) = 1 + digits (numeral k div 10)"
  by (simp add: digits.simps [of "numeral k"])

lemma digits_1 [simp]: "digits 1 = 1"
  by (simp add: digits.simps [of 1])

lemma digits_pos: "0 < n \<Longrightarrow> 1 \<le> digits n"
  by (induction n rule: digits.induct) (simp add: digits.simps)

lemma digits_bounds: "0 < n \<Longrightarrow> 10 ^ nat (digits n - 1) \<le> n \<and> n < 10 ^ nat (digits n)"
proof (induction n rule: digits.induct)
  case (1 n)
  show ?case
  proof (cases "n < 10")
    case True
    with "1.prems" have "n div 10 = 0" by simp
    then have "digits n = 1" using "1.prems" by (simp add: digits.simps [of n])
    with True "1.prems" show ?thesis by simp
  next
    case False
    with "1.prems" have tenth: "0 < n div 10" by simp
    from "1.IH" tenth "1.prems"
    have ih: "10 ^ nat (digits (n div 10) - 1) \<le> n div 10" "n div 10 < 10 ^ nat (digits (n div 10))"
      by auto
    have b: "digits n = 1 + digits (n div 10)" using "1.prems" by (simp add: digits.simps [of n])
    have p: "1 \<le> digits (n div 10)" using tenth by (rule digits_pos)
    have e1: "nat (digits n - 1) = Suc (nat (digits (n div 10) - 1))" using b p by simp
    have e2: "nat (digits n) = Suc (nat (digits (n div 10)))" using b p by simp
    show ?thesis using ih unfolding e1 e2 by (simp; linarith)
  qed
qed

lemma pow10_pos: "0 < pow10 k"
  by (simp add: pow10_def)

lemma ilog10_bounds:
  assumes "0 < a"
  shows "pow10 (ilog10 a) \<le> a \<and> a < pow10 (ilog10 a + 1)"
proof (cases "1 \<le> a")
  case True
  let ?n = "\<lfloor>a\<rfloor>"
  from True have n: "0 < ?n" by simp
  from digits_bounds [OF n] have lo: "10 ^ nat (digits ?n - 1) \<le> ?n" and hi: "?n < 10 ^ nat (digits ?n)"
    by simp_all
  from digits_pos [OF n] have e: "0 \<le> digits ?n - 1" "nat (digits ?n) = Suc (nat (digits ?n - 1))"
    by simp_all
  have "rat_of_int (10 ^ nat (digits ?n - 1)) \<le> of_int ?n" using lo by (simp only: of_int_le_iff)
  also have "\<dots> \<le> a" by simp
  finally have low: "pow10 (digits ?n - 1) \<le> a" using e(1) by (simp add: pow10_def)
  from hi have "?n + 1 \<le> 10 ^ nat (digits ?n)" by simp
  then have "rat_of_int (?n + 1) \<le> of_int (10 ^ nat (digits ?n))" by (simp only: of_int_le_iff)
  moreover have "a < of_int (?n + 1)" by linarith
  ultimately have "a < of_int (10 ^ nat (digits ?n))" by linarith
  then have high: "a < pow10 (digits ?n - 1 + 1)"
    using digits_pos [OF n] by (simp add: pow10_def)
  from True low high show ?thesis by (simp add: ilog10_def)
next
  case False
  let ?c = "\<lceil>1 / a\<rceil>"
  let ?m = "?c - 1"
  from False assms have inv: "1 < 1 / a" by simp
  then have m: "0 < ?m" by linarith
  let ?k = "digits ?m"
  from digits_bounds [OF m] have lo: "10 ^ nat (?k - 1) \<le> ?m" and hi: "?m < 10 ^ nat ?k"
    by simp_all
  from digits_pos [OF m] have k: "1 \<le> ?k" .
  have c_le: "1 / a \<le> of_int ?c" by simp
  have m_lt: "of_int ?m < 1 / a" by linarith
  from hi have "?c \<le> 10 ^ nat ?k" by simp
  then have "rat_of_int ?c \<le> of_int (10 ^ nat ?k)" by (simp only: of_int_le_iff)
  with c_le have "1 / a \<le> rat_of_int (10 ^ nat ?k)" by linarith
  then have "1 / a \<le> 10 ^ nat ?k" by simp
  with assms have "1 \<le> a * 10 ^ nat ?k" by (simp add: field_simps)
  then have low: "pow10 (- ?k) \<le> a"
    using k by (simp add: pow10_def field_simps)
  from lo have "rat_of_int (10 ^ nat (?k - 1)) \<le> of_int ?m" by (simp only: of_int_le_iff)
  with m_lt have "rat_of_int (10 ^ nat (?k - 1)) < 1 / a" by linarith
  then have "10 ^ nat (?k - 1) < 1 / a" by simp
  with assms have "a * 10 ^ nat (?k - 1) < 1" by (simp add: field_simps)
  then have "a < 1 / 10 ^ nat (?k - 1)" by (simp add: pos_less_divide_eq)
  moreover have "pow10 (- ?k + 1) = 1 / 10 ^ nat (?k - 1)"
  proof (cases "?k = 1")
    case True then show ?thesis by (simp add: pow10_def)
  next
    case False
    with k have "\<not> 0 \<le> - ?k + 1" by simp
    then show ?thesis by (simp add: pow10_def)
  qed
  ultimately have high: "a < pow10 (- ?k + 1)" by (simp only:)
  from False low high show ?thesis by (simp add: ilog10_def)
qed

lemma fl_nonneg: "0 \<le> x \<Longrightarrow> 0 \<le> fl x"
proof -
  assume x: "0 \<le> x"
  have "0 \<le> roundTiesToEven r" if "0 \<le> r" for r
    using that unfolding roundTiesToEven_def Let_def by (auto intro: order_trans)
  then show ?thesis
    using x by (auto simp: fl_def Let_def pow2_pos less_imp_le intro!: mult_nonneg_nonneg divide_nonneg_pos)
qed

lemma pow2_powi: "pow2 k = 2 powi k"
  by (simp add: pow2_def power_int_def power_one_over inverse_eq_divide)

lemma pow2_diff: "pow2 (e - 52) = pow2 e / 2 ^ 52"
proof -
  have "pow2 (e - 52) = 2 powi e / 2 powi 52"
    unfolding pow2_powi by (rule power_int_diff) simp
  also have "(2::rat) powi 52 = 2 ^ 52" by (simp only: power_int_numeral)
  finally show ?thesis by (simp only: pow2_powi)
qed

lemma fl_near_arg:
  assumes "0 < c"
  shows "\<bar>fl c - c\<bar> \<le> (c + 1) / 2 ^ 53"
proof -
  from assms have c: "c \<noteq> 0" "\<bar>c\<bar> = c" by simp_all
  have err: "\<bar>fl c - c\<bar> \<le> pow2 (max (ilog2 c) (- 1022) - 52) / 2"
    using fl_error [OF c(1)] by (simp add: c(2))
  have "pow2 (max (ilog2 c) (- 1022)) \<le> c + 1"
  proof (cases "- 1022 \<le> ilog2 c")
    case True
    then have "max (ilog2 c) (- 1022) = ilog2 c" by simp
    with ilog2_bounds [OF assms] show ?thesis by simp
  next
    case False
    then have "max (ilog2 c) (- 1022) = - 1022" by simp
    moreover have "pow2 (- 1022) \<le> 1" by (simp add: pow2_def)
    ultimately show ?thesis using assms by simp
  qed
  then have "pow2 (max (ilog2 c) (- 1022) - 52) / 2 \<le> (c + 1) / 2 ^ 52 / 2"
    unfolding pow2_diff by (simp add: divide_right_mono)
  with err show ?thesis by simp
qed

lemma fl_inverse_near:
  assumes "0 < c" "fl c = a"
  shows "\<bar>c - a\<bar> \<le> (a + 1) / 2 ^ 52"
proof -
  define K :: rat where "K = 1 / 2 ^ 53"
  have K: "0 < K" "K \<le> 1 / 4" by (simp_all add: K_def)
  have K2: "1 / 2 ^ 52 = 2 * K" by (simp add: K_def)
  from fl_nonneg [of c] assms have a: "0 \<le> a" by simp
  from fl_near_arg [OF assms(1)] assms(2) have "\<bar>a - c\<bar> \<le> (c + 1) * K" by (simp add: K_def)
  then have h: "a - c \<le> c * K + K" "c - a \<le> c * K + K"
    by (simp_all only: abs_le_iff distrib_right mult_1 minus_diff_eq)
  have cK: "c * K \<le> c / 4" using K(2) assms(1) by (simp add: mult_left_mono)
  from h(2) cK K(2) a have c2: "c \<le> 2 * a + 1" by linarith
  then have "c * K \<le> (2 * a + 1) * K" using K(1) by (simp add: mult_right_mono)
  then have "c * K + K \<le> (a + 1) * (2 * K)" by (simp add: algebra_simps)
  with h have "a - c \<le> (a + 1) * (2 * K)" "c - a \<le> (a + 1) * (2 * K)" by linarith+
  then have "\<bar>c - a\<bar> \<le> (a + 1) * (2 * K)" by (simp only: abs_le_iff minus_diff_eq)
  then show ?thesis by (simp only: K2 [symmetric] times_divide_eq_right mult_1_right)
qed

lemma shortest_cases: "shortest n k a = a \<or> fl (shortest n k a) = a"
  by (induction n arbitrary: k) (auto simp: Let_def)

lemma shortest_near:
  assumes "0 < a"
  shows "\<bar>shortest n k a - a\<bar> \<le> (a + 1) / 2 ^ 52"
proof -
  let ?c = "shortest n k a"
  from shortest_cases [of n k a] show ?thesis
  proof
    assume "?c = a" then show ?thesis using assms by simp
  next
    assume f: "fl ?c = a"
    have "0 < ?c"
    proof (rule ccontr)
      assume "\<not> 0 < ?c"
      then have "0 \<le> - ?c" by simp
      from fl_nonneg [OF this] have "fl ?c \<le> 0" by (simp add: fl_minus)
      with f assms show False by simp
    qed
    from fl_inverse_near [OF this f] show ?thesis .
  qed
qed

lemma toDecimal_near: "\<bar>toDecimal x - x\<bar> \<le> (\<bar>x\<bar> + 1) / 2 ^ 52"
proof (cases "x = 0")
  case True then show ?thesis by (simp add: toDecimal_def)
next
  case False
  then have a: "0 < \<bar>x\<bar>" by simp
  have x: "x = sgn x * \<bar>x\<bar>" by (simp add: sgn_mult_abs)
  have "toDecimal x - x = sgn x * shortest 17 1 \<bar>x\<bar> - sgn x * \<bar>x\<bar>"
    using False x by (simp add: toDecimal_def)
  also have "\<dots> = sgn x * (shortest 17 1 \<bar>x\<bar> - \<bar>x\<bar>)" by (simp only: right_diff_distrib)
  finally have "\<bar>toDecimal x - x\<bar> = \<bar>shortest 17 1 \<bar>x\<bar> - \<bar>x\<bar>\<bar>"
    using False by (simp add: abs_mult abs_sgn_eq)
  with shortest_near [OF a] show ?thesis by simp
qed

lemma pow2_mono: "j \<le> k \<Longrightarrow> pow2 j \<le> pow2 k"
  unfolding pow2_powi by (rule power_int_increasing) simp_all

lemma fl_inverse_near_rel:
  assumes "0 < c" "fl c = a" "1 / 2 ^ 10 \<le> a"
  shows "\<bar>c - a\<bar> \<le> a / 2 ^ 52"
proof -
  define K :: rat where "K = 1 / 2 ^ 53"
  have K: "0 < K" "K \<le> 1 / 4" by (simp_all add: K_def)
  have K2: "1 / 2 ^ 52 = 2 * K" by (simp add: K_def)
  from assms(3) have a: "0 < a" by (rule less_le_trans [rotated]) simp
  from fl_inverse_near [OF assms(1,2)] have "a - c \<le> (a + 1) * (2 * K)"
    by (simp only: K2 [symmetric] abs_le_iff minus_diff_eq times_divide_eq_right mult_1_right)
  also have "\<dots> \<le> (a + 1) * (1 / 2 ^ 12)" using a by (intro mult_left_mono) (simp_all add: K_def)
  finally have "a - (a + 1) / 2 ^ 12 \<le> c" by (simp add: field_simps)
  with assms(3) have c_low: "1 / 2 ^ 11 \<le> c" by (simp add: field_simps)
  have e: "- 1022 \<le> ilog2 c"
  proof (rule ccontr)
    assume "\<not> - 1022 \<le> ilog2 c"
    then have "ilog2 c + 1 \<le> - 11" by simp
    then have "pow2 (ilog2 c + 1) \<le> pow2 (- 11)" by (rule pow2_mono)
    with ilog2_bounds [OF assms(1)] have "c < pow2 (- 11)" by simp
    with c_low show False by (simp add: pow2_def)
  qed
  from assms(1) have c: "c \<noteq> 0" "\<bar>c\<bar> = c" by simp_all
  have "\<bar>fl c - c\<bar> \<le> pow2 (ilog2 c - 52) / 2"
    using fl_error [OF c(1)] e by (simp add: c(2) max_def)
  also have "\<dots> = pow2 (ilog2 c) * K" by (simp add: pow2_diff K_def)
  also have "\<dots> \<le> c * K" using ilog2_bounds [OF assms(1)] K(1) by (simp add: mult_right_mono)
  finally have "\<bar>a - c\<bar> \<le> c * K" by (simp only: assms(2))
  then have h: "a - c \<le> c * K" "c - a \<le> c * K"
    by (simp_all only: abs_le_iff minus_diff_eq)
  have cK: "c * K \<le> c / 4" using K(2) assms(1) by (simp add: mult_left_mono)
  from h(2) cK a have "c \<le> 2 * a" by linarith
  then have "c * K \<le> a * (2 * K)" using K(1) by (simp add: mult_right_mono)
  with h have "a - c \<le> a * (2 * K)" "c - a \<le> a * (2 * K)" by linarith+
  then have "\<bar>c - a\<bar> \<le> a * (2 * K)" by (simp only: abs_le_iff minus_diff_eq)
  then show ?thesis by (simp only: K2 [symmetric] times_divide_eq_right mult_1_right)
qed

lemma shortest_near_rel:
  assumes "1 / 2 ^ 10 \<le> a"
  shows "\<bar>shortest n k a - a\<bar> \<le> a / 2 ^ 52"
proof -
  let ?c = "shortest n k a"
  from assms have a: "0 < a" by (rule less_le_trans [rotated]) simp
  from shortest_cases [of n k a] show ?thesis
  proof
    assume "?c = a" then show ?thesis using a by simp
  next
    assume f: "fl ?c = a"
    have "0 < ?c"
    proof (rule ccontr)
      assume "\<not> 0 < ?c"
      then have "0 \<le> - ?c" by simp
      from fl_nonneg [OF this] have "fl ?c \<le> 0" by (simp add: fl_minus)
      with f a show False by simp
    qed
    from fl_inverse_near_rel [OF this f assms] show ?thesis .
  qed
qed

lemma toDecimal_near_rel:
  assumes "1 / 2 ^ 10 \<le> \<bar>x\<bar>"
  shows "\<bar>toDecimal x - x\<bar> \<le> \<bar>x\<bar> / 2 ^ 52"
proof -
  from assms have False: "x \<noteq> 0" by auto
  have x: "x = sgn x * \<bar>x\<bar>" by (simp add: sgn_mult_abs)
  have "toDecimal x - x = sgn x * shortest 17 1 \<bar>x\<bar> - sgn x * \<bar>x\<bar>"
    using False x by (simp add: toDecimal_def)
  also have "\<dots> = sgn x * (shortest 17 1 \<bar>x\<bar> - \<bar>x\<bar>)" by (simp only: right_diff_distrib)
  finally have "\<bar>toDecimal x - x\<bar> = \<bar>shortest 17 1 \<bar>x\<bar> - \<bar>x\<bar>\<bar>"
    using False by (simp add: abs_mult abs_sgn_eq)
  with shortest_near_rel [OF assms] show ?thesis by simp
qed

lemma pow10_powi: "pow10 k = 10 powi k"
  by (simp add: pow10_def power_int_def power_one_over inverse_eq_divide)

lemma pow10_mono: "j \<le> k \<Longrightarrow> pow10 j \<le> pow10 k"
  unfolding pow10_powi by (rule power_int_increasing) simp_all

lemma pow10_less_cancel: "pow10 j < pow10 k \<Longrightarrow> j < k"
  using pow10_mono [of k j] by (cases "j < k") simp_all

lemma shortest_of_int:
  assumes "0 < m" "m \<le> 10 ^ 15" "1 \<le> k"
  shows "shortest n k (of_int m) = of_int m"
  using assms(3)
proof (induction n arbitrary: k)
  case 0
  show ?case by simp
next
  case (Suc n)
  let ?a = "rat_of_int m"
  let ?q = "pow10 (ilog10 ?a - k + 1)"
  let ?lo = "of_int \<lfloor>?a / ?q\<rfloor> * ?q"
  let ?hi = "of_int \<lceil>?a / ?q\<rceil> * ?q"
  have a: "0 < ?a" using assms(1) by simp
  have q: "0 < ?q" by (rule pow10_pos)
  have "?q \<le> pow10 (ilog10 ?a)" using Suc.prems by (intro pow10_mono) simp
  with ilog10_bounds [OF a] have qa: "?q \<le> ?a" by simp
  have lo_le: "?lo \<le> ?a"
    using q by (simp add: pos_le_divide_eq [symmetric])
  have lo_ge: "0 \<le> ?lo"
    using q a by (simp add: zero_le_mult_iff)
  have "of_int \<lceil>?a / ?q\<rceil> < ?a / ?q + 1" by linarith
  then have "?hi < (?a / ?q + 1) * ?q" using q by (simp only: mult_less_cancel_right_pos)
  also have "\<dots> = ?a + ?q" using q by (simp add: distrib_right)
  finally have hi_lt: "?hi < 2 * ?a" using qa by simp
  have "0 < ?a / ?q" using q a by simp
  then have "0 < \<lceil>?a / ?q\<rceil>" by (simp only: zero_less_ceiling)
  then have hi_ge: "0 \<le> ?hi"
    using q by (simp add: zero_le_mult_iff less_imp_le)
  have both: "(fl ?lo = ?a \<longrightarrow> ?lo = ?a) \<and> (fl ?hi = ?a \<longrightarrow> ?hi = ?a)"
  proof (cases "0 \<le> ilog10 ?a - k + 1")
    case True
    define Q :: int where "Q = 10 ^ nat (ilog10 ?a - k + 1)"
    have Q: "?q = of_int Q" using True by (simp add: pow10_def Q_def)
    define L where "L = \<lfloor>?a / ?q\<rfloor> * Q"
    define H where "H = \<lceil>?a / ?q\<rceil> * Q"
    have L: "?lo = of_int L" and H: "?hi = of_int H" by (simp_all add: L_def H_def Q)
    from lo_le lo_ge have "0 \<le> L" "L \<le> m" unfolding L by simp_all
    with assms(2) have "\<bar>L\<bar> < 2 ^ 53" by simp
    then have fl_lo: "fl ?lo = ?lo" unfolding L by (rule fl_of_int)
    from hi_lt hi_ge have "0 \<le> H" "rat_of_int H < of_int (2 * m)" unfolding H by simp_all
    then have "0 \<le> H" "H < 2 * m" by (simp_all only: of_int_less_iff)
    with assms(2) have "\<bar>H\<bar> < 2 ^ 53" by simp
    then have fl_hi: "fl ?hi = ?hi" unfolding H by (rule fl_of_int)
    from fl_lo fl_hi show ?thesis by simp
  next
    case False
    define Q :: int where "Q = 10 ^ nat (- (ilog10 ?a - k + 1))"
    have Q: "?q = 1 / of_int Q" using False by (simp add: pow10_def Q_def)
    have Q0: "0 < Q" by (simp add: Q_def)
    have "?a / ?q = of_int (m * Q)" by (simp add: Q)
    then have "\<lfloor>?a / ?q\<rfloor> = m * Q" "\<lceil>?a / ?q\<rceil> = m * Q" by (simp_all only: floor_of_int ceiling_of_int)
    then have "?lo = ?a" "?hi = ?a" using Q0 by (simp_all add: Q)
    then show ?thesis by simp
  qed
  have k: "1 \<le> k + 1" using Suc.prems by simp
  show ?case
    unfolding shortest.simps Let_def using both Suc.IH [OF k] by auto
qed

lemma toDecimal_of_int:
  assumes "\<bar>n\<bar> \<le> 10 ^ 15"
  shows "toDecimal (of_int n) = of_int n"
proof (cases "n = 0")
  case True then show ?thesis by (simp add: toDecimal_def)
next
  case False
  then have "0 < \<bar>n\<bar>" by simp
  from shortest_of_int [OF this assms, of 1 17]
  have "shortest 17 1 \<bar>rat_of_int n\<bar> = \<bar>of_int n\<bar>" by simp
  then show ?thesis using False by (simp add: toDecimal_def sgn_mult_abs)
qed

lemma toDecimal_numeral [simp]:
  "numeral k \<le> (10::int) ^ 15 \<Longrightarrow> toDecimal (numeral k) = numeral k"
  using toDecimal_of_int [of "numeral k"] by simp

lemma toDecimal_neg_numeral [simp]:
  "numeral k \<le> (10::int) ^ 15 \<Longrightarrow> toDecimal (- numeral k) = - numeral k"
  using toDecimal_of_int [of "- numeral k"] by simp

lemma toDecimal_0 [simp]: "toDecimal 0 = 0"
  by (simp add: toDecimal_def)

lemma toDecimal_1 [simp]: "toDecimal 1 = 1"
  using toDecimal_of_int [of 1] by simp

lemma decimal_15_2_eqI:
  assumes "\<bar>d - of_int m / 100\<bar> < 1 / 200"
  shows "decimal_15_2 d = of_int m / 100"
proof -
  from assms have b: "of_int m / 100 - 1 / 200 < d" "d < of_int m / 100 + 1 / 200"
    by linarith+
  consider "0 < d" | "d = 0" | "d < 0" by linarith
  then show ?thesis
  proof cases
    case 1
    have "\<lfloor>d * 100 + 1 / 2\<rfloor> = m"
      using b by (intro floor_unique) (simp_all add: field_simps)
    with 1 show ?thesis by (simp add: decimal_15_2_def)
  next
    case 2
    from b have "rat_of_int m < 1" "rat_of_int (- 1) < of_int m" unfolding 2 by simp_all
    then have "m < 1" "- 1 < m" by (simp_all only: of_int_less_1_iff of_int_less_iff)
    then have "m = 0" by simp
    with 2 show ?thesis by (simp add: decimal_15_2_def)
  next
    case 3
    have "\<lfloor>- d * 100 + 1 / 2\<rfloor> = - m"
      using b by (intro floor_unique) (simp_all add: field_simps)
    with 3 show ?thesis by (simp add: decimal_15_2_def)
  qed
qed

lemma decimal_15_2_hundredths [simp]: "decimal_15_2 (of_int m / 100) = of_int m / 100"
  by (rule decimal_15_2_eqI) simp

lemma decimal_15_2_of_int [simp]: "decimal_15_2 (of_int n) = of_int n"
  using decimal_15_2_hundredths [of "n * 100"] by simp

lemma decimal_15_2_numeral [simp]: "decimal_15_2 (numeral k) = numeral k"
  using decimal_15_2_of_int [of "numeral k"] by simp

lemma decimal_15_2_neg_numeral [simp]: "decimal_15_2 (- numeral k) = - numeral k"
  using decimal_15_2_of_int [of "- numeral k"] by simp

lemma decimal_15_2_0 [simp]: "decimal_15_2 0 = 0"
  by (simp add: decimal_15_2_def)

lemma decimal_15_2_1 [simp]: "decimal_15_2 1 = 1"
  using decimal_15_2_of_int [of 1] by simp


lemma decimal_15_2_idem [simp]: "decimal_15_2 (decimal_15_2 d) = decimal_15_2 d"
proof -
  have "\<exists>M. decimal_15_2 d = of_int M / 100"
  proof (cases "d < 0")
    case True
    then have "decimal_15_2 d = of_int (- \<lfloor>\<bar>d\<bar> * 100 + 1 / 2\<rfloor>) / 100"
      by (simp add: decimal_15_2_def)
    then show ?thesis ..
  next
    case False
    then have "decimal_15_2 d = of_int (if d = 0 then 0 else \<lfloor>\<bar>d\<bar> * 100 + 1 / 2\<rfloor>) / 100"
      by (simp add: decimal_15_2_def sgn_if)
    then show ?thesis ..
  qed
  then obtain M where "decimal_15_2 d = of_int M / 100" ..
  then show ?thesis by (simp only: decimal_15_2_hundredths)
qed

lemma finalise_hundredths:
  assumes "\<bar>m\<bar> < 10 ^ 20"
  shows "finalise (of_int m / 100) = of_int m / 100"
proof (cases "m = 0")
  case True then show ?thesis by (simp add: finalise_def)
next
  case False
  define d where "d = rat_of_int m / 100"
  define a where "a = \<bar>d\<bar>"
  define e where "e = ilog10 a"
  define q where "q = pow10 (e - 19)"
  from False have d0: "d \<noteq> 0" and a0: "0 < a" by (simp_all add: d_def a_def)
  have am: "a = of_int \<bar>m\<bar> / 100" by (simp add: a_def d_def)
  have "rat_of_int \<bar>m\<bar> < of_int (10 ^ 20)" using assms by (simp only: of_int_less_iff)
  then have "a < 10 ^ 18" by (simp add: am)
  also have "\<dots> = pow10 18" by (simp add: pow10_def)
  finally have "pow10 e < pow10 18" using ilog10_bounds [OF a0] by (simp add: e_def)
  then have e: "e < 18" by (rule pow10_less_cancel)
  define Q :: int where "Q = 10 ^ nat (17 - e)"
  have "nat (19 - e) = nat (17 - e) + 2" using e by simp
  then have "(10::rat) ^ nat (19 - e) = 10 ^ nat (17 - e) * 10 ^ 2" by (simp only: power_add)
  then have q: "q = 1 / (of_int Q * 100)"
    using e by (simp add: pow10_def Q_def q_def)
  have Q0: "0 < Q" by (simp add: Q_def)
  have "a / q = of_int (\<bar>m\<bar> * Q)" by (simp add: q am)
  moreover have "\<lfloor>rat_of_int N + 1 / 2\<rfloor> = N" for N
    by (rule floor_unique) simp_all
  ultimately have r: "\<lfloor>a / q + 1 / 2\<rfloor> = \<bar>m\<bar> * Q" by (simp only:)
  have "finalise d = sgn d * of_int \<lfloor>a / q + 1 / 2\<rfloor> * q"
    using d0 by (simp add: finalise_def Let_def a_def q_def e_def)
  also have "\<dots> = sgn d * (of_int (\<bar>m\<bar> * Q) * (1 / (of_int Q * 100)))"
    by (simp only: r mult.assoc) (simp only: q)
  also have "of_int (\<bar>m\<bar> * Q) * (1 / (rat_of_int Q * 100)) = a" using Q0 by (simp add: am)
  also have "sgn d * a = d" by (simp only: a_def sgn_mult_abs)
  finally show ?thesis by (simp only: d_def)
qed

lemma finalise_of_int: "\<bar>n\<bar> < 10 ^ 18 \<Longrightarrow> finalise (of_int n) = of_int n"
  using finalise_hundredths [of "n * 100"] by simp

lemma finalise_numeral [simp]:
  "numeral k < (10::int) ^ 18 \<Longrightarrow> finalise (numeral k) = numeral k"
  using finalise_of_int [of "numeral k"] by simp

lemma finalise_neg_numeral [simp]:
  "numeral k < (10::int) ^ 18 \<Longrightarrow> finalise (- numeral k) = - numeral k"
  using finalise_of_int [of "- numeral k"] by simp

lemma finalise_0 [simp]: "finalise 0 = 0"
  by (simp add: finalise_def)

lemma in_range_numeral [simp]:
  "in_range (numeral k) \<longleftrightarrow> numeral k < (10::int) ^ 13"
  "in_range (- numeral k) \<longleftrightarrow> numeral k < (10::int) ^ 13"
  "in_range 0" "in_range 1"
  by (simp_all add: in_range_def)

text \<open>A number near a decimal of two places is written as that decimal.\<close>

lemma written_eqI:
  assumes "\<bar>x - of_int m / 100\<bar> + (\<bar>x\<bar> + 1) / 2 ^ 52 < 1 / 200"
  shows "written x = of_int m / 100"
proof -
  have "\<bar>toDecimal x - of_int m / 100\<bar> \<le> \<bar>toDecimal x - x\<bar> + \<bar>x - of_int m / 100\<bar>"
    by linarith
  with toDecimal_near [of x] assms have "\<bar>toDecimal x - of_int m / 100\<bar> < 1 / 200"
    by linarith
  then show ?thesis unfolding written_def by (rule decimal_15_2_eqI)
qed

lemma written_eqI_rel:
  assumes "1 / 2 ^ 10 \<le> \<bar>x\<bar>" "\<bar>x - of_int m / 100\<bar> + \<bar>x\<bar> / 2 ^ 52 < 1 / 200"
  shows "written x = of_int m / 100"
proof -
  have "\<bar>toDecimal x - of_int m / 100\<bar> \<le> \<bar>toDecimal x - x\<bar> + \<bar>x - of_int m / 100\<bar>"
    by linarith
  with toDecimal_near_rel [OF assms(1)] assms(2) have "\<bar>toDecimal x - of_int m / 100\<bar> < 1 / 200"
    by linarith
  then show ?thesis unfolding written_def by (rule decimal_15_2_eqI)
qed

lemma in_range_written: "in_range (toDecimal x) \<longleftrightarrow> \<bar>written x\<bar> < 10 ^ 13"
  by (simp add: in_range_def written_def)

lemmas dec_eval = shortest.simps ilog10_def pow10_def Let_def

section \<open>The daily balance service\<close>

lemma prisma_transaction_Inr:
  "prisma_transaction body db = (Inr r, db') \<longleftrightarrow> body db = (Inr r, db')"
  by (auto simp: prisma_transaction_def split: prod.splits sum.splits)

lemma prisma_transaction_failure:
  "fst (prisma_transaction body db) = Inl e \<Longrightarrow> snd (prisma_transaction body db) = db"
  by (auto simp: prisma_transaction_def split: prod.splits sum.splits)

lemma written_numeral [simp]:
  "numeral k \<le> (10::int) ^ 15 \<Longrightarrow> written (numeral k) = numeral k"
  "numeral k \<le> (10::int) ^ 15 \<Longrightarrow> written (- numeral k) = - numeral k"
  "written 0 = 0" "written 1 = 1"
  by (simp_all add: written_def)

lemma closing_data_actual:
  "list_all in_range (closing_data db accId date actual) \<Longrightarrow> in_range (toDecimal actual)"
  by (simp add: closing_data_def closed_create_data_def closed_update_data_def Let_def
      split: option.splits)

lemma closing_data_explicit:
  "list_all (\<lambda>x. in_range (toDecimal x))
     ([actual,
       totalDeposits_calc (calculateDailyBalance db accId date),
       totalWithdrawals_calc (calculateDailyBalance db accId date),
       totalExpenses_calc (calculateDailyBalance db accId date),
       totalTransfers_calc (calculateDailyBalance db accId date),
       unknownDeposits_rec (reconcile (calculateDailyBalance db accId date) actual),
       profit_rec (reconcile (calculateDailyBalance db accId date) actual)]
      @ (if dailyBalance db (date, accId) = None
         then [openingBalance_calc (calculateDailyBalance db accId date),
               closingBalance_calc (calculateDailyBalance db accId date)]
         else []))
   \<longleftrightarrow> list_all in_range (closing_data db accId date actual)"
  by (auto simp: closing_data_def closed_create_data_def closed_update_data_def Let_def
      split: option.splits)

text \<open>
  What \<open>autoCloseDailyBalance\<close> returns and leaves, and \<open>closeDailyBalance\<close>, which is
  \<open>autoCloseDailyBalance\<close> behind the guard.
\<close>

lemma autoClose_eq:
  "autoCloseDailyBalance accId date actual userId db =
     (if \<not> list_all in_range (closing_data db accId date actual)
      then (Inl VALUE_OUT_OF_RANGE, db)
      else case bankAccount db accId of
          None \<Rightarrow>
            (Inl (if dailyBalance db (date, accId) = None then FOREIGN_KEY_VIOLATION
                  else RECORD_NOT_FOUND), db)
        | Some a \<Rightarrow>
            (Inr (closing_row db accId date actual userId),
             db\<lparr>dailyBalance := (dailyBalance db)((date, accId) \<mapsto> closing_row db accId date actual userId),
                bankAccount := (bankAccount db)(accId \<mapsto> a\<lparr>currentBalance := written actual\<rparr>)\<rparr>))"
proof (cases "list_all in_range (closing_data db accId date actual)")
  case False
  then show ?thesis
    by (auto simp: autoCloseDailyBalance_def autoCloseDailyBalance_tx_def prisma_transaction_def
        upsert_dailyBalance_def closing_data_def Let_def split: option.splits)
next
  case True
  note actual = closing_data_actual [OF True]
  from True actual show ?thesis
    by (auto simp: autoCloseDailyBalance_def autoCloseDailyBalance_tx_def prisma_transaction_def
        upsert_dailyBalance_def update_bankAccount_def closing_data_def closing_row_def
        written_def Let_def split: option.splits)
qed

lemma close_eq:
  "closeDailyBalance accId date actual userId db =
     (if (case dailyBalance db (date, accId) of Some b \<Rightarrow> isClosed b | None \<Rightarrow> False)
      then (Inl ALREADY_CLOSED, db)
      else autoCloseDailyBalance accId date actual userId db)"
  by (simp add: closeDailyBalance_def closeDailyBalance_tx_def autoCloseDailyBalance_def
      autoCloseDailyBalance_tx_def prisma_transaction_def Let_def)

lemma autoClose_failure:
  "fst (autoCloseDailyBalance accId date actual userId db) = Inl e \<Longrightarrow>
     snd (autoCloseDailyBalance accId date actual userId db) = db"
  unfolding autoCloseDailyBalance_def by (rule prisma_transaction_failure)

lemma close_failure:
  "fst (closeDailyBalance accId date actual userId db) = Inl e \<Longrightarrow>
     snd (closeDailyBalance accId date actual userId db) = db"
  unfolding closeDailyBalance_def by (rule prisma_transaction_failure)

lemmas number_defs = Number_def plus_number_def minus_number_def

lemma scenarioB_calculation:
  "calculateDailyBalance scenarioB ''acc-1'' 10 =
     \<lparr>totalDeposits_calc = 300, totalWithdrawals_calc = 100, totalExpenses_calc = 50,
      totalTransfers_calc = 0, openingBalance_calc = 1000, closingBalance_calc = 1150,
      transactionCount = 3\<rparr>"
  by (simp add: calculateDailyBalance_def transactions_of_def scenarioB_def row_of_def
      closed_day_def addTransaction_def number_defs)

lemma addTransaction_cases:
  "txType t = DEPOSIT \<Longrightarrow>
     addTransaction acc t =
       acc\<lparr>totalDeposits_calc := plus_number (totalDeposits_calc acc) (Number (amount t))\<rparr>"
  "txType t = WITHDRAWAL \<Longrightarrow>
     addTransaction acc t =
       acc\<lparr>totalWithdrawals_calc := plus_number (totalWithdrawals_calc acc) (Number (amount t))\<rparr>"
  "txType t = EXPENSE \<Longrightarrow>
     addTransaction acc t =
       acc\<lparr>totalExpenses_calc := plus_number (totalExpenses_calc acc) (Number (amount t))\<rparr>"
  "txType t = TRANSFER \<Longrightarrow>
     addTransaction acc t =
       acc\<lparr>totalTransfers_calc := plus_number (totalTransfers_calc acc) (Number (amount t))\<rparr>"
  by (simp_all add: addTransaction_def)

lemma totals_foldl:
  "totalDeposits_calc (foldl addTransaction acc ts) =
     foldl plus_number (totalDeposits_calc acc)
       (map (\<lambda>t. Number (amount t)) (filter (\<lambda>t. txType t = DEPOSIT) ts))
   \<and> totalWithdrawals_calc (foldl addTransaction acc ts) =
     foldl plus_number (totalWithdrawals_calc acc)
       (map (\<lambda>t. Number (amount t)) (filter (\<lambda>t. txType t = WITHDRAWAL) ts))
   \<and> totalExpenses_calc (foldl addTransaction acc ts) =
     foldl plus_number (totalExpenses_calc acc)
       (map (\<lambda>t. Number (amount t)) (filter (\<lambda>t. txType t = EXPENSE) ts))
   \<and> totalTransfers_calc (foldl addTransaction acc ts) =
     foldl plus_number (totalTransfers_calc acc)
       (map (\<lambda>t. Number (amount t)) (filter (\<lambda>t. txType t = TRANSFER) ts))"
proof (induction ts arbitrary: acc)
  case Nil
  show ?case by simp
next
  case (Cons t ts)
  show ?case
    by (cases "txType t") (simp_all add: Cons.IH addTransaction_cases)
qed

lemmas fl_eval = fl_def ilog2_def pow2_def roundTiesToEven_def Let_def

lemma Number_tenth: "Number (1 / 10) = 3602879701896397 / 36028797018963968"
  by (simp add: Number_def fl_eval)

lemma Number_fifth: "Number (1 / 5) = 3602879701896397 / 18014398509481984"
  by (simp add: Number_def fl_eval)

lemma plus_number_0_tenth:
  "plus_number 0 (3602879701896397 / 36028797018963968) = 3602879701896397 / 36028797018963968"
  by (simp add: plus_number_def fl_eval)

lemma plus_number_tenth_fifth:
  "plus_number (3602879701896397 / 36028797018963968) (3602879701896397 / 18014398509481984)
     = 5404319552844596 / 18014398509481984"
  by (simp add: plus_number_def fl_eval)

lemma plus_number_tenth_total:
  "plus_number (3602879701896397 / 36028797018963968) (5404319552844596 / 18014398509481984)
     = 3602879701896397 / 9007199254740992"
  by (simp add: plus_number_def fl_eval)

lemma minus_number_0_closing:
  "minus_number (3602879701896397 / 9007199254740992) 0 = 3602879701896397 / 9007199254740992"
  by (simp add: minus_number_def fl_eval)


lemma closing_row_fields:
  "isClosed (closing_row db accId date actual userId)"
  "closedBy (closing_row db accId date actual userId) = Some userId"
  "actualBalance (closing_row db accId date actual userId) = written actual"
  "totalDeposits (closing_row db accId date actual userId) =
     written (totalDeposits_calc (calculateDailyBalance db accId date))"
  "totalWithdrawals (closing_row db accId date actual userId) =
     written (totalWithdrawals_calc (calculateDailyBalance db accId date))"
  "totalExpenses (closing_row db accId date actual userId) =
     written (totalExpenses_calc (calculateDailyBalance db accId date))"
  "totalTransfers (closing_row db accId date actual userId) =
     written (totalTransfers_calc (calculateDailyBalance db accId date))"
  "unknownDeposits (closing_row db accId date actual userId) =
     written (unknownDeposits_rec (reconcile (calculateDailyBalance db accId date) actual))"
  "profit (closing_row db accId date actual userId) =
     written (profit_rec (reconcile (calculateDailyBalance db accId date) actual))"
  by (simp_all add: closing_row_def closed_update_def closed_create_def Let_def
      split: option.splits)

lemma closing_row_balances:
  "dailyBalance db (date, accId) = None \<Longrightarrow>
     openingBalance (closing_row db accId date actual userId) =
       written (openingBalance_calc (calculateDailyBalance db accId date))
     \<and> closingBalance (closing_row db accId date actual userId) =
       written (closingBalance_calc (calculateDailyBalance db accId date))"
  "dailyBalance db (date, accId) = Some old \<Longrightarrow>
     openingBalance (closing_row db accId date actual userId) = openingBalance old
     \<and> closingBalance (closing_row db accId date actual userId) = closingBalance old"
  by (simp_all add: closing_row_def closed_update_def closed_create_def Let_def)

lemma calculation_opening:
  "openingBalance_calc (calculateDailyBalance db accId date) =
     (case dailyBalance db (date - 1, accId) of
        Some p \<Rightarrow> Number (actualBalance p)
      | None \<Rightarrow> 0)"
  by (simp add: calculateDailyBalance_def Let_def)




text \<open>
  The day \<open>boundaryDay\<close>: the opening balance is the binary64 value of 0.13, a little
  above 0.13, so that the balance change to 0.125 is a little below \<open>- 0.005\<close> and is
  written as \<open>- 0.01\<close>.
\<close>

lemma Number_13: "Number (13 / 100) = 1170935903116329 / 9007199254740992"
  by (simp add: Number_def fl_eval)

lemma fl_13: "fl (1170935903116329 / 9007199254740992) = 1170935903116329 / 9007199254740992"
  by (simp add: fl_eval)

lemma boundary_change:
  "fl (1 / 8 - 1170935903116329 / 9007199254740992) = - (45035996273705 / 9007199254740992)"
  by (simp add: fl_eval)

lemma fl_boundary_change:
  "fl (- (45035996273705 / 9007199254740992)) = - (45035996273705 / 9007199254740992)"
  by (simp add: fl_eval)

lemma boundaryDay_calculation:
  "calculateDailyBalance boundaryDay ''acc-1'' 10 =
     \<lparr>totalDeposits_calc = 0, totalWithdrawals_calc = 0, totalExpenses_calc = 0,
      totalTransfers_calc = 0,
      openingBalance_calc = 1170935903116329 / 9007199254740992,
      closingBalance_calc = 1170935903116329 / 9007199254740992,
      transactionCount = 0\<rparr>"
proof -
  have "calculateDailyBalance boundaryDay ''acc-1'' 10 =
     \<lparr>totalDeposits_calc = 0, totalWithdrawals_calc = 0, totalExpenses_calc = 0,
      totalTransfers_calc = 0,
      openingBalance_calc = Number (13 / 100),
      closingBalance_calc = fl (fl (fl (fl (Number (13 / 100))))),
      transactionCount = 0\<rparr>"
    by (simp add: calculateDailyBalance_def transactions_of_def boundaryDay_def closed_day_def
        plus_number_def minus_number_def Let_def)
  then show ?thesis by (simp only: Number_13 fl_13)
qed

lemma boundaryDay_figures:
  "reconcile (calculateDailyBalance boundaryDay ''acc-1'' 10) (1 / 8) =
     \<lparr>totalOutflow = 0, totalKnownDeposits = 0,
      balanceChange = - (45035996273705 / 9007199254740992),
      totalAllDeposits = - (45035996273705 / 9007199254740992),
      unknownDeposits_rec = - (45035996273705 / 9007199254740992),
      profit_rec = - (45035996273705 / 9007199254740992)\<rparr>"
proof -
  have "reconcile (calculateDailyBalance boundaryDay ''acc-1'' 10) (1 / 8) =
     \<lparr>totalOutflow = 0, totalKnownDeposits = 0,
      balanceChange = fl (1 / 8 - 1170935903116329 / 9007199254740992),
      totalAllDeposits = fl (fl (1 / 8 - 1170935903116329 / 9007199254740992)),
      unknownDeposits_rec = fl (fl (fl (1 / 8 - 1170935903116329 / 9007199254740992))),
      profit_rec = fl (fl (fl (fl (1 / 8 - 1170935903116329 / 9007199254740992))))\<rparr>"
    unfolding boundaryDay_calculation
    by (simp add: reconcile_def plus_number_def minus_number_def Let_def)
  then show ?thesis by (simp only: boundary_change fl_boundary_change)
qed

lemma boundary_written:
  "written (1 / 8) = 13 / 100"
  "written (1170935903116329 / 9007199254740992) = 13 / 100"
  "written (- (45035996273705 / 9007199254740992)) = - 1 / 100"
proof -
  have eighth: "toDecimal (1 / 8) = 1 / 8"
    by (simp add: toDecimal_def eval_nat_numeral dec_eval fl_eval)
  show "written (1 / 8) = 13 / 100"
    unfolding written_def eighth by (simp add: decimal_15_2_def)
  show "written (1170935903116329 / 9007199254740992) = 13 / 100"
    using written_eqI [of "1170935903116329 / 9007199254740992" 13] by simp
  show "written (- (45035996273705 / 9007199254740992)) = - 1 / 100"
    using written_eqI_rel [of "- (45035996273705 / 9007199254740992)" "- 1"] by simp
qed

lemma boundaryDay_row:
  "closing_row boundaryDay ''acc-1'' 10 (1 / 8) ''user-2'' = boundaryDay_closed"
proof -
  have day: "dailyBalance boundaryDay (10, ''acc-1'') = None"
    by (simp add: boundaryDay_def)
  show ?thesis
    unfolding closing_row_def boundaryDay_figures Let_def day
    by (simp add: boundaryDay_calculation closed_create_def boundary_written boundaryDay_closed_def)
qed

lemma boundaryDay_data:
  "list_all in_range (closing_data boundaryDay ''acc-1'' 10 (1 / 8))"
proof -
  have day: "dailyBalance boundaryDay (10, ''acc-1'') = None"
    by (simp add: boundaryDay_def)
  show ?thesis
    unfolding closing_data_def boundaryDay_figures Let_def day
    by (simp add: boundaryDay_calculation closed_create_data_def closed_update_data_def
        in_range_written boundary_written)
qed

lemma scenarioB_day: "dailyBalance scenarioB (10, ''acc-1'') = None"
  by (simp add: scenarioB_def)

lemma scenarioB_row:
  "closing_row scenarioB ''acc-1'' 10 2000 ''user-2'' = scenarioB_closed"
  by (simp add: closing_row_def scenarioB_calculation reconcile_def number_defs scenarioB_day
      closed_create_def scenarioB_closed_def)

lemma scenarioB_data:
  "list_all in_range (closing_data scenarioB ''acc-1'' 10 2000)"
  by (simp add: closing_data_def scenarioB_calculation reconcile_def number_defs scenarioB_day
      closed_create_data_def closed_update_data_def)

lemma scenarioB_close:
  "closeDailyBalance ''acc-1'' 10 2000 ''user-2'' scenarioB =
     (Inr scenarioB_closed,
      scenarioB\<lparr>dailyBalance := (dailyBalance scenarioB)((10, ''acc-1'') \<mapsto> scenarioB_closed),
        bankAccount := (bankAccount scenarioB)
          (''acc-1'' \<mapsto> \<lparr>accountNumber = ''001'', currentBalance = 2000\<rparr>)\<rparr>)"
  "autoCloseDailyBalance ''acc-1'' 10 2000 ''user-2'' scenarioB =
     (Inr scenarioB_closed,
      scenarioB\<lparr>dailyBalance := (dailyBalance scenarioB)((10, ''acc-1'') \<mapsto> scenarioB_closed),
        bankAccount := (bankAccount scenarioB)
          (''acc-1'' \<mapsto> \<lparr>accountNumber = ''001'', currentBalance = 2000\<rparr>)\<rparr>)"
proof -
  have account: "bankAccount scenarioB ''acc-1'' = Some \<lparr>accountNumber = ''001'', currentBalance = 1150\<rparr>"
    and day: "dailyBalance scenarioB (10, ''acc-1'') = None"
    by (simp_all add: scenarioB_def)
  show "autoCloseDailyBalance ''acc-1'' 10 2000 ''user-2'' scenarioB =
     (Inr scenarioB_closed,
      scenarioB\<lparr>dailyBalance := (dailyBalance scenarioB)((10, ''acc-1'') \<mapsto> scenarioB_closed),
        bankAccount := (bankAccount scenarioB)
          (''acc-1'' \<mapsto> \<lparr>accountNumber = ''001'', currentBalance = 2000\<rparr>)\<rparr>)"
    by (simp add: autoClose_eq scenarioB_data scenarioB_row account)
  then show "closeDailyBalance ''acc-1'' 10 2000 ''user-2'' scenarioB =
     (Inr scenarioB_closed,
      scenarioB\<lparr>dailyBalance := (dailyBalance scenarioB)((10, ''acc-1'') \<mapsto> scenarioB_closed),
        bankAccount := (bankAccount scenarioB)
          (''acc-1'' \<mapsto> \<lparr>accountNumber = ''001'', currentBalance = 2000\<rparr>)\<rparr>)"
    by (simp add: close_eq day)
qed

text \<open>
  C1, as the code has it. \<open>closeDailyBalance\<close> and \<open>autoCloseDailyBalance\<close> compute the
  figures from the calculation \<open>c\<close> and the actual balance in JavaScript \<open>number\<close>
  arithmetic, every sum and difference rounded to the nearest binary64 value: the total
  outflow is withdrawals plus expenses plus transfers, the balance change is the actual
  balance minus the opening balance, the total of all deposits is the outflow plus the
  balance change, the unknown deposits are that total minus the recorded deposits, and
  the profit is the unknown deposits minus withdrawals plus expenses. Whenever one of the
  two succeeds, the stored row holds these unknown deposits, this profit and the actual
  balance, each rounded to two decimal places. Both succeed on an account of the database
  when the decimals to write are in the range of their columns, \<open>closeDailyBalance\<close>
  unless the day is closed. With opening 1000, deposits 300, withdrawals 100, expenses
  50, transfers 0 and actual balance 2000 the figures are 150, 1000, 1150, 850 and 700,
  and 850 and 700 are stored.
\<close>

theorem reconciliation_figures:
  "let c = calculateDailyBalance db accId date; f = reconcile c actual;
       figures =
         [actual, totalDeposits_calc c, totalWithdrawals_calc c, totalExpenses_calc c,
          totalTransfers_calc c, unknownDeposits_rec f, profit_rec f]
         @ (if dailyBalance db (date, accId) = None
            then [openingBalance_calc c, closingBalance_calc c] else [])
   in totalOutflow f =
        plus_number (plus_number (totalWithdrawals_calc c) (totalExpenses_calc c))
          (totalTransfers_calc c)
    \<and> balanceChange f = minus_number actual (openingBalance_calc c)
    \<and> totalAllDeposits f = plus_number (totalOutflow f) (balanceChange f)
    \<and> unknownDeposits_rec f = minus_number (totalAllDeposits f) (totalDeposits_calc c)
    \<and> profit_rec f =
        minus_number (unknownDeposits_rec f)
          (plus_number (totalWithdrawals_calc c) (totalExpenses_calc c))
    \<and> (\<forall>row db'.
          closeDailyBalance accId date actual userId db = (Inr row, db')
            \<or> autoCloseDailyBalance accId date actual userId db = (Inr row, db')
          \<longrightarrow> unknownDeposits row = decimal_15_2 (toDecimal (unknownDeposits_rec f))
            \<and> profit row = decimal_15_2 (toDecimal (profit_rec f))
            \<and> actualBalance row = decimal_15_2 (toDecimal actual)
            \<and> dailyBalance db' (date, accId) = Some row)
    \<and> (\<forall>a. bankAccount db accId = Some a
             \<and> list_all (\<lambda>x. in_range (toDecimal x)) figures
          \<longrightarrow> (\<exists>row db'.
                autoCloseDailyBalance accId date actual userId db = (Inr row, db')
              \<and> (\<not> (\<exists>b. dailyBalance db (date, accId) = Some b \<and> isClosed b)
                   \<longrightarrow> closeDailyBalance accId date actual userId db = (Inr row, db'))))
    \<and> (openingBalance_calc c = 1000 \<and> totalDeposits_calc c = 300
         \<and> totalWithdrawals_calc c = 100 \<and> totalExpenses_calc c = 50
         \<and> totalTransfers_calc c = 0 \<and> actual = 2000
       \<longrightarrow> totalOutflow f = 150 \<and> balanceChange f = 1000 \<and> totalAllDeposits f = 1150
           \<and> unknownDeposits_rec f = 850 \<and> profit_rec f = 700
           \<and> decimal_15_2 (toDecimal (unknownDeposits_rec f)) = 850
           \<and> decimal_15_2 (toDecimal (profit_rec f)) = 700)"
proof -
  let ?c = "calculateDailyBalance db accId date"
  let ?f = "reconcile ?c actual"
  let ?row = "closing_row db accId date actual userId"
  have formula: "totalOutflow (reconcile c actual) =
        plus_number (plus_number (totalWithdrawals_calc c) (totalExpenses_calc c))
          (totalTransfers_calc c)"
    "balanceChange (reconcile c actual) = minus_number actual (openingBalance_calc c)"
    "totalAllDeposits (reconcile c actual) =
        plus_number (totalOutflow (reconcile c actual)) (balanceChange (reconcile c actual))"
    "unknownDeposits_rec (reconcile c actual) =
        minus_number (totalAllDeposits (reconcile c actual)) (totalDeposits_calc c)"
    "profit_rec (reconcile c actual) =
        minus_number (unknownDeposits_rec (reconcile c actual))
          (plus_number (totalWithdrawals_calc c) (totalExpenses_calc c))" for c
    by (simp_all add: reconcile_def Let_def)
  have stored: "\<forall>row db'.
          closeDailyBalance accId date actual userId db = (Inr row, db')
            \<or> autoCloseDailyBalance accId date actual userId db = (Inr row, db')
          \<longrightarrow> unknownDeposits row = decimal_15_2 (toDecimal (unknownDeposits_rec ?f))
            \<and> profit row = decimal_15_2 (toDecimal (profit_rec ?f))
            \<and> actualBalance row = decimal_15_2 (toDecimal actual)
            \<and> dailyBalance db' (date, accId) = Some row"
  proof (intro allI impI)
    fix row db'
    assume "closeDailyBalance accId date actual userId db = (Inr row, db')
            \<or> autoCloseDailyBalance accId date actual userId db = (Inr row, db')"
    then have run: "autoCloseDailyBalance accId date actual userId db = (Inr row, db')"
      by (auto simp: close_eq split: if_splits)
    then have row: "row = ?row" and saved: "dailyBalance db' (date, accId) = Some row"
      by (auto simp: autoClose_eq split: if_splits option.splits)
    show "unknownDeposits row = decimal_15_2 (toDecimal (unknownDeposits_rec ?f))
            \<and> profit row = decimal_15_2 (toDecimal (profit_rec ?f))
            \<and> actualBalance row = decimal_15_2 (toDecimal actual)
            \<and> dailyBalance db' (date, accId) = Some row"
      using saved by (simp add: row closing_row_fields written_def [symmetric])
  qed
  have succeeds: "\<forall>a. bankAccount db accId = Some a
             \<and> list_all in_range (closing_data db accId date actual)
          \<longrightarrow> (\<exists>row db'.
                autoCloseDailyBalance accId date actual userId db = (Inr row, db')
              \<and> (\<not> (\<exists>b. dailyBalance db (date, accId) = Some b \<and> isClosed b)
                   \<longrightarrow> closeDailyBalance accId date actual userId db = (Inr row, db')))"
    by (auto simp: close_eq autoClose_eq split: option.splits)
  have example: "totalOutflow (reconcile c 2000) = 150 \<and> balanceChange (reconcile c 2000) = 1000
      \<and> totalAllDeposits (reconcile c 2000) = 1150 \<and> unknownDeposits_rec (reconcile c 2000) = 850
      \<and> profit_rec (reconcile c 2000) = 700
      \<and> decimal_15_2 (toDecimal (unknownDeposits_rec (reconcile c 2000))) = 850
      \<and> decimal_15_2 (toDecimal (profit_rec (reconcile c 2000))) = 700"
    if "openingBalance_calc c = 1000" "totalDeposits_calc c = 300" "totalWithdrawals_calc c = 100"
      "totalExpenses_calc c = 50" "totalTransfers_calc c = 0" for c
    using that by (simp add: reconcile_def Let_def plus_number_def minus_number_def)
  have scenario: "openingBalance_calc ?c = 1000 \<and> totalDeposits_calc ?c = 300
         \<and> totalWithdrawals_calc ?c = 100 \<and> totalExpenses_calc ?c = 50
         \<and> totalTransfers_calc ?c = 0 \<and> actual = 2000
       \<longrightarrow> totalOutflow ?f = 150 \<and> balanceChange ?f = 1000 \<and> totalAllDeposits ?f = 1150
           \<and> unknownDeposits_rec ?f = 850 \<and> profit_rec ?f = 700
           \<and> decimal_15_2 (toDecimal (unknownDeposits_rec ?f)) = 850
           \<and> decimal_15_2 (toDecimal (profit_rec ?f)) = 700"
    using example [of ?c] by blast
  from formula [of ?c] stored succeeds scenario show ?thesis
    unfolding Let_def closing_data_explicit by (intro conjI)
qed

theorem reconciliation_figures_witness:
  "closeDailyBalance ''acc-1'' 10 2000 ''user-2'' scenarioB
     = autoCloseDailyBalance ''acc-1'' 10 2000 ''user-2'' scenarioB
   \<and> fst (autoCloseDailyBalance ''acc-1'' 10 2000 ''user-2'' scenarioB) = Inr scenarioB_closed
   \<and> dailyBalance (snd (autoCloseDailyBalance ''acc-1'' 10 2000 ''user-2'' scenarioB)) (10, ''acc-1'')
       = Some scenarioB_closed
   \<and> totalOutflow (reconcile (calculateDailyBalance scenarioB ''acc-1'' 10) 2000) = 150
   \<and> balanceChange (reconcile (calculateDailyBalance scenarioB ''acc-1'' 10) 2000) = 1000
   \<and> totalAllDeposits (reconcile (calculateDailyBalance scenarioB ''acc-1'' 10) 2000) = 1150
   \<and> unknownDeposits scenarioB_closed = 850
   \<and> profit scenarioB_closed = 700"
proof -
  have account: "bankAccount scenarioB ''acc-1'' = Some \<lparr>accountNumber = ''001'', currentBalance = 1150\<rparr>"
    by (simp add: scenarioB_def)
  have open_day: "\<not> (\<exists>b. dailyBalance scenarioB (10, ''acc-1'') = Some b \<and> isClosed b)"
    by (simp add: scenarioB_day)
  have calculation: "openingBalance_calc (calculateDailyBalance scenarioB ''acc-1'' 10) = 1000
      \<and> totalDeposits_calc (calculateDailyBalance scenarioB ''acc-1'' 10) = 300
      \<and> totalWithdrawals_calc (calculateDailyBalance scenarioB ''acc-1'' 10) = 100
      \<and> totalExpenses_calc (calculateDailyBalance scenarioB ''acc-1'' 10) = 50
      \<and> totalTransfers_calc (calculateDailyBalance scenarioB ''acc-1'' 10) = 0
      \<and> (2000::rat) = 2000"
    by (simp add: scenarioB_calculation)
  note th = reconciliation_figures [of scenarioB "''acc-1''" 10 2000 "''user-2''",
      unfolded Let_def closing_data_explicit]
  note stored = th [THEN conjunct2, THEN conjunct2, THEN conjunct2, THEN conjunct2,
      THEN conjunct2, THEN conjunct1, rule_format]
  note succeeds = th [THEN conjunct2, THEN conjunct2, THEN conjunct2, THEN conjunct2,
      THEN conjunct2, THEN conjunct2, THEN conjunct1, rule_format]
  note scenario = th [THEN conjunct2, THEN conjunct2, THEN conjunct2, THEN conjunct2,
      THEN conjunct2, THEN conjunct2, THEN conjunct2, rule_format]
  from succeeds [OF conjI [OF account scenarioB_data]] open_day obtain row db' where
    auto_run: "autoCloseDailyBalance ''acc-1'' 10 2000 ''user-2'' scenarioB = (Inr row, db')" and
    close_run: "closeDailyBalance ''acc-1'' 10 2000 ''user-2'' scenarioB = (Inr row, db')"
    by blast
  from stored [OF disjI1 [OF close_run]] stored [OF disjI2 [OF auto_run]]
  have figures: "unknownDeposits row =
        decimal_15_2 (toDecimal (unknownDeposits_rec (reconcile (calculateDailyBalance scenarioB ''acc-1'' 10) 2000)))"
      "profit row =
        decimal_15_2 (toDecimal (profit_rec (reconcile (calculateDailyBalance scenarioB ''acc-1'' 10) 2000)))"
      "dailyBalance db' (10, ''acc-1'') = Some row"
    by simp_all
  from scenario [OF calculation] figures
  have vals: "totalOutflow (reconcile (calculateDailyBalance scenarioB ''acc-1'' 10) 2000) = 150"
      "balanceChange (reconcile (calculateDailyBalance scenarioB ''acc-1'' 10) 2000) = 1000"
      "totalAllDeposits (reconcile (calculateDailyBalance scenarioB ''acc-1'' 10) 2000) = 1150"
      "unknownDeposits row = 850" "profit row = 700"
    by simp_all
  have "row = scenarioB_closed"
    using auto_run by (simp add: scenarioB_close)
  with auto_run close_run figures vals show ?thesis by simp
qed

text \<open>
  The stored figures do not satisfy the formula exactly. On \<open>boundaryDay\<close>, closed with
  the actual balance 0.125, the stored row has the opening balance 0.13, the actual
  balance 0.13 and no transactions, and the unknown deposits and the profit \<open>- 0.01\<close>:
  neither the difference 0 of the stored balances, nor the difference of the actual
  balance given and the opening balance of the calculation, which is
  \<open>- 0.005000000000000004...\<close>.
\<close>

theorem reconciliation_rounding_counterexample:
  "closeDailyBalance ''acc-1'' 10 (1 / 8) ''user-2'' boundaryDay
     = autoCloseDailyBalance ''acc-1'' 10 (1 / 8) ''user-2'' boundaryDay
   \<and> fst (closeDailyBalance ''acc-1'' 10 (1 / 8) ''user-2'' boundaryDay) = Inr boundaryDay_closed
   \<and> totalWithdrawals boundaryDay_closed + totalExpenses boundaryDay_closed
        + totalTransfers boundaryDay_closed = 0
   \<and> totalDeposits boundaryDay_closed = 0
   \<and> actualBalance boundaryDay_closed - openingBalance boundaryDay_closed = 0
   \<and> unknownDeposits boundaryDay_closed = - 1 / 100
   \<and> profit boundaryDay_closed = - 1 / 100
   \<and> totalDeposits_calc (calculateDailyBalance boundaryDay ''acc-1'' 10) = 0
   \<and> totalWithdrawals_calc (calculateDailyBalance boundaryDay ''acc-1'' 10) = 0
   \<and> totalExpenses_calc (calculateDailyBalance boundaryDay ''acc-1'' 10) = 0
   \<and> totalTransfers_calc (calculateDailyBalance boundaryDay ''acc-1'' 10) = 0
   \<and> 1 / 8 - openingBalance_calc (calculateDailyBalance boundaryDay ''acc-1'' 10)
        = - (45035996273705 / 9007199254740992)
   \<and> - (45035996273705 / 9007199254740992) \<noteq> (- 1 / 100 :: rat)"
proof -
  have account: "bankAccount boundaryDay ''acc-1'' = Some \<lparr>accountNumber = ''001'', currentBalance = 13 / 100\<rparr>"
    and day: "dailyBalance boundaryDay (10, ''acc-1'') = None"
    by (simp_all add: boundaryDay_def)
  have run: "fst (autoCloseDailyBalance ''acc-1'' 10 (1 / 8) ''user-2'' boundaryDay) = Inr boundaryDay_closed"
    by (simp add: autoClose_eq boundaryDay_data boundaryDay_row account)
  have same: "closeDailyBalance ''acc-1'' 10 (1 / 8) ''user-2'' boundaryDay
     = autoCloseDailyBalance ''acc-1'' 10 (1 / 8) ''user-2'' boundaryDay"
    by (simp add: close_eq day)
  show ?thesis
    unfolding same by (simp add: run boundaryDay_calculation) (simp add: boundaryDay_closed_def)
qed

text \<open>
  C2, as the code has it. \<open>calculateDailyBalance\<close> returns the closing balance
  \<open>opening + deposits - withdrawals - expenses - transfers\<close>, the opening balance being
  \<open>Number\<close> of the actual balance of the record of the day before when there is one and
  0 otherwise, every total the sum of \<open>Number(amount)\<close> over the day's transactions of
  its type in the order of the table, and the count the number of the day's transactions.
  Every sum and difference is a JavaScript \<open>number\<close> operation: it is rounded to the
  nearest binary64 value.
\<close>

theorem calculation_in_double_arithmetic:
  "let r = calculateDailyBalance db accId date;
       ts = filter (\<lambda>t. bankAccountId t = accId \<and> transactionDate t = date) (transaction db);
       total = (\<lambda>ty. foldl plus_number 0
                  (map (\<lambda>t. Number (amount t)) (filter (\<lambda>t. txType t = ty) ts)))
   in closingBalance_calc r =
        minus_number
          (minus_number
            (minus_number (plus_number (openingBalance_calc r) (totalDeposits_calc r))
              (totalWithdrawals_calc r))
            (totalExpenses_calc r))
          (totalTransfers_calc r)
    \<and> openingBalance_calc r =
        (case dailyBalance db (date - 1, accId) of
           Some p \<Rightarrow> Number (actualBalance p)
         | None \<Rightarrow> 0)
    \<and> totalDeposits_calc r = total DEPOSIT
    \<and> totalWithdrawals_calc r = total WITHDRAWAL
    \<and> totalExpenses_calc r = total EXPENSE
    \<and> totalTransfers_calc r = total TRANSFER
    \<and> transactionCount r = length ts"
  by (simp add: calculateDailyBalance_def transactions_of_def Let_def totals_foldl)

text \<open>
  The arithmetic is not exact decimal arithmetic. On a day with deposits of 0.10 and
  0.20 after a day that closed with 0.10, the total of the deposits is
  0.3000000000000000444..., not 0.30, and the closing balance 0.4000000000000000222... is
  not the opening balance plus the deposits that are returned with it.
\<close>

theorem calculation_drift_counterexample:
  "totalDeposits_calc (calculateDailyBalance driftDay ''acc-1'' 10)
     = 5404319552844596 / 18014398509481984
   \<and> totalDeposits_calc (calculateDailyBalance driftDay ''acc-1'' 10) \<noteq> 1 / 10 + 2 / 10
   \<and> openingBalance_calc (calculateDailyBalance driftDay ''acc-1'' 10)
     = 3602879701896397 / 36028797018963968
   \<and> closingBalance_calc (calculateDailyBalance driftDay ''acc-1'' 10)
     = 3602879701896397 / 9007199254740992
   \<and> closingBalance_calc (calculateDailyBalance driftDay ''acc-1'' 10)
     \<noteq> openingBalance_calc (calculateDailyBalance driftDay ''acc-1'' 10)
       + totalDeposits_calc (calculateDailyBalance driftDay ''acc-1'' 10)
       - totalWithdrawals_calc (calculateDailyBalance driftDay ''acc-1'' 10)
       - totalExpenses_calc (calculateDailyBalance driftDay ''acc-1'' 10)
       - totalTransfers_calc (calculateDailyBalance driftDay ''acc-1'' 10)"
proof -
  have "calculateDailyBalance driftDay ''acc-1'' 10 =
      \<lparr>totalDeposits_calc = plus_number (plus_number 0 (Number (1 / 10))) (Number (1 / 5)),
       totalWithdrawals_calc = 0, totalExpenses_calc = 0, totalTransfers_calc = 0,
       openingBalance_calc = Number (1 / 10),
       closingBalance_calc =
         minus_number
           (minus_number
             (minus_number
               (plus_number (Number (1 / 10))
                 (plus_number (plus_number 0 (Number (1 / 10))) (Number (1 / 5))))
               0)
             0)
           0,
       transactionCount = 2\<rparr>"
    by (simp add: calculateDailyBalance_def transactions_of_def driftDay_def row_of_def
        closed_day_def addTransaction_def Let_def)
  then have "calculateDailyBalance driftDay ''acc-1'' 10 =
      \<lparr>totalDeposits_calc = 5404319552844596 / 18014398509481984,
       totalWithdrawals_calc = 0, totalExpenses_calc = 0, totalTransfers_calc = 0,
       openingBalance_calc = 3602879701896397 / 36028797018963968,
       closingBalance_calc = 3602879701896397 / 9007199254740992,
       transactionCount = 2\<rparr>"
    by (simp only: Number_tenth Number_fifth plus_number_0_tenth plus_number_tenth_fifth
        plus_number_tenth_total minus_number_0_closing)
  then show ?thesis by simp
qed

text \<open>Closing a day of \<open>scenarioB\<close> for an unknown account, and with a balance out of range.\<close>

lemma scenarioB_unknown_account:
  "bankAccount scenarioB ''acc-9'' = None"
  "dailyBalance scenarioB (10, ''acc-9'') = None"
  "list_all in_range (closing_data scenarioB ''acc-9'' 10 2000)"
  "list_all in_range (closing_data scenarioB ''acc-9'' 10 1500)"
proof -
  show account: "bankAccount scenarioB ''acc-9'' = None"
    and day: "dailyBalance scenarioB (10, ''acc-9'') = None"
    by (simp_all add: scenarioB_def)
  have no_transactions: "calculateDailyBalance scenarioB ''acc-9'' 10 =
     \<lparr>totalDeposits_calc = 0, totalWithdrawals_calc = 0, totalExpenses_calc = 0,
      totalTransfers_calc = 0, openingBalance_calc = 0, closingBalance_calc = 0,
      transactionCount = 0\<rparr>"
    by (simp add: calculateDailyBalance_def transactions_of_def scenarioB_def row_of_def
        number_defs)
  show "list_all in_range (closing_data scenarioB ''acc-9'' 10 2000)"
    "list_all in_range (closing_data scenarioB ''acc-9'' 10 1500)"
    by (simp_all add: closing_data_def no_transactions reconcile_def number_defs day
        closed_create_data_def closed_update_data_def)
qed

lemma scenarioB_too_large:
  "\<not> list_all in_range (closing_data scenarioB ''acc-1'' 10 10000000000000)"
  by (simp add: closing_data_def scenarioB_calculation reconcile_def number_defs scenarioB_day
      closed_create_data_def closed_update_data_def)

text \<open>
  C3, as the code has it. \<open>closeDailyBalance\<close> fails with \<open>ALREADY_CLOSED\<close> exactly when
  the record of the day exists and is closed, and whenever it fails the database is
  unchanged. When the day is not closed it succeeds exactly when the account is in the
  database and the decimals to write are in the range of their columns; otherwise it
  fails with an error of the storage layer. When it succeeds, the record under the key is
  closed, names the actor, and holds the actual balance, the totals of the calculation
  and the figures of the reconciliation, each rounded to two decimal places; the
  account's current balance is the actual balance rounded to two decimal places, and the
  transactions are unchanged.
\<close>

theorem close_contract:
  "let c = calculateDailyBalance db accId date; f = reconcile c actual;
       figures =
         [actual, totalDeposits_calc c, totalWithdrawals_calc c, totalExpenses_calc c,
          totalTransfers_calc c, unknownDeposits_rec f, profit_rec f]
         @ (if dailyBalance db (date, accId) = None
            then [openingBalance_calc c, closingBalance_calc c] else []);
       result = closeDailyBalance accId date actual userId db
   in (fst result = Inl ALREADY_CLOSED
        \<longleftrightarrow> (\<exists>b. dailyBalance db (date, accId) = Some b \<and> isClosed b))
    \<and> (\<forall>e. fst result = Inl e \<longrightarrow> snd result = db)
    \<and> (\<not> (\<exists>b. dailyBalance db (date, accId) = Some b \<and> isClosed b)
        \<longrightarrow> ((\<exists>row. fst result = Inr row)
               \<longleftrightarrow> bankAccount db accId \<noteq> None
                   \<and> list_all (\<lambda>x. in_range (toDecimal x)) figures)
          \<and> (fst result \<in> {Inl VALUE_OUT_OF_RANGE, Inl FOREIGN_KEY_VIOLATION, Inl RECORD_NOT_FOUND}
               \<longleftrightarrow> \<not> (bankAccount db accId \<noteq> None
                   \<and> list_all (\<lambda>x. in_range (toDecimal x)) figures)))
    \<and> (\<forall>row db'. result = (Inr row, db')
        \<longrightarrow> (\<exists>a. bankAccount db accId = Some a
            \<and> isClosed row \<and> closedBy row = Some userId
            \<and> actualBalance row = decimal_15_2 (toDecimal actual)
            \<and> totalDeposits row = decimal_15_2 (toDecimal (totalDeposits_calc c))
            \<and> totalWithdrawals row = decimal_15_2 (toDecimal (totalWithdrawals_calc c))
            \<and> totalExpenses row = decimal_15_2 (toDecimal (totalExpenses_calc c))
            \<and> totalTransfers row = decimal_15_2 (toDecimal (totalTransfers_calc c))
            \<and> unknownDeposits row = decimal_15_2 (toDecimal (unknownDeposits_rec f))
            \<and> profit row = decimal_15_2 (toDecimal (profit_rec f))
            \<and> (dailyBalance db (date, accId) = None
                 \<longrightarrow> openingBalance row = decimal_15_2 (toDecimal (openingBalance_calc c))
                   \<and> closingBalance row = decimal_15_2 (toDecimal (closingBalance_calc c)))
            \<and> (\<forall>old. dailyBalance db (date, accId) = Some old
                 \<longrightarrow> openingBalance row = openingBalance old
                   \<and> closingBalance row = closingBalance old)
            \<and> dailyBalance db' = (dailyBalance db)((date, accId) \<mapsto> row)
            \<and> bankAccount db' =
                (bankAccount db)(accId \<mapsto> a\<lparr>currentBalance := decimal_15_2 (toDecimal actual)\<rparr>)
            \<and> transaction db' = transaction db))"
proof -
  let ?close = "closeDailyBalance accId date actual userId db"
  let ?closed = "\<exists>b. dailyBalance db (date, accId) = Some b \<and> isClosed b"
  let ?ok = "bankAccount db accId \<noteq> None \<and> list_all in_range (closing_data db accId date actual)"
  have guard: "(case dailyBalance db (date, accId) of Some b \<Rightarrow> isClosed b | None \<Rightarrow> False) = ?closed"
    by (simp split: option.splits)
  have c1: "fst ?close = Inl ALREADY_CLOSED \<longleftrightarrow> ?closed"
    by (auto simp: close_eq autoClose_eq split: option.splits)
  have c2: "\<forall>e. fst ?close = Inl e \<longrightarrow> snd ?close = db"
    by (simp add: close_failure)
  have c3: "\<not> ?closed
      \<longrightarrow> ((\<exists>row. fst ?close = Inr row) \<longleftrightarrow> ?ok)
        \<and> (fst ?close \<in> {Inl VALUE_OUT_OF_RANGE, Inl FOREIGN_KEY_VIOLATION, Inl RECORD_NOT_FOUND}
             \<longleftrightarrow> \<not> ?ok)"
    unfolding close_eq guard by (auto simp: autoClose_eq split: option.splits)
  have c4: "\<forall>row db'. ?close = (Inr row, db')
      \<longrightarrow> (\<exists>a. bankAccount db accId = Some a
          \<and> isClosed row \<and> closedBy row = Some userId
          \<and> actualBalance row = decimal_15_2 (toDecimal actual)
          \<and> totalDeposits row = decimal_15_2 (toDecimal (totalDeposits_calc (calculateDailyBalance db accId date)))
          \<and> totalWithdrawals row = decimal_15_2 (toDecimal (totalWithdrawals_calc (calculateDailyBalance db accId date)))
          \<and> totalExpenses row = decimal_15_2 (toDecimal (totalExpenses_calc (calculateDailyBalance db accId date)))
          \<and> totalTransfers row = decimal_15_2 (toDecimal (totalTransfers_calc (calculateDailyBalance db accId date)))
          \<and> unknownDeposits row = decimal_15_2 (toDecimal (unknownDeposits_rec (reconcile (calculateDailyBalance db accId date) actual)))
          \<and> profit row = decimal_15_2 (toDecimal (profit_rec (reconcile (calculateDailyBalance db accId date) actual)))
          \<and> (dailyBalance db (date, accId) = None
               \<longrightarrow> openingBalance row = decimal_15_2 (toDecimal (openingBalance_calc (calculateDailyBalance db accId date)))
                 \<and> closingBalance row = decimal_15_2 (toDecimal (closingBalance_calc (calculateDailyBalance db accId date))))
          \<and> (\<forall>old. dailyBalance db (date, accId) = Some old
               \<longrightarrow> openingBalance row = openingBalance old
                 \<and> closingBalance row = closingBalance old)
          \<and> dailyBalance db' = (dailyBalance db)((date, accId) \<mapsto> row)
          \<and> bankAccount db' =
              (bankAccount db)(accId \<mapsto> a\<lparr>currentBalance := decimal_15_2 (toDecimal actual)\<rparr>)
          \<and> transaction db' = transaction db)"
  proof (intro allI impI)
    fix row db'
    assume "?close = (Inr row, db')"
    then have run: "autoCloseDailyBalance accId date actual userId db = (Inr row, db')"
      by (auto simp: close_eq split: if_splits)
    then obtain a where a: "bankAccount db accId = Some a"
      and row: "row = closing_row db accId date actual userId"
      and db': "db' = db\<lparr>dailyBalance := (dailyBalance db)((date, accId) \<mapsto> row),
            bankAccount := (bankAccount db)(accId \<mapsto> a\<lparr>currentBalance := written actual\<rparr>)\<rparr>"
      by (auto simp: autoClose_eq split: if_splits option.splits)
    show "\<exists>a. bankAccount db accId = Some a
          \<and> isClosed row \<and> closedBy row = Some userId
          \<and> actualBalance row = decimal_15_2 (toDecimal actual)
          \<and> totalDeposits row = decimal_15_2 (toDecimal (totalDeposits_calc (calculateDailyBalance db accId date)))
          \<and> totalWithdrawals row = decimal_15_2 (toDecimal (totalWithdrawals_calc (calculateDailyBalance db accId date)))
          \<and> totalExpenses row = decimal_15_2 (toDecimal (totalExpenses_calc (calculateDailyBalance db accId date)))
          \<and> totalTransfers row = decimal_15_2 (toDecimal (totalTransfers_calc (calculateDailyBalance db accId date)))
          \<and> unknownDeposits row = decimal_15_2 (toDecimal (unknownDeposits_rec (reconcile (calculateDailyBalance db accId date) actual)))
          \<and> profit row = decimal_15_2 (toDecimal (profit_rec (reconcile (calculateDailyBalance db accId date) actual)))
          \<and> (dailyBalance db (date, accId) = None
               \<longrightarrow> openingBalance row = decimal_15_2 (toDecimal (openingBalance_calc (calculateDailyBalance db accId date)))
                 \<and> closingBalance row = decimal_15_2 (toDecimal (closingBalance_calc (calculateDailyBalance db accId date))))
          \<and> (\<forall>old. dailyBalance db (date, accId) = Some old
               \<longrightarrow> openingBalance row = openingBalance old
                 \<and> closingBalance row = closingBalance old)
          \<and> dailyBalance db' = (dailyBalance db)((date, accId) \<mapsto> row)
          \<and> bankAccount db' =
              (bankAccount db)(accId \<mapsto> a\<lparr>currentBalance := decimal_15_2 (toDecimal actual)\<rparr>)
          \<and> transaction db' = transaction db"
      by (rule exI [of _ a])
        (simp add: a db' row closing_row_fields closing_row_balances written_def [symmetric])
  qed
  from c1 c2 c3 c4 show ?thesis unfolding Let_def closing_data_explicit by (intro conjI)
qed

theorem close_contract_witness:
  "fst (closeDailyBalance ''acc-1'' 9 500 ''user-2'' scenarioB) = Inl ALREADY_CLOSED
   \<and> snd (closeDailyBalance ''acc-1'' 9 500 ''user-2'' scenarioB) = scenarioB
   \<and> fst (closeDailyBalance ''acc-1'' 10 2000 ''user-2'' scenarioB) = Inr scenarioB_closed
   \<and> bankAccount (snd (closeDailyBalance ''acc-1'' 10 2000 ''user-2'' scenarioB)) ''acc-1''
       = Some \<lparr>accountNumber = ''001'', currentBalance = 2000\<rparr>
   \<and> dailyBalance (snd (closeDailyBalance ''acc-1'' 10 2000 ''user-2'' scenarioB)) (10, ''acc-1'')
       = Some scenarioB_closed"
proof -
  have closed: "dailyBalance scenarioB (9, ''acc-1'') = Some (closed_day 9 ''acc-1'' 1000 True)"
    and is_closed: "isClosed (closed_day 9 ''acc-1'' 1000 True)"
    and account: "bankAccount scenarioB ''acc-1'' = Some \<lparr>accountNumber = ''001'', currentBalance = 1150\<rparr>"
    by (simp_all add: scenarioB_def closed_day_def)
  have open_day: "\<not> (\<exists>b. dailyBalance scenarioB (10, ''acc-1'') = Some b \<and> isClosed b)"
    by (simp add: scenarioB_day)
  note c9 = close_contract [of scenarioB "''acc-1''" 9 500 "''user-2''", unfolded Let_def]
  note c10 = close_contract [of scenarioB "''acc-1''" 10 2000 "''user-2''",
      unfolded Let_def closing_data_explicit]
  from c9 closed is_closed have fails: "fst (closeDailyBalance ''acc-1'' 9 500 ''user-2'' scenarioB) = Inl ALREADY_CLOSED"
    by blast
  with c9 have unchanged: "snd (closeDailyBalance ''acc-1'' 9 500 ''user-2'' scenarioB) = scenarioB"
    by blast
  from c10 [THEN conjunct2, THEN conjunct2, THEN conjunct1, rule_format, OF open_day,
      THEN conjunct1] account scenarioB_data
  obtain r where "fst (closeDailyBalance ''acc-1'' 10 2000 ''user-2'' scenarioB) = Inr r"
    by auto
  then obtain db' where run: "closeDailyBalance ''acc-1'' 10 2000 ''user-2'' scenarioB = (Inr r, db')"
    by (cases "closeDailyBalance ''acc-1'' 10 2000 ''user-2'' scenarioB") simp
  from c10 [THEN conjunct2, THEN conjunct2, THEN conjunct2, rule_format, OF run] account
  have saved: "dailyBalance db' = (dailyBalance scenarioB)((10, ''acc-1'') \<mapsto> r)" and
    balance: "bankAccount db' = (bankAccount scenarioB)
       (''acc-1'' \<mapsto> \<lparr>accountNumber = ''001'', currentBalance = 2000\<rparr>)"
    by auto
  have "r = scenarioB_closed"
    using run by (simp add: scenarioB_close)
  with fails unchanged run saved balance show ?thesis by simp
qed

text \<open>
  It is not so that \<open>closeDailyBalance\<close> succeeds whenever the day is not closed, and
  sets the current balance to the actual balance. On a day that is not closed, the call
  for an id that names no account fails, the call with the actual balance \<open>10 ^ 13\<close>
  fails and leaves the database as it was, and the call with the actual balance 0.125
  sets the current balance to 0.13.
\<close>

theorem close_contract_counterexample:
  "dailyBalance scenarioB (10, ''acc-9'') = None
   \<and> fst (closeDailyBalance ''acc-9'' 10 2000 ''user-2'' scenarioB) = Inl FOREIGN_KEY_VIOLATION
   \<and> dailyBalance scenarioB (10, ''acc-1'') = None
   \<and> closeDailyBalance ''acc-1'' 10 10000000000000 ''user-2'' scenarioB
       = (Inl VALUE_OUT_OF_RANGE, scenarioB)
   \<and> dailyBalance boundaryDay (10, ''acc-1'') = None
   \<and> fst (closeDailyBalance ''acc-1'' 10 (1 / 8) ''user-2'' boundaryDay) = Inr boundaryDay_closed
   \<and> bankAccount (snd (closeDailyBalance ''acc-1'' 10 (1 / 8) ''user-2'' boundaryDay)) ''acc-1''
       = Some \<lparr>accountNumber = ''001'', currentBalance = 13 / 100\<rparr>"
proof -
  have days: "dailyBalance scenarioB (10, ''acc-9'') = None"
    "dailyBalance scenarioB (10, ''acc-1'') = None" "dailyBalance boundaryDay (10, ''acc-1'') = None"
    and account: "bankAccount boundaryDay ''acc-1'' = Some \<lparr>accountNumber = ''001'', currentBalance = 13 / 100\<rparr>"
    by (simp_all add: scenarioB_def boundaryDay_def)
  have unknown: "fst (closeDailyBalance ''acc-9'' 10 2000 ''user-2'' scenarioB) = Inl FOREIGN_KEY_VIOLATION"
    by (simp add: close_eq autoClose_eq scenarioB_unknown_account)
  have overflow: "closeDailyBalance ''acc-1'' 10 10000000000000 ''user-2'' scenarioB
       = (Inl VALUE_OUT_OF_RANGE, scenarioB)"
    by (simp add: close_eq autoClose_eq days scenarioB_too_large)
  have rounded: "closeDailyBalance ''acc-1'' 10 (1 / 8) ''user-2'' boundaryDay =
      (Inr boundaryDay_closed,
       boundaryDay\<lparr>dailyBalance := (dailyBalance boundaryDay)((10, ''acc-1'') \<mapsto> boundaryDay_closed),
         bankAccount := (bankAccount boundaryDay)
           (''acc-1'' \<mapsto> \<lparr>accountNumber = ''001'', currentBalance = 13 / 100\<rparr>)\<rparr>)"
    by (simp add: close_eq autoClose_eq days account boundaryDay_data boundaryDay_row
        boundary_written)
  from days unknown overflow show ?thesis by (simp add: rounded)
qed

text \<open>
  The earlier version of \<open>closeDailyBalance\<close> has the same guard and stores the same
  row, but it leaves every account as it was: the write of the current balance belongs to
  the later version, which is the one the theorem above is about.
\<close>

lemma closeDailyBalance_earlier_eq:
  "closeDailyBalance_earlier accId date actual userId db =
     (if (case dailyBalance db (date, accId) of Some b \<Rightarrow> isClosed b | None \<Rightarrow> False)
      then (Inl ALREADY_CLOSED, db)
      else if \<not> list_all in_range (closing_data db accId date actual)
      then (Inl VALUE_OUT_OF_RANGE, db)
      else if dailyBalance db (date, accId) = None \<and> bankAccount db accId = None
      then (Inl FOREIGN_KEY_VIOLATION, db)
      else (Inr (closing_row db accId date actual userId),
            db\<lparr>dailyBalance :=
                 (dailyBalance db)((date, accId) \<mapsto> closing_row db accId date actual userId)\<rparr>))"
  by (auto simp: closeDailyBalance_earlier_def upsert_dailyBalance_def closing_row_def
      closing_data_def Let_def split: option.splits)

lemma closeDailyBalance_earlier_accounts:
  "bankAccount (snd (closeDailyBalance_earlier accId date actual userId db)) = bankAccount db"
  by (simp add: closeDailyBalance_earlier_eq)

text \<open>
  C4. \<open>reopenDailyBalance\<close> fails with \<open>DAILY_BALANCE_NOT_CLOSED\<close> exactly when the
  day has no record or its record is open; it fails in no other way and a failure leaves
  the database unchanged; on a closed record it succeeds, sets \<open>isClosed\<close> to false and
  \<open>closedBy\<close> to null, and leaves every other field of the record, every account and
  every transaction as they were.
\<close>

theorem reopen_contract:
  "(fst (reopenDailyBalance accId date userId db) = Inl DAILY_BALANCE_NOT_CLOSED
      \<longleftrightarrow> dailyBalance db (date, accId) = None
          \<or> (\<exists>b. dailyBalance db (date, accId) = Some b \<and> \<not> isClosed b))
   \<and> (\<forall>e. fst (reopenDailyBalance accId date userId db) = Inl e
          \<longrightarrow> e = DAILY_BALANCE_NOT_CLOSED \<and> snd (reopenDailyBalance accId date userId db) = db)
   \<and> (\<forall>b. dailyBalance db (date, accId) = Some b \<and> isClosed b
          \<longrightarrow> (\<exists>db' b'.
                reopenDailyBalance accId date userId db = (Inr True, db')
              \<and> dailyBalance db' = (dailyBalance db)((date, accId) \<mapsto> b')
              \<and> b' = b\<lparr>isClosed := False, closedBy := None\<rparr>
              \<and> \<not> isClosed b' \<and> closedBy b' = None
              \<and> openingBalance b' = openingBalance b
              \<and> closingBalance b' = closingBalance b
              \<and> actualBalance b' = actualBalance b
              \<and> totalDeposits b' = totalDeposits b
              \<and> totalWithdrawals b' = totalWithdrawals b
              \<and> totalExpenses b' = totalExpenses b
              \<and> totalTransfers b' = totalTransfers b
              \<and> unknownDeposits b' = unknownDeposits b
              \<and> profit b' = profit b
              \<and> bankAccount db' = bankAccount db
              \<and> transaction db' = transaction db))"
  by (auto simp: reopenDailyBalance_def reopenDailyBalance_tx_def prisma_transaction_def
      set_open_def split: option.splits)

theorem reopen_contract_witness:
  "fst (reopenDailyBalance ''acc-1'' 10 ''user-2'' scenarioB) = Inl DAILY_BALANCE_NOT_CLOSED
   \<and> snd (reopenDailyBalance ''acc-1'' 10 ''user-2'' scenarioB) = scenarioB
   \<and> fst (reopenDailyBalance ''acc-1'' 9 ''user-2'' reopenedDay) = Inl DAILY_BALANCE_NOT_CLOSED
   \<and> fst (reopenDailyBalance ''acc-1'' 9 ''user-2'' scenarioB) = Inr True
   \<and> dailyBalance (snd (reopenDailyBalance ''acc-1'' 9 ''user-2'' scenarioB)) (9, ''acc-1'')
       = Some (closed_day 9 ''acc-1'' 1000 False)
   \<and> bankAccount (snd (reopenDailyBalance ''acc-1'' 9 ''user-2'' scenarioB)) = bankAccount scenarioB"
proof -
  have closed: "dailyBalance scenarioB (9, ''acc-1'') = Some (closed_day 9 ''acc-1'' 1000 True)"
    and is_closed: "isClosed (closed_day 9 ''acc-1'' 1000 True)"
    and day: "dailyBalance scenarioB (10, ''acc-1'') = None"
    and opened: "dailyBalance reopenedDay (9, ''acc-1'') = Some (closed_day 9 ''acc-1'' 500 False)"
    and is_open: "\<not> isClosed (closed_day 9 ''acc-1'' 500 False)"
    and flipped: "(closed_day 9 ''acc-1'' 1000 True)\<lparr>isClosed := False, closedBy := None\<rparr>
       = closed_day 9 ''acc-1'' 1000 False"
    by (simp_all add: scenarioB_def reopenedDay_def closed_day_def)
  note r10 = reopen_contract [of "''acc-1''" 10 "''user-2''" scenarioB]
  note r9o = reopen_contract [of "''acc-1''" 9 "''user-2''" reopenedDay]
  note r9 = reopen_contract [of "''acc-1''" 9 "''user-2''" scenarioB]
  from r10 day have f10: "fst (reopenDailyBalance ''acc-1'' 10 ''user-2'' scenarioB) = Inl DAILY_BALANCE_NOT_CLOSED"
    by blast
  with r10 have u10: "snd (reopenDailyBalance ''acc-1'' 10 ''user-2'' scenarioB) = scenarioB"
    by blast
  from r9o opened is_open have f9: "fst (reopenDailyBalance ''acc-1'' 9 ''user-2'' reopenedDay) = Inl DAILY_BALANCE_NOT_CLOSED"
    by blast
  from r9 closed is_closed obtain db' b' where
    "reopenDailyBalance ''acc-1'' 9 ''user-2'' scenarioB = (Inr True, db')"
    "dailyBalance db' = (dailyBalance scenarioB)((9, ''acc-1'') \<mapsto> b')"
    "b' = (closed_day 9 ''acc-1'' 1000 True)\<lparr>isClosed := False, closedBy := None\<rparr>"
    "bankAccount db' = bankAccount scenarioB"
    by blast
  with f10 u10 f9 flipped show ?thesis by simp
qed

text \<open>
  C5, as the code has it. The opening balance of a day is \<open>Number\<close> of the actual
  balance of the record of the day before whenever that record exists, closed or open,
  and 0 only when there is no such record.
\<close>

theorem opening_balance_of_prior_record:
  "(\<forall>p. dailyBalance db (date - 1, accId) = Some p
        \<longrightarrow> openingBalance_calc (calculateDailyBalance db accId date) = Number (actualBalance p))
   \<and> (dailyBalance db (date - 1, accId) = None
        \<longrightarrow> openingBalance_calc (calculateDailyBalance db accId date) = 0)"
  by (simp add: calculation_opening)

theorem opening_balance_of_prior_record_witness:
  "dailyBalance reopenedDay (9, ''acc-1'') = Some (closed_day 9 ''acc-1'' 500 False)
   \<and> openingBalance_calc (calculateDailyBalance reopenedDay ''acc-1'' 10) = 500
   \<and> dailyBalance reopenedDay (8, ''acc-1'') = None
   \<and> openingBalance_calc (calculateDailyBalance reopenedDay ''acc-1'' 9) = 0"
proof -
  have opened: "dailyBalance reopenedDay (10 - 1, ''acc-1'') = Some (closed_day 9 ''acc-1'' 500 False)"
    and none: "dailyBalance reopenedDay (9 - 1, ''acc-1'') = None"
    by (simp_all add: reopenedDay_def)
  from opening_balance_of_prior_record [of reopenedDay 10 "''acc-1''"] opened
  have "openingBalance_calc (calculateDailyBalance reopenedDay ''acc-1'' 10) =
      Number (actualBalance (closed_day 9 ''acc-1'' 500 False))"
    by blast
  moreover from opening_balance_of_prior_record [of reopenedDay 9 "''acc-1''"] none
  have "openingBalance_calc (calculateDailyBalance reopenedDay ''acc-1'' 9) = 0"
    by blast
  ultimately show ?thesis
    using opened none by (simp add: closed_day_def Number_def)
qed

text \<open>
  An open record of the day before does not give the opening balance 0: its actual
  balance 500 is the opening balance.
\<close>

theorem opening_balance_open_day_counterexample:
  "dailyBalance reopenedDay (9, ''acc-1'') = Some (closed_day 9 ''acc-1'' 500 False)
   \<and> \<not> isClosed (closed_day 9 ''acc-1'' 500 False)
   \<and> openingBalance_calc (calculateDailyBalance reopenedDay ''acc-1'' 10) = 500
   \<and> openingBalance_calc (calculateDailyBalance reopenedDay ''acc-1'' 10) \<noteq> 0"
  by (simp add: calculation_opening reopenedDay_def closed_day_def Number_def)




section \<open>The transaction service\<close>

lemma reopen_if_closed_frame [simp]:
  "bankAccount (reopen_if_closed tx k) = bankAccount tx"
  "transaction (reopen_if_closed tx k) = transaction tx"
  by (simp_all add: reopen_if_closed_def set_open_def split: option.splits)

lemma delete_transaction_frame:
  "delete_transaction tx i = Inr tx' \<Longrightarrow>
     bankAccount tx' = bankAccount tx \<and> dailyBalance tx' = dailyBalance tx
     \<and> transaction tx' =
         filter (\<lambda>r. relatedTransactionId r \<noteq> Some i) (filter (\<lambda>r. txId r \<noteq> i) (transaction tx))
           @ map (\<lambda>r. r\<lparr>relatedTransactionId := None\<rparr>)
               (filter (\<lambda>r. relatedTransactionId r = Some i)
                  (filter (\<lambda>r. txId r \<noteq> i) (transaction tx)))"
  by (auto simp: delete_transaction_def Let_def split: option.splits)

lemma update_bankAccount_frame:
  "update_bankAccount tx i balance = Inr tx' \<Longrightarrow>
     transaction tx' = transaction tx \<and> dailyBalance tx' = dailyBalance tx"
  by (auto simp: update_bankAccount_def split: option.splits if_splits)

lemma create_transaction_accounts:
  "create_transaction tx decimals data = Inr (row, tx') \<Longrightarrow> bankAccount tx' = bankAccount tx"
  by (auto simp: create_transaction_def Let_def split: if_splits)

lemma update_transaction_accounts:
  "update_transaction tx i decimals f = Inr (row, tx') \<Longrightarrow> bankAccount tx' = bankAccount tx"
  by (auto simp: update_transaction_def split: option.splits if_splits)

lemma createTransaction_tx_accounts:
  assumes "transactionDate_in input \<noteq> today"
  shows "bankAccount (snd (createTransaction_tx today input tx)) = bankAccount tx"
  using assms
  by (auto simp: createTransaction_tx_def Let_def
      split: option.splits sum.splits prod.splits
      dest!: create_transaction_accounts update_transaction_accounts)

lemma updateTransaction_tx_accounts:
  assumes "findUnique_transaction tx i = Some t" "transactionDate t \<noteq> today"
  shows "bankAccount (snd (updateTransaction_tx today i updates userId tx)) = bankAccount tx"
  using assms
  by (auto simp: updateTransaction_tx_def Let_def
      split: option.splits sum.splits prod.splits dest!: update_transaction_accounts)

lemma deleteTransaction_tx_accounts:
  assumes "findUnique_transaction tx i = Some t" "transactionDate t \<noteq> today"
  shows "bankAccount (snd (deleteTransaction_tx today i userId tx)) = bankAccount tx"
proof (cases "bankAccount tx (bankAccountId t)")
  case None
  with assms show ?thesis by (simp add: deleteTransaction_tx_def)
next
  case (Some a)
  define tx1 where "tx1 =
    (if transactionDate t < today
     then reopen_if_closed tx (transactionDate t, bankAccountId t) else tx)"
  define first where "first =
    (case (case relatedTransactionId t of None \<Rightarrow> None
           | Some j \<Rightarrow> findUnique_transaction tx j) of
       None \<Rightarrow> Inr tx1
     | Some related \<Rightarrow> delete_transaction tx1 (txId related))"
  have tx1: "bankAccount tx1 = bankAccount tx" by (simp add: tx1_def)
  have run: "deleteTransaction_tx today i userId tx =
      (case first of
         Inl e \<Rightarrow> (Inl e, tx1)
       | Inr tx3 \<Rightarrow>
           (case delete_transaction tx3 i of
              Inl e \<Rightarrow> (Inl e, tx3)
            | Inr tx4 \<Rightarrow>
                (Inr \<lparr>success = True, isHistoricalDeletion = transactionDate t < today,
                      reopenedDailyBalance_del = transactionDate t < today\<rparr>, tx4)))"
    unfolding tx1_def first_def using assms Some
    by (simp add: deleteTransaction_tx_def Let_def cong: sum.case_cong option.case_cong)
  show ?thesis
  proof (cases first)
    case (Inl e)
    then show ?thesis by (simp add: run tx1)
  next
    case (Inr tx3)
    then have tx3: "bankAccount tx3 = bankAccount tx"
      using tx1 by (auto simp: first_def split: option.splits dest!: delete_transaction_frame)
    show ?thesis
    proof (cases "delete_transaction tx3 i")
      case (Inl e)
      with Inr show ?thesis by (simp add: run tx3)
    next
      case (Inr tx4)
      with \<open>first = Inr tx3\<close> delete_transaction_frame [OF Inr] show ?thesis
        by (simp add: run tx3)
    qed
  qed
qed

lemma prisma_transaction_snd:
  "snd (prisma_transaction body db) = (case fst (body db) of Inl e \<Rightarrow> db | Inr r \<Rightarrow> snd (body db))"
  by (simp add: prisma_transaction_def split: prod.splits sum.splits)

lemma max_id_init:
  "foldr (\<lambda>t. max (txId t)) rows b = max (foldr (\<lambda>t. max (txId t)) rows 0) b"
  by (induction rows) (simp_all add: max.assoc)

lemma new_id_fresh: "t \<in> set rows \<Longrightarrow> txId t < new_id rows"
  by (induction rows) (auto simp: new_id_def)

lemma new_id_append: "txId m = new_id rows \<Longrightarrow> new_id (rows @ [m]) = Suc (new_id rows)"
  by (simp add: new_id_def max_id_init [of rows "Suc _"])

lemma find_append_cases:
  "find P (xs @ ys) = (case find P xs of None \<Rightarrow> find P ys | Some x \<Rightarrow> Some x)"
  by (induction xs) simp_all

lemma find_new_id: "find (\<lambda>t. txId t = new_id rows) rows = None"
  by (auto simp: find_None_iff dest: new_id_fresh)

lemma find_appended:
  "txId m = new_id rows \<Longrightarrow> find (\<lambda>t. txId t = new_id rows) (rows @ m # rest) = Some m"
  by (simp add: find_append_cases find_new_id)

lemma filter_new_id:
  "filter (\<lambda>r. txId r \<noteq> new_id rows) rows = rows"
  by (rule filter_True) (auto dest: new_id_fresh)

text \<open>
  A create that is no transfer with a destination: it succeeds exactly when the amount
  and the new balance are in range.
\<close>

lemma createTransaction_plain:
  assumes "bankAccount db (bankAccountId_in input) = Some a"
    and "\<not> (type_in input = TRANSFER \<and> truthy (transferToBankAccountId_in input))"
    and "newBalance =
        (if type_in input = DEPOSIT
         then Decimal_plus (currentBalance a) (toDecimal (amount_in input))
         else Decimal_minus (currentBalance a) (toDecimal (amount_in input)))"
    and "in_range (toDecimal (amount_in input))" "in_range newBalance"
  shows "\<exists>res db'.
      createTransaction today input db = (Inr res, db')
    \<and> relatedTransaction_res res = None
    \<and> transaction db' = transaction db @ [transaction_res res]
    \<and> txId (transaction_res res) = new_id (transaction db)
    \<and> txType (transaction_res res) = type_in input
    \<and> amount (transaction_res res) = decimal_15_2 (toDecimal (amount_in input))
    \<and> transactionDate (transaction_res res) = transactionDate_in input
    \<and> bankAccountId (transaction_res res) = bankAccountId_in input
    \<and> relatedTransactionId (transaction_res res) = None
    \<and> balanceAfter (transaction_res res) = decimal_15_2 newBalance
    \<and> bankAccount db' =
        (if transactionDate_in input = today
         then (bankAccount db)(bankAccountId_in input \<mapsto>
                a\<lparr>currentBalance := decimal_15_2 newBalance\<rparr>)
         else bankAccount db)"
proof (cases "type_in input = TRANSFER")
  case True
  with assms(2) have "\<not> truthy (transferToBankAccountId_in input)" by simp
  with assms(1,3,4,5) True show ?thesis
    by (simp add: createTransaction_def prisma_transaction_def createTransaction_tx_def Let_def
        create_transaction_def update_bankAccount_def written_def)
next
  case False
  with assms(1,3,4,5) show ?thesis
    by (simp add: createTransaction_def prisma_transaction_def createTransaction_tx_def Let_def
        create_transaction_def update_bankAccount_def written_def)
qed



lemma delete_transaction_ids:
  assumes "delete_transaction tx i = Inr tx'"
  shows "txId ` set (transaction tx') = txId ` set (transaction tx) - {i}"
proof -
  let ?rest = "filter (\<lambda>r. txId r \<noteq> i) (transaction tx)"
  have rows: "transaction tx' =
      filter (\<lambda>r. relatedTransactionId r \<noteq> Some i) ?rest
        @ map (\<lambda>r. r\<lparr>relatedTransactionId := None\<rparr>)
            (filter (\<lambda>r. relatedTransactionId r = Some i) ?rest)"
    using delete_transaction_frame [OF assms] by simp
  have "txId ` set (transaction tx') =
      txId ` set (filter (\<lambda>r. relatedTransactionId r \<noteq> Some i) ?rest)
        \<union> txId ` set (filter (\<lambda>r. relatedTransactionId r = Some i) ?rest)"
    unfolding rows by (simp add: image_Un image_image)
  also have "\<dots> = txId ` set ?rest" by auto
  also have "\<dots> = txId ` set (transaction tx) - {i}" by auto
  finally show ?thesis .
qed

lemma findUnique_transaction_Some:
  "findUnique_transaction tx i = Some t \<Longrightarrow> t \<in> set (transaction tx) \<and> txId t = i"
  by (auto simp: findUnique_transaction_def find_Some_iff)

lemma findUnique_transaction_None:
  "findUnique_transaction tx i = None \<Longrightarrow> i \<notin> txId ` set (transaction tx)"
  by (auto simp: findUnique_transaction_def find_None_iff)

lemma deleteTransaction_tx_Inr:
  assumes "deleteTransaction_tx today i userId tx = (Inr res, tx')"
  shows "\<exists>t tx2 tx3.
      findUnique_transaction tx i = Some t
    \<and> transaction tx2 = transaction tx
    \<and> (case (case relatedTransactionId t of None \<Rightarrow> None
              | Some j \<Rightarrow> findUnique_transaction tx j) of
          None \<Rightarrow> Inr tx2
        | Some related \<Rightarrow> delete_transaction tx2 (txId related)) = Inr tx3
    \<and> delete_transaction tx3 i = Inr tx'"
proof -
  from assms obtain t a where t: "findUnique_transaction tx i = Some t"
    and a: "bankAccount tx (bankAccountId t) = Some a"
    by (auto simp: deleteTransaction_tx_def split: option.splits)
  let ?tx1 = "if transactionDate t < today
     then reopen_if_closed tx (transactionDate t, bankAccountId t) else tx"
  let ?step = "if transactionDate t = today
     then
       let newBalance =
             (if txType t = DEPOSIT
              then Decimal_minus (currentBalance a) (amount t)
              else Decimal_plus (currentBalance a) (amount t))
       in if Number newBalance < 0
          then Inl INSUFFICIENT_BALANCE
          else update_bankAccount ?tx1 (bankAccountId t) newBalance
     else Inr ?tx1"
  from assms obtain tx2 where step: "?step = Inr tx2"
    by (cases ?step) (simp_all add: deleteTransaction_tx_def t a Let_def)
  have rows2: "transaction tx2 = transaction tx"
    using step by (auto simp: Let_def split: if_splits dest!: update_bankAccount_frame)
  let ?related = "case relatedTransactionId t of None \<Rightarrow> None
     | Some j \<Rightarrow> findUnique_transaction tx j"
  let ?first = "case ?related of None \<Rightarrow> Inr tx2
     | Some related \<Rightarrow> delete_transaction tx2 (txId related)"
  from assms step obtain tx3 where first: "?first = Inr tx3"
    by (cases ?first) (simp_all add: deleteTransaction_tx_def t a Let_def)
  from assms step first have "delete_transaction tx3 i = Inr tx'"
    by (cases "delete_transaction tx3 i") (simp_all add: deleteTransaction_tx_def t a Let_def)
  with t rows2 first show ?thesis by blast
qed

lemma deleteTransaction_tx_ids:
  assumes "deleteTransaction_tx today i userId tx = (Inr res, tx')"
  shows "\<exists>t. findUnique_transaction tx i = Some t
     \<and> txId ` set (transaction tx') =
         txId ` set (transaction tx) - {i}
           - (case relatedTransactionId t of None \<Rightarrow> {} | Some j \<Rightarrow> {j})"
proof -
  from deleteTransaction_tx_Inr [OF assms] obtain t tx2 tx3 where
    t: "findUnique_transaction tx i = Some t" and
    rows2: "transaction tx2 = transaction tx" and
    d1: "(case (case relatedTransactionId t of None \<Rightarrow> None
                | Some j \<Rightarrow> findUnique_transaction tx j) of
            None \<Rightarrow> Inr tx2
          | Some related \<Rightarrow> delete_transaction tx2 (txId related)) = Inr tx3" and
    d2: "delete_transaction tx3 i = Inr tx'"
    by blast
  have ids3: "txId ` set (transaction tx3) =
      txId ` set (transaction tx) - (case relatedTransactionId t of None \<Rightarrow> {} | Some j \<Rightarrow> {j})"
  proof (cases "relatedTransactionId t")
    case None
    with d1 rows2 show ?thesis by simp
  next
    case (Some j)
    show ?thesis
    proof (cases "findUnique_transaction tx j")
      case None
      with d1 Some rows2 findUnique_transaction_None [OF None] show ?thesis by auto
    next
      case (Some related)
      with d1 \<open>relatedTransactionId t = Some j\<close> rows2
        findUnique_transaction_Some [OF Some] delete_transaction_ids [of tx2 j tx3]
      show ?thesis by auto
    qed
  qed
  from delete_transaction_ids [OF d2] ids3 t show ?thesis by auto
qed

lemma createTransaction_accounts:
  "transactionDate_in input \<noteq> today \<Longrightarrow>
     bankAccount (snd (createTransaction today input db)) = bankAccount db"
  using createTransaction_tx_accounts [of input today db]
  by (simp add: createTransaction_def prisma_transaction_snd split: sum.splits)

lemma updateTransaction_accounts:
  "findUnique_transaction db i = Some t \<Longrightarrow> transactionDate t \<noteq> today \<Longrightarrow>
     bankAccount (snd (updateTransaction today i updates userId db)) = bankAccount db"
  using updateTransaction_tx_accounts [of db i t today updates userId]
  by (simp add: updateTransaction_def prisma_transaction_snd split: sum.splits)

lemma deleteTransaction_accounts:
  "findUnique_transaction db i = Some t \<Longrightarrow> transactionDate t \<noteq> today \<Longrightarrow>
     bankAccount (snd (deleteTransaction today i userId db)) = bankAccount db"
  using deleteTransaction_tx_accounts [of db i t today userId]
  by (simp add: deleteTransaction_def prisma_transaction_snd split: sum.splits)

lemma updateTransaction_missing:
  "findUnique_transaction db i = None \<Longrightarrow>
     updateTransaction today i updates userId db = (Inl TRANSACTION_NOT_FOUND, db)"
  by (simp add: updateTransaction_def prisma_transaction_def updateTransaction_tx_def)

lemma deleteTransaction_missing:
  "findUnique_transaction db i = None \<Longrightarrow>
     deleteTransaction today i userId db = (Inl TRANSACTION_NOT_FOUND, db)"
  by (simp add: deleteTransaction_def prisma_transaction_def deleteTransaction_tx_def)



lemma createTransaction_failure:
  "fst (createTransaction today input db) = Inl e \<Longrightarrow> snd (createTransaction today input db) = db"
  unfolding createTransaction_def by (rule prisma_transaction_failure)

lemma deleteTransaction_failure:
  "fst (deleteTransaction today i userId db) = Inl e \<Longrightarrow> snd (deleteTransaction today i userId db) = db"
  unfolding deleteTransaction_def by (rule prisma_transaction_failure)

lemma createTransaction_account_found:
  "createTransaction today input db = (Inr res, db') \<Longrightarrow>
     \<exists>a. bankAccount db (bankAccountId_in input) = Some a"
  by (cases "bankAccount db (bankAccountId_in input)")
    (simp_all add: createTransaction_def prisma_transaction_def createTransaction_tx_def)

lemma createTransaction_transfer_rows:
  assumes "type_in input = TRANSFER"
    and "transferToBankAccountId_in input = Some target" "target \<noteq> []"
    and "createTransaction today input db = (Inr res, db')"
  shows "\<exists>paired.
      relatedTransaction_res res = Some paired
    \<and> transaction db' =
        transaction db @ [paired, (transaction_res res)\<lparr>relatedTransactionId := Some (txId paired)\<rparr>]
    \<and> txId (transaction_res res) = new_id (transaction db)
    \<and> txId paired = Suc (new_id (transaction db))
    \<and> txType (transaction_res res) = TRANSFER
    \<and> amount (transaction_res res) = decimal_15_2 (toDecimal (amount_in input))
    \<and> transactionDate (transaction_res res) = transactionDate_in input
    \<and> bankAccountId (transaction_res res) = bankAccountId_in input
    \<and> txType paired = DEPOSIT
    \<and> amount paired = decimal_15_2 (toDecimal (amount_in input))
    \<and> transactionDate paired = transactionDate_in input
    \<and> bankAccountId paired = target
    \<and> relatedTransactionId paired = Some (txId (transaction_res res))"
  using assms
  by (auto simp: createTransaction_def prisma_transaction_def createTransaction_tx_def Let_def
      create_transaction_def update_bankAccount_def update_transaction_def truthy_def
      findUnique_transaction_def find_appended filter_new_id new_id_append written_def
      split: option.splits sum.splits if_splits)

lemma createTransaction_plain_rows:
  assumes "\<not> (type_in input = TRANSFER \<and> truthy (transferToBankAccountId_in input))"
    and "createTransaction today input db = (Inr res, db')"
  shows "relatedTransaction_res res = None
    \<and> transaction db' = transaction db @ [transaction_res res]
    \<and> txId (transaction_res res) = new_id (transaction db)
    \<and> txType (transaction_res res) = type_in input
    \<and> relatedTransactionId (transaction_res res) = None"
proof (cases "type_in input = TRANSFER")
  case True
  with assms(1) have "\<not> truthy (transferToBankAccountId_in input)" by simp
  with assms(2) True show ?thesis
    by (auto simp: createTransaction_def prisma_transaction_def createTransaction_tx_def Let_def
        create_transaction_def update_bankAccount_def
        split: option.splits sum.splits if_splits)
next
  case False
  with assms(2) show ?thesis
    by (auto simp: createTransaction_def prisma_transaction_def createTransaction_tx_def Let_def
        create_transaction_def update_bankAccount_def
        split: option.splits sum.splits if_splits)
qed

lemmas service_defs =
  createTransaction_def createTransaction_tx_def updateTransaction_def updateTransaction_tx_def
  deleteTransaction_def deleteTransaction_tx_def prisma_transaction_def
  create_transaction_def update_transaction_def delete_transaction_def
  findUnique_transaction_def update_bankAccount_def reopen_if_closed_def set_open_def
  truthy_def new_id_def apply_updates_def updates_data_def Decimal_plus_def Decimal_minus_def
  Let_def

lemma transfer_today_result:
  "snd (createTransaction 10 transfer_today twoAccounts) = afterTransfer"
  by (simp add: service_defs transfer_today_def new_transaction_def twoAccounts_def
      afterTransfer_def fun_eq_iff)

lemma delete_first:
  "\<not> isl (fst (deleteTransaction 10 1 ''user-1'' afterTransfer))"
  by (simp add: service_defs afterTransfer_def Number_def)

lemma transfer_today_fields:
  "type_in transfer_today = TRANSFER" "transferToBankAccountId_in transfer_today = Some ''acc-2''"
  "transactionDate_in transfer_today = 10" "amount_in transfer_today = 300"
  "bankAccountId_in transfer_today = ''acc-1''"
  by (simp_all add: transfer_today_def new_transaction_def)

lemma delete_second:
  "\<not> isl (fst (deleteTransaction 10 2 ''user-1'' afterTransfer))"
  by (simp add: service_defs afterTransfer_def Number_def)

lemma not_isl_fst: "\<not> isl (fst p) \<Longrightarrow> \<exists>r. p = (Inr r, snd p)"
  by (cases p; cases "fst p") auto

lemmas bulk_defs =
  bulkUpdateHistoricalTransactions_def bulkUpdateHistoricalTransactions_tx_def
  prisma_transaction_def bulk_step_def bulk_reopen_def set_add_def update_transaction_def
  findUnique_transaction_def reopen_if_closed_def set_open_def apply_updates_def
  updates_data_def

lemma reopen_if_closed_other:
  "k' \<noteq> k \<Longrightarrow> dailyBalance (reopen_if_closed tx k) k' = dailyBalance tx k'"
  by (simp add: reopen_if_closed_def set_open_def split: option.splits)

lemma reopen_if_closed_same:
  "dailyBalance (reopen_if_closed tx k) k =
     (case dailyBalance tx k of
        None \<Rightarrow> None
      | Some b \<Rightarrow> Some (if isClosed b then b\<lparr>isClosed := False, closedBy := None\<rparr> else b))"
  by (simp add: reopen_if_closed_def set_open_def split: option.splits)

lemma reopen_dates_other:
  "a' \<noteq> a \<Longrightarrow>
     dailyBalance (foldl (\<lambda>tx date. reopen_if_closed tx (date, a)) tx dates) (d, a') =
       dailyBalance tx (d, a')"
  by (induction dates arbitrary: tx) (simp_all add: reopen_if_closed_other)

lemma reopen_dates_same:
  "dailyBalance (foldl (\<lambda>tx date. reopen_if_closed tx (date, a)) tx dates) (d, a) =
     (case dailyBalance tx (d, a) of
        None \<Rightarrow> None
      | Some b \<Rightarrow>
          Some (if d \<in> set dates \<and> isClosed b
                then b\<lparr>isClosed := False, closedBy := None\<rparr> else b))"
proof (induction dates arbitrary: tx)
  case Nil
  show ?case by (simp split: option.splits)
next
  case (Cons x dates)
  show ?case
  proof (cases "x = d")
    case True
    show ?thesis
      by (simp add: True Cons.IH reopen_if_closed_same split: option.splits)
  next
    case False
    then show ?thesis
      by (simp add: Cons.IH reopen_if_closed_other split: option.splits)
  qed
qed

lemma reopen_dates_frame:
  "bankAccount (foldl (\<lambda>tx date. reopen_if_closed tx (date, a)) tx dates) = bankAccount tx"
  "transaction (foldl (\<lambda>tx date. reopen_if_closed tx (date, a)) tx dates) = transaction tx"
  by (induction dates arbitrary: tx) simp_all

lemma bulk_reopen_days:
  "dailyBalance (bulk_reopen accounts dates tx) (d, a) =
     (case dailyBalance tx (d, a) of
        None \<Rightarrow> None
      | Some b \<Rightarrow>
          Some (if a \<in> set accounts \<and> d \<in> set dates \<and> isClosed b
                then b\<lparr>isClosed := False, closedBy := None\<rparr> else b))"
  unfolding bulk_reopen_def
proof (induction accounts arbitrary: tx)
  case Nil
  show ?case by (simp split: option.splits)
next
  case (Cons x accounts)
  show ?case
  proof (cases "x = a")
    case True
    show ?thesis
      by (simp add: True Cons.IH reopen_dates_same split: option.splits)
  next
    case False
    then have "a \<noteq> x" by simp
    with False show ?thesis
      by (simp add: Cons.IH reopen_dates_other split: option.splits)
  qed
qed

lemma bulk_reopen_frame:
  "bankAccount (bulk_reopen accounts dates tx) = bankAccount tx"
  "transaction (bulk_reopen accounts dates tx) = transaction tx"
  unfolding bulk_reopen_def
  by (induction accounts arbitrary: tx) (simp_all add: reopen_dates_frame)

lemma bulk_step_frame:
  "bulk_step (Inr (ds, as, tx)) u = Inr (ds', as', tx') \<Longrightarrow>
     bankAccount tx' = bankAccount tx \<and> dailyBalance tx' = dailyBalance tx"
  by (auto simp: bulk_step_def update_transaction_def
      split: prod.splits option.splits sum.splits if_splits)

lemma bulk_steps_Inl: "foldl bulk_step (Inl e) us = Inl e"
  by (induction us) (simp_all add: bulk_step_def)

lemma bulk_steps_frame:
  "foldl bulk_step (Inr (ds, as, tx)) us = Inr (ds', as', tx') \<Longrightarrow>
     bankAccount tx' = bankAccount tx \<and> dailyBalance tx' = dailyBalance tx"
proof (induction us arbitrary: ds as tx)
  case Nil
  then show ?case by simp
next
  case (Cons u us)
  show ?case
  proof (cases "bulk_step (Inr (ds, as, tx)) u")
    case (Inl e)
    with Cons.prems show ?thesis by (simp add: bulk_steps_Inl)
  next
    case (Inr st)
    obtain ds1 as1 tx1 where st: "st = (ds1, as1, tx1)" by (cases st) auto
    from Cons.prems Inr st have "foldl bulk_step (Inr (ds1, as1, tx1)) us = Inr (ds', as', tx')"
      by simp
    from Cons.IH [OF this] bulk_step_frame [OF Inr [unfolded st]] show ?thesis by simp
  qed
qed

text \<open>
  C6, as the code has it. A successful \<open>createTransaction\<close> of a TRANSFER that names a
  destination adds exactly two rows to the table: the TRANSFER on the source account and
  a DEPOSIT on the destination, of the same amount, which is the amount of the input
  rounded to two decimal places, and of the same date, each naming the other in
  \<open>relatedTransactionId\<close>, under two new ids. A successful create of a TRANSFER that
  names no destination adds the TRANSFER alone, with no paired row. A failed create
  leaves the database as it was. A successful \<open>deleteTransaction\<close> removes the row and
  the row that its \<open>relatedTransactionId\<close> names, in the same transaction, and a failed
  one leaves the database as it was.
\<close>

theorem transfer_pair_rows:
  "(\<forall>target res db'.
        type_in input = TRANSFER \<and> transferToBankAccountId_in input = Some target \<and> target \<noteq> []
        \<and> createTransaction today input db = (Inr res, db')
      \<longrightarrow> (\<exists>paired.
             relatedTransaction_res res = Some paired
           \<and> transaction db' =
               transaction db
                 @ [paired, (transaction_res res)\<lparr>relatedTransactionId := Some (txId paired)\<rparr>]
           \<and> txId (transaction_res res) \<noteq> txId paired
           \<and> txId (transaction_res res) \<notin> txId ` set (transaction db)
           \<and> txId paired \<notin> txId ` set (transaction db)
           \<and> txType (transaction_res res) = TRANSFER
           \<and> bankAccountId (transaction_res res) = bankAccountId_in input
           \<and> amount (transaction_res res) = decimal_15_2 (toDecimal (amount_in input))
           \<and> transactionDate (transaction_res res) = transactionDate_in input
           \<and> txType paired = DEPOSIT
           \<and> bankAccountId paired = target
           \<and> amount paired = decimal_15_2 (toDecimal (amount_in input))
           \<and> transactionDate paired = transactionDate_in input
           \<and> relatedTransactionId paired = Some (txId (transaction_res res))))
   \<and> (\<forall>res db'.
        type_in input = TRANSFER \<and> \<not> truthy (transferToBankAccountId_in input)
        \<and> createTransaction today input db = (Inr res, db')
      \<longrightarrow> relatedTransaction_res res = None
        \<and> transaction db' = transaction db @ [transaction_res res]
        \<and> txType (transaction_res res) = TRANSFER
        \<and> relatedTransactionId (transaction_res res) = None)
   \<and> (\<forall>e. fst (createTransaction today input db) = Inl e
        \<longrightarrow> snd (createTransaction today input db) = db)
   \<and> (\<forall>res db'.
        deleteTransaction today transactionId userId db = (Inr res, db')
      \<longrightarrow> (\<exists>t. findUnique_transaction db transactionId = Some t
           \<and> txId ` set (transaction db') =
               txId ` set (transaction db) - {transactionId}
                 - (case relatedTransactionId t of None \<Rightarrow> {} | Some j \<Rightarrow> {j})))
   \<and> (\<forall>e. fst (deleteTransaction today transactionId userId db) = Inl e
        \<longrightarrow> snd (deleteTransaction today transactionId userId db) = db)"
proof -
  have c1: "(\<forall>target res db'.
        type_in input = TRANSFER \<and> transferToBankAccountId_in input = Some target \<and> target \<noteq> []
        \<and> createTransaction today input db = (Inr res, db')
      \<longrightarrow> (\<exists>paired.
             relatedTransaction_res res = Some paired
           \<and> transaction db' =
               transaction db
                 @ [paired, (transaction_res res)\<lparr>relatedTransactionId := Some (txId paired)\<rparr>]
           \<and> txId (transaction_res res) \<noteq> txId paired
           \<and> txId (transaction_res res) \<notin> txId ` set (transaction db)
           \<and> txId paired \<notin> txId ` set (transaction db)
           \<and> txType (transaction_res res) = TRANSFER
           \<and> bankAccountId (transaction_res res) = bankAccountId_in input
           \<and> amount (transaction_res res) = decimal_15_2 (toDecimal (amount_in input))
           \<and> transactionDate (transaction_res res) = transactionDate_in input
           \<and> txType paired = DEPOSIT
           \<and> bankAccountId paired = target
           \<and> amount paired = decimal_15_2 (toDecimal (amount_in input))
           \<and> transactionDate paired = transactionDate_in input
           \<and> relatedTransactionId paired = Some (txId (transaction_res res))))"
  proof (intro allI impI)
    fix target res db'
    assume h: "type_in input = TRANSFER \<and> transferToBankAccountId_in input = Some target \<and> target \<noteq> []
          \<and> createTransaction today input db = (Inr res, db')"
    then obtain paired where p:
        "relatedTransaction_res res = Some paired"
        "transaction db' =
          transaction db @ [paired, (transaction_res res)\<lparr>relatedTransactionId := Some (txId paired)\<rparr>]"
        "txId (transaction_res res) = new_id (transaction db)"
        "txId paired = Suc (new_id (transaction db))"
        "txType (transaction_res res) = TRANSFER"
        "amount (transaction_res res) = decimal_15_2 (toDecimal (amount_in input))"
        "transactionDate (transaction_res res) = transactionDate_in input"
        "bankAccountId (transaction_res res) = bankAccountId_in input"
        "txType paired = DEPOSIT"
        "amount paired = decimal_15_2 (toDecimal (amount_in input))"
        "transactionDate paired = transactionDate_in input"
        "bankAccountId paired = target"
        "relatedTransactionId paired = Some (txId (transaction_res res))"
      using createTransaction_transfer_rows [of input target today db res db'] by blast
    have fresh: "new_id (transaction db) \<notin> txId ` set (transaction db)"
      "Suc (new_id (transaction db)) \<notin> txId ` set (transaction db)"
      using new_id_fresh [of _ "transaction db"] by fastforce+
    show "\<exists>paired.
               relatedTransaction_res res = Some paired
             \<and> transaction db' =
                 transaction db
                   @ [paired, (transaction_res res)\<lparr>relatedTransactionId := Some (txId paired)\<rparr>]
             \<and> txId (transaction_res res) \<noteq> txId paired
             \<and> txId (transaction_res res) \<notin> txId ` set (transaction db)
             \<and> txId paired \<notin> txId ` set (transaction db)
             \<and> txType (transaction_res res) = TRANSFER
             \<and> bankAccountId (transaction_res res) = bankAccountId_in input
             \<and> amount (transaction_res res) = decimal_15_2 (toDecimal (amount_in input))
             \<and> transactionDate (transaction_res res) = transactionDate_in input
             \<and> txType paired = DEPOSIT
             \<and> bankAccountId paired = target
             \<and> amount paired = decimal_15_2 (toDecimal (amount_in input))
             \<and> transactionDate paired = transactionDate_in input
             \<and> relatedTransactionId paired = Some (txId (transaction_res res))"
      by (rule exI [of _ paired]) (simp add: p fresh [unfolded image_iff] image_iff)
  qed
  have c2: "(\<forall>res db'.
        type_in input = TRANSFER \<and> \<not> truthy (transferToBankAccountId_in input)
        \<and> createTransaction today input db = (Inr res, db')
      \<longrightarrow> relatedTransaction_res res = None
        \<and> transaction db' = transaction db @ [transaction_res res]
        \<and> txType (transaction_res res) = TRANSFER
        \<and> relatedTransactionId (transaction_res res) = None)"
  proof (intro allI impI)
    fix res db'
    assume h: "type_in input = TRANSFER \<and> \<not> truthy (transferToBankAccountId_in input)
          \<and> createTransaction today input db = (Inr res, db')"
    then have plain: "\<not> (type_in input = TRANSFER \<and> truthy (transferToBankAccountId_in input))"
      and run: "createTransaction today input db = (Inr res, db')"
      by simp_all
    from createTransaction_plain_rows [OF plain run] h
    show "relatedTransaction_res res = None
          \<and> transaction db' = transaction db @ [transaction_res res]
          \<and> txType (transaction_res res) = TRANSFER
          \<and> relatedTransactionId (transaction_res res) = None"
      by simp
  qed
  have c3: "(\<forall>e. fst (createTransaction today input db) = Inl e
        \<longrightarrow> snd (createTransaction today input db) = db)"
  proof (intro allI impI)
    fix e
    assume "fst (createTransaction today input db) = Inl e"
    then show "snd (createTransaction today input db) = db"
      by (rule createTransaction_failure)
  qed
  have c4: "(\<forall>res db'.
        deleteTransaction today transactionId userId db = (Inr res, db')
      \<longrightarrow> (\<exists>t. findUnique_transaction db transactionId = Some t
           \<and> txId ` set (transaction db') =
               txId ` set (transaction db) - {transactionId}
                 - (case relatedTransactionId t of None \<Rightarrow> {} | Some j \<Rightarrow> {j})))"
  proof (intro allI impI)
    fix res db'
    assume "deleteTransaction today transactionId userId db = (Inr res, db')"
    then have "deleteTransaction_tx today transactionId userId db = (Inr res, db')"
      by (simp add: deleteTransaction_def prisma_transaction_Inr)
    then show "\<exists>t. findUnique_transaction db transactionId = Some t
             \<and> txId ` set (transaction db') =
                 txId ` set (transaction db) - {transactionId}
                   - (case relatedTransactionId t of None \<Rightarrow> {} | Some j \<Rightarrow> {j})"
      by (rule deleteTransaction_tx_ids)
  qed
  have c5: "(\<forall>e. fst (deleteTransaction today transactionId userId db) = Inl e
        \<longrightarrow> snd (deleteTransaction today transactionId userId db) = db)"
  proof (intro allI impI)
    fix e
    assume "fst (deleteTransaction today transactionId userId db) = Inl e"
    then show "snd (deleteTransaction today transactionId userId db) = db"
      by (rule deleteTransaction_failure)
  qed
  from c1 c2 c3 c4 c5 show ?thesis by (intro conjI)
qed

theorem transfer_pair_rows_witness:
  "snd (createTransaction 10 transfer_today twoAccounts) = afterTransfer
   \<and> map summary (transaction afterTransfer)
       = [(2, DEPOSIT, ''acc-2'', 300, Some 1), (1, TRANSFER, ''acc-1'', 300, Some 2)]
   \<and> transaction (snd (deleteTransaction 10 1 ''user-1'' afterTransfer)) = []
   \<and> transaction (snd (deleteTransaction 10 2 ''user-1'' afterTransfer)) = []
   \<and> snd (createTransaction 10 (new_transaction 10 TRANSFER 300 ''acc-1'' (Some ''acc-9'')) twoAccounts)
       = twoAccounts"
proof -
  have rows: "map summary (transaction afterTransfer)
     = [(2, DEPOSIT, ''acc-2'', 300, Some 1), (1, TRANSFER, ''acc-1'', 300, Some 2)]"
    by (simp add: afterTransfer_def summary_def)
  have ids: "txId ` set (transaction afterTransfer) = {1, 2}"
    by (auto simp: afterTransfer_def)
  have first: "map_option relatedTransactionId (findUnique_transaction afterTransfer 1) = Some (Some 2)"
    and second: "map_option relatedTransactionId (findUnique_transaction afterTransfer 2) = Some (Some 1)"
    by (simp_all add: findUnique_transaction_def afterTransfer_def)
  from not_isl_fst [OF delete_first] obtain r1 where
    d1: "deleteTransaction 10 1 ''user-1'' afterTransfer
      = (Inr r1, snd (deleteTransaction 10 1 ''user-1'' afterTransfer))"
    by blast
  from not_isl_fst [OF delete_second] obtain r2 where
    d2: "deleteTransaction 10 2 ''user-1'' afterTransfer
      = (Inr r2, snd (deleteTransaction 10 2 ''user-1'' afterTransfer))"
    by blast
  note deleted = transfer_pair_rows
    [THEN conjunct2, THEN conjunct2, THEN conjunct2, THEN conjunct1, rule_format]
  note failure = transfer_pair_rows [THEN conjunct2, THEN conjunct2, THEN conjunct1, rule_format]
  from deleted [OF d1]
  obtain t1 where "findUnique_transaction afterTransfer 1 = Some t1"
    "txId ` set (transaction (snd (deleteTransaction 10 1 ''user-1'' afterTransfer))) =
       txId ` set (transaction afterTransfer) - {1}
         - (case relatedTransactionId t1 of None \<Rightarrow> {} | Some j \<Rightarrow> {j})"
    by blast
  with first ids have gone1: "transaction (snd (deleteTransaction 10 1 ''user-1'' afterTransfer)) = []"
    by simp
  from deleted [OF d2]
  obtain t2 where "findUnique_transaction afterTransfer 2 = Some t2"
    "txId ` set (transaction (snd (deleteTransaction 10 2 ''user-1'' afterTransfer))) =
       txId ` set (transaction afterTransfer) - {2}
         - (case relatedTransactionId t2 of None \<Rightarrow> {} | Some j \<Rightarrow> {j})"
    by blast
  with second ids have gone2: "transaction (snd (deleteTransaction 10 2 ''user-1'' afterTransfer)) = []"
    by (simp add: insert_Diff_if)
  have "fst (createTransaction 10 (new_transaction 10 TRANSFER 300 ''acc-1'' (Some ''acc-9'')) twoAccounts)
      = Inl TARGET_ACCOUNT_NOT_FOUND"
    by (simp add: service_defs new_transaction_def twoAccounts_def)
  then have failed: "snd (createTransaction 10 (new_transaction 10 TRANSFER 300 ''acc-1'' (Some ''acc-9'')) twoAccounts)
       = twoAccounts"
    by (rule failure)
  note paired = transfer_pair_rows [THEN conjunct1, rule_format]
  note unpaired = transfer_pair_rows [THEN conjunct2, THEN conjunct1, rule_format]
  have "\<not> isl (fst (createTransaction 10 transfer_today twoAccounts))"
    by (simp add: service_defs transfer_today_def new_transaction_def twoAccounts_def)
  from not_isl_fst [OF this] obtain res where
    run: "createTransaction 10 transfer_today twoAccounts = (Inr res, afterTransfer)"
    by (auto simp: transfer_today_result)
  from paired [of transfer_today "''acc-2''" 10 twoAccounts res afterTransfer] run
  obtain p where "relatedTransaction_res res = Some p" "txType p = DEPOSIT"
    "bankAccountId p = ''acc-2''"
    by (auto simp: transfer_today_fields)
  from not_isl_fst [of "createTransaction 10 transfer_without_destination twoAccounts"]
  obtain res' where run': "createTransaction 10 transfer_without_destination twoAccounts
      = (Inr res', snd (createTransaction 10 transfer_without_destination twoAccounts))"
    by (auto simp: service_defs transfer_without_destination_def new_transaction_def
        twoAccounts_def)
  have single: "relatedTransaction_res res' = None"
    by (rule unpaired [OF conjI [OF _ conjI [OF _ run']], THEN conjunct1])
      (simp_all add: transfer_without_destination_def new_transaction_def truthy_def)
  from transfer_today_result rows gone1 gone2 failed show ?thesis by simp
qed

text \<open>
  A TRANSFER with no destination is created without any paired DEPOSIT: the table
  holds the one TRANSFER row, which names no other row.
\<close>

theorem transfer_without_pair_counterexample:
  "\<not> isl (fst (createTransaction 10 transfer_without_destination twoAccounts))
   \<and> map summary (transaction (snd (createTransaction 10 transfer_without_destination twoAccounts)))
       = [(1, TRANSFER, ''acc-1'', 300, None)]"
  by (simp add: service_defs transfer_without_destination_def new_transaction_def
      twoAccounts_def summary_def)

text \<open>
  C7. A create, update or delete of a transaction dated before \<open>today\<close> leaves every
  account as it was, and an operation that changes an account is one on a transaction
  dated \<open>today\<close>. A DEPOSIT created today on an account, with an amount and a new
  balance in the range of their columns, sets the current balance to the old balance plus
  the amount, rounded to two decimal places, and records that balance in \<open>balanceAfter\<close>:
  with balance 1000 and amount 500 both are 1500.
\<close>

theorem past_dated_operations_keep_current_balance:
  "(transactionDate_in input < today
      \<longrightarrow> bankAccount (snd (createTransaction today input db)) = bankAccount db)
   \<and> (bankAccount (snd (createTransaction today input db)) \<noteq> bankAccount db
      \<longrightarrow> transactionDate_in input = today)
   \<and> (\<forall>t. findUnique_transaction db transactionId = Some t \<and> transactionDate t < today
      \<longrightarrow> bankAccount (snd (updateTransaction today transactionId updates userId db)) = bankAccount db
        \<and> bankAccount (snd (deleteTransaction today transactionId userId db)) = bankAccount db)
   \<and> (bankAccount (snd (updateTransaction today transactionId updates userId db)) \<noteq> bankAccount db
        \<or> bankAccount (snd (deleteTransaction today transactionId userId db)) \<noteq> bankAccount db
      \<longrightarrow> (\<exists>t. findUnique_transaction db transactionId = Some t \<and> transactionDate t = today))
   \<and> (\<forall>a. bankAccount db (bankAccountId_in input) = Some a \<and> type_in input = DEPOSIT
          \<and> transactionDate_in input = today
          \<and> in_range (toDecimal (amount_in input))
          \<and> in_range (Decimal_plus (currentBalance a) (toDecimal (amount_in input)))
      \<longrightarrow> (\<exists>res db'.
             createTransaction today input db = (Inr res, db')
           \<and> balanceAfter (transaction_res res) =
               decimal_15_2 (Decimal_plus (currentBalance a) (toDecimal (amount_in input)))
           \<and> bankAccount db' (bankAccountId_in input)
               = Some (a\<lparr>currentBalance :=
                     decimal_15_2 (Decimal_plus (currentBalance a) (toDecimal (amount_in input)))\<rparr>)))
   \<and> (\<forall>a. bankAccount db (bankAccountId_in input) = Some a \<and> currentBalance a = 1000
          \<and> type_in input = DEPOSIT \<and> amount_in input = 500
          \<and> transactionDate_in input = today
      \<longrightarrow> (\<exists>res db'.
             createTransaction today input db = (Inr res, db')
           \<and> balanceAfter (transaction_res res) = 1500
           \<and> bankAccount db' (bankAccountId_in input) = Some (a\<lparr>currentBalance := 1500\<rparr>)))"
proof -
  have create_past: "transactionDate_in input < today
      \<longrightarrow> bankAccount (snd (createTransaction today input db)) = bankAccount db"
    by (simp add: createTransaction_accounts)
  have create_only_today: "bankAccount (snd (createTransaction today input db)) \<noteq> bankAccount db
      \<longrightarrow> transactionDate_in input = today"
    using createTransaction_accounts [of input today db] by blast
  have change_past: "\<forall>t. findUnique_transaction db transactionId = Some t \<and> transactionDate t < today
      \<longrightarrow> bankAccount (snd (updateTransaction today transactionId updates userId db)) = bankAccount db
        \<and> bankAccount (snd (deleteTransaction today transactionId userId db)) = bankAccount db"
    by (simp add: updateTransaction_accounts deleteTransaction_accounts)
  have change_only_today:
    "bankAccount (snd (updateTransaction today transactionId updates userId db)) \<noteq> bankAccount db
        \<or> bankAccount (snd (deleteTransaction today transactionId userId db)) \<noteq> bankAccount db
      \<longrightarrow> (\<exists>t. findUnique_transaction db transactionId = Some t \<and> transactionDate t = today)"
  proof (cases "findUnique_transaction db transactionId")
    case None
    then show ?thesis
      by (simp add: updateTransaction_missing deleteTransaction_missing)
  next
    case (Some t)
    then show ?thesis
      using updateTransaction_accounts [OF Some, of today updates userId]
        deleteTransaction_accounts [OF Some, of today userId]
      by auto
  qed
  have deposit: "\<exists>res db'.
             createTransaction today input db = (Inr res, db')
           \<and> balanceAfter (transaction_res res) =
               decimal_15_2 (Decimal_plus (currentBalance a) (toDecimal (amount_in input)))
           \<and> bankAccount db' (bankAccountId_in input)
               = Some (a\<lparr>currentBalance :=
                     decimal_15_2 (Decimal_plus (currentBalance a) (toDecimal (amount_in input)))\<rparr>)"
    if "bankAccount db (bankAccountId_in input) = Some a \<and> type_in input = DEPOSIT
          \<and> transactionDate_in input = today
          \<and> in_range (toDecimal (amount_in input))
          \<and> in_range (Decimal_plus (currentBalance a) (toDecimal (amount_in input)))" for a
  proof -
    from that have plain: "\<not> (type_in input = TRANSFER \<and> truthy (transferToBankAccountId_in input))"
      and account: "bankAccount db (bankAccountId_in input) = Some a"
      and new: "Decimal_plus (currentBalance a) (toDecimal (amount_in input)) =
        (if type_in input = DEPOSIT
         then Decimal_plus (currentBalance a) (toDecimal (amount_in input))
         else Decimal_minus (currentBalance a) (toDecimal (amount_in input)))"
      and fits: "in_range (toDecimal (amount_in input))"
        "in_range (Decimal_plus (currentBalance a) (toDecimal (amount_in input)))"
      by simp_all
    from createTransaction_plain [OF account plain new fits, where today = today] that
    show ?thesis by auto
  qed
  have scenario: "\<exists>res db'.
             createTransaction today input db = (Inr res, db')
           \<and> balanceAfter (transaction_res res) = 1500
           \<and> bankAccount db' (bankAccountId_in input) = Some (a\<lparr>currentBalance := 1500\<rparr>)"
    if "bankAccount db (bankAccountId_in input) = Some a \<and> currentBalance a = 1000
          \<and> type_in input = DEPOSIT \<and> amount_in input = 500
          \<and> transactionDate_in input = today" for a
    using deposit [of a] that by (auto simp: Decimal_plus_def)
  from create_past create_only_today change_past change_only_today deposit scenario
  show ?thesis by blast
qed

theorem past_dated_operations_keep_current_balance_witness:
  "bankAccount scenarioA ''acc-1'' = Some \<lparr>accountNumber = ''001'', currentBalance = 1000\<rparr>
   \<and> bankAccount (snd (createTransaction 10 deposit_today scenarioA)) ''acc-1''
       = Some \<lparr>accountNumber = ''001'', currentBalance = 1500\<rparr>
   \<and> map balanceAfter (transaction (snd (createTransaction 10 deposit_today scenarioA))) = [1500]
   \<and> bankAccount (snd (createTransaction 10 withdrawal_in_the_past scenarioA)) ''acc-1''
       = Some \<lparr>accountNumber = ''001'', currentBalance = 1000\<rparr>
   \<and> map balanceAfter (transaction (snd (createTransaction 10 withdrawal_in_the_past scenarioA)))
       = [800]
   \<and> bankAccount (snd (updateTransaction 11 1 (new_amount 400) ''user-1'' scenarioB)) = bankAccount scenarioB
   \<and> map amount (transaction (snd (updateTransaction 11 1 (new_amount 400) ''user-1'' scenarioB)))
       = [100, 50, 400]
   \<and> bankAccount (snd (deleteTransaction 11 2 ''user-1'' scenarioB)) = bankAccount scenarioB
   \<and> map txId (transaction (snd (deleteTransaction 11 2 ''user-1'' scenarioB))) = [1, 3]"
proof -
  have account: "bankAccount scenarioA ''acc-1'' = Some \<lparr>accountNumber = ''001'', currentBalance = 1000\<rparr>"
    by (simp add: scenarioA_def)
  have deposit: "bankAccountId_in deposit_today = ''acc-1''" "type_in deposit_today = DEPOSIT"
    "amount_in deposit_today = 500" "transactionDate_in deposit_today = 10"
    "transferToBankAccountId_in deposit_today = None"
    by (simp_all add: deposit_today_def new_transaction_def)
  have withdrawal: "bankAccountId_in withdrawal_in_the_past = ''acc-1''"
    "type_in withdrawal_in_the_past = WITHDRAWAL" "amount_in withdrawal_in_the_past = 200"
    "transactionDate_in withdrawal_in_the_past = 9"
    by (simp_all add: withdrawal_in_the_past_def new_transaction_def)
  note th = past_dated_operations_keep_current_balance
  from th [of deposit_today 10 scenarioA]
  have "\<forall>a. bankAccount scenarioA (bankAccountId_in deposit_today) = Some a \<and> currentBalance a = 1000
          \<and> type_in deposit_today = DEPOSIT \<and> amount_in deposit_today = 500
          \<and> transactionDate_in deposit_today = 10
      \<longrightarrow> (\<exists>res db'.
             createTransaction 10 deposit_today scenarioA = (Inr res, db')
           \<and> balanceAfter (transaction_res res) = 1500
           \<and> bankAccount db' (bankAccountId_in deposit_today) = Some (a\<lparr>currentBalance := 1500\<rparr>))"
    by blast
  with account deposit obtain res db' where
    run: "createTransaction 10 deposit_today scenarioA = (Inr res, db')" and
    after: "balanceAfter (transaction_res res) = 1500" and
    balance: "bankAccount db' ''acc-1'' = Some \<lparr>accountNumber = ''001'', currentBalance = 1500\<rparr>"
    by auto
  have rows: "transaction db' = [transaction_res res]"
    using createTransaction_plain_rows [OF _ run] by (simp add: deposit scenarioA_def)
  from th [of withdrawal_in_the_past 10 scenarioA]
  have past: "bankAccount (snd (createTransaction 10 withdrawal_in_the_past scenarioA)) = bankAccount scenarioA"
    by (simp add: withdrawal)
  have past_rows:
    "map balanceAfter (transaction (snd (createTransaction 10 withdrawal_in_the_past scenarioA))) = [800]"
    by (simp add: service_defs withdrawal_in_the_past_def new_transaction_def scenarioA_def
        written_def)
  note changed = th [THEN conjunct2, THEN conjunct2, THEN conjunct1, rule_format]
  have found1: "findUnique_transaction scenarioB 1 = Some (row_of 1 10 DEPOSIT 300 ''acc-1'')"
    and found2: "findUnique_transaction scenarioB 2 = Some (row_of 2 10 WITHDRAWAL 100 ''acc-1'')"
    and before: "transactionDate (row_of 1 10 DEPOSIT 300 ''acc-1'') < 11"
      "transactionDate (row_of 2 10 WITHDRAWAL 100 ''acc-1'') < 11"
    by (simp_all add: findUnique_transaction_def scenarioB_def row_of_def)
  from changed [OF conjI [OF found1 before(1)], of "new_amount 400" "''user-1''"]
  have u: "bankAccount (snd (updateTransaction 11 1 (new_amount 400) ''user-1'' scenarioB)) = bankAccount scenarioB"
    by simp
  from changed [OF conjI [OF found2 before(2)], of "new_amount 400" "''user-1''"]
  have d: "bankAccount (snd (deleteTransaction 11 2 ''user-1'' scenarioB)) = bankAccount scenarioB"
    by simp
  have new_rows: "map amount (transaction (snd (updateTransaction 11 1 (new_amount 400) ''user-1'' scenarioB)))
       = [100, 50, 400]"
    by (simp add: service_defs scenarioB_def row_of_def closed_day_def new_amount_def number_defs)
  have left: "map txId (transaction (snd (deleteTransaction 11 2 ''user-1'' scenarioB))) = [1, 3]"
    by (simp add: service_defs scenarioB_def row_of_def closed_day_def number_defs)
  from account run after balance rows past past_rows u d new_rows left show ?thesis by simp
qed

text \<open>
  What \<open>bulkUpdateHistoricalTransactions\<close> does: a failure leaves the database as it
  was, and a success touches no account and reopens the closed days of the product of
  the affected accounts and the affected dates that it returns.
\<close>

lemma bulk_update_effect:
  "(\<forall>e. fst (bulkUpdateHistoricalTransactions updates userId db) = Inl e
      \<longrightarrow> snd (bulkUpdateHistoricalTransactions updates userId db) = db)
   \<and> (\<forall>res db'. bulkUpdateHistoricalTransactions updates userId db = (Inr res, db')
      \<longrightarrow> bankAccount db' = bankAccount db
        \<and> (\<forall>d a. dailyBalance db' (d, a) =
             (case dailyBalance db (d, a) of
                None \<Rightarrow> None
              | Some b \<Rightarrow>
                  Some (if a \<in> set (affectedBankAccounts res) \<and> d \<in> set (affectedDates res)
                           \<and> isClosed b
                        then b\<lparr>isClosed := False, closedBy := None\<rparr> else b))))"
proof (intro conjI allI impI)
  fix e
  assume "fst (bulkUpdateHistoricalTransactions updates userId db) = Inl e"
  then show "snd (bulkUpdateHistoricalTransactions updates userId db) = db"
    unfolding bulkUpdateHistoricalTransactions_def by (rule prisma_transaction_failure)
next
  fix res db'
  assume "bulkUpdateHistoricalTransactions updates userId db = (Inr res, db')"
  then have run: "bulkUpdateHistoricalTransactions_tx updates userId db = (Inr res, db')"
    by (simp add: bulkUpdateHistoricalTransactions_def prisma_transaction_Inr)
  then obtain ds accs tx1 where steps: "foldl bulk_step (Inr ([], [], db)) updates = Inr (ds, accs, tx1)"
    by (cases "foldl bulk_step (Inr ([], [], db)) updates")
      (auto simp: bulkUpdateHistoricalTransactions_tx_def)
  from bulk_steps_frame [OF steps]
  have frame: "bankAccount tx1 = bankAccount db" "dailyBalance tx1 = dailyBalance db"
    by simp_all
  from run steps have res: "affectedBankAccounts res = accs" "affectedDates res = ds"
    and db': "db' = bulk_reopen accs ds tx1"
    by (auto simp: bulkUpdateHistoricalTransactions_tx_def)
  show "bankAccount db' = bankAccount db"
    by (simp add: db' bulk_reopen_frame frame)
  fix d a
  show "dailyBalance db' (d, a) =
       (case dailyBalance db (d, a) of
          None \<Rightarrow> None
        | Some b \<Rightarrow>
            Some (if a \<in> set (affectedBankAccounts res) \<and> d \<in> set (affectedDates res)
                     \<and> isClosed b
                  then b\<lparr>isClosed := False, closedBy := None\<rparr> else b))"
    by (simp add: db' res bulk_reopen_days frame cong: option.case_cong)
qed

text \<open>
  C9. \<open>bulkUpdateHistoricalTransactions\<close> reopens the closed days of every affected date
  for every affected account. Updating a transaction of day 5 on the first account and
  one of day 6 on the second reopens day 5 of the second account, on which no
  transaction was updated.
\<close>

theorem bulk_update_reopens_untouched_day:
  "transactions_of bulkDays ''acc-2'' 5 = []
   \<and> dailyBalance bulkDays (5, ''acc-2'') = Some (closed_day 5 ''acc-2'' 0 True)
   \<and> dailyBalance
        (snd (bulkUpdateHistoricalTransactions
               [(1, new_note ''checked''), (2, new_note ''checked'')] ''user-1'' bulkDays))
        (5, ''acc-2'')
       = Some (closed_day 5 ''acc-2'' 0 False)"
  by (simp add: bulk_defs bulkDays_def row_of_def closed_day_def new_note_def transactions_of_def)





end
